(* ===== verification/Prelude.thy ===== *)
theory Prelude
  imports Main "HOL-Library.Sublist"
begin

text \<open>
  Shared vocabulary of the development. JavaScript strings are modelled as
  \<open>string\<close> (a list of \<open>char\<close>; one \<open>char\<close> stands for one UTF-16 code unit of
  the source, so ASCII text is represented exactly). This theory holds the
  string operations of the JavaScript standard library that the sources call
  (\<open>split\<close> and \<open>join\<close> with a one-character separator, \<open>startsWith\<close>,
  \<open>includes\<close>, \<open>toLowerCase\<close> on ASCII, the decimal rendering of an integer in a
  template literal) together with their algebra, and the collection
  \<open>model_simps\<close> of rewrite rules the component theories share.
\<close>

named_theorems model_simps "rewrite rules shared by the component theories"

type_synonym js_string = string

section \<open>Decimal rendering of numbers\<close>

definition digit_char :: "nat \<Rightarrow> char" where
  "digit_char d = char_of (48 + d)"

definition is_digit :: "char \<Rightarrow> bool" where
  "is_digit c \<longleftrightarrow> (let n = (of_char c :: nat) in 48 \<le> n \<and> n \<le> 57)"

fun show_nat :: "nat \<Rightarrow> string" where
  "show_nat n = (if n < 10 then [digit_char n] else show_nat (n div 10) @ [digit_char (n mod 10)])"

declare show_nat.simps [simp del]

text \<open>\<open>${n}\<close> of a JavaScript integer: a minus sign and the digits of the magnitude.\<close>

definition show_int :: "int \<Rightarrow> string" where
  "show_int i = (if i < 0 then CHR ''-'' # show_nat (nat (- i)) else show_nat (nat i))"

definition read_nat :: "string \<Rightarrow> nat" where
  "read_nat s = foldl (\<lambda>acc c. 10 * acc + (of_char c - 48)) 0 s"

definition read_int :: "string \<Rightarrow> int" where
  "read_int s = (if s \<noteq> [] \<and> hd s = CHR ''-'' then - int (read_nat (tl s)) else int (read_nat s))"

section \<open>JavaScript string operations\<close>

text \<open>\<open>s.split(c)\<close> for a one-character separator: never empty, \<open>"".split(c) = [""]\<close>.\<close>

fun js_split :: "char \<Rightarrow> string \<Rightarrow> string list" where
  "js_split c [] = [[]]"
| "js_split c (x # xs) =
     (let r = js_split c xs in if x = c then [] # r else (x # hd r) # tl r)"

text \<open>\<open>parts.join(c)\<close>.\<close>

fun js_join :: "char \<Rightarrow> string list \<Rightarrow> string" where
  "js_join c [] = []"
| "js_join c [w] = w"
| "js_join c (w # ws) = w @ c # js_join c ws"

definition starts_with :: "string \<Rightarrow> string \<Rightarrow> bool" where
  "starts_with s p \<longleftrightarrow> prefix p s"

text \<open>\<open>s.includes(t)\<close>: \<open>t\<close> occurs contiguously in \<open>s\<close>.\<close>

fun js_includes :: "string \<Rightarrow> string \<Rightarrow> bool" where
  "js_includes [] t = (t = [])"
| "js_includes (x # xs) t = (prefix t (x # xs) \<or> js_includes xs t)"

text \<open>\<open>String.prototype.toLowerCase\<close> on the ASCII letters.\<close>

definition lower_char :: "char \<Rightarrow> char" where
  "lower_char c = (let n = (of_char c :: nat) in if 65 \<le> n \<and> n \<le> 90 then char_of (n + 32) else c)"

definition to_lower :: "string \<Rightarrow> string" where
  "to_lower s = map lower_char s"

text \<open>The characters of the regular expression class \<open>\s\<close> in the ASCII range.\<close>

definition is_js_space :: "char \<Rightarrow> bool" where
  "is_js_space c \<longleftrightarrow> c \<in> {CHR '' '', CHR 0x09, CHR 0x0A, CHR 0x0B, CHR 0x0C, CHR 0x0D}"

section \<open>Lemmas on decimal rendering\<close>

lemma digit_char_of_char [simp]: "d < 10 \<Longrightarrow> of_char (digit_char d) = 48 + d"
  by (simp add: digit_char_def)

lemma is_digit_digit_char [simp]: "d < 10 \<Longrightarrow> is_digit (digit_char d)"
  by (simp add: is_digit_def)

lemma show_nat_digits [model_simps]: "\<forall>c \<in> set (show_nat n). is_digit c"
proof (induction n rule: show_nat.induct)
  case (1 n)
  then show ?case by (subst show_nat.simps) auto
qed

lemma show_nat_nonempty [simp]: "show_nat n \<noteq> []"
  by (subst show_nat.simps) simp

lemma read_nat_snoc: "read_nat (s @ [c]) = 10 * read_nat s + (of_char c - 48)"
  by (simp add: read_nat_def)

lemma read_show_nat [simp]: "read_nat (show_nat n) = n"
proof (induction n rule: show_nat.induct)
  case (1 n)
  show ?case
  proof (cases "n < 10")
    case True
    then show ?thesis by (simp add: show_nat.simps [of n] read_nat_def)
  next
    case False
    then have "read_nat (show_nat (n div 10)) = n div 10" using "1.IH" by simp
    with False show ?thesis by (simp add: show_nat.simps [of n] read_nat_snoc)
  qed
qed

lemma show_nat_inj: "show_nat m = show_nat n \<longleftrightarrow> m = n"
  by (metis read_show_nat)

lemma show_nat_no_minus [simp]: "CHR ''-'' \<notin> set (show_nat n)"
  using show_nat_digits [of n] by (auto simp: is_digit_def)

lemma show_nat_hd: "hd (show_nat n) \<noteq> CHR ''-''"
  using show_nat_no_minus [of n] hd_in_set [OF show_nat_nonempty] by metis

lemma read_show_int [simp]: "read_int (show_int i) = i"
proof (cases "i < 0")
  case True
  then show ?thesis by (simp add: show_int_def read_int_def)
next
  case False
  then have "read_int (show_nat (nat i)) = int (read_nat (show_nat (nat i)))"
    using show_nat_hd [of "nat i"] by (simp add: read_int_def)
  with False show ?thesis by (simp add: show_int_def)
qed

lemma show_int_chars: "c \<in> set (show_int i) \<Longrightarrow> c = CHR ''-'' \<or> is_digit c"
  using show_nat_digits by (auto simp: show_int_def split: if_splits)

lemma show_int_no_space [simp]: "CHR '' '' \<notin> set (show_int i)"
  using show_int_chars [of "CHR '' ''" i] by (auto simp: is_digit_def)

lemma show_int_inj [simp]: "show_int i = show_int j \<longleftrightarrow> i = j"
  by (metis read_show_int)

section \<open>Lemmas on split and join\<close>

lemma js_split_nonempty [simp]: "js_split c s \<noteq> []"
  by (induction s) (auto simp: Let_def)

lemma js_split_no_sep [model_simps]: "w \<in> set (js_split c s) \<Longrightarrow> c \<notin> set w"
proof (induction s arbitrary: w)
  case Nil
  then show ?case by simp
next
  case (Cons x xs)
  obtain r rs where r: "js_split c xs = r # rs"
    using js_split_nonempty by (metis list.exhaust)
  with Cons show ?case by (auto simp: Let_def split: if_splits)
qed

lemma set_js_split_piece: "w \<in> set (js_split c s) \<Longrightarrow> set w \<subseteq> set s"
proof (induction s arbitrary: w)
  case Nil
  then show ?case by simp
next
  case (Cons x xs)
  obtain r rs where r: "js_split c xs = r # rs"
    using js_split_nonempty by (metis list.exhaust)
  with Cons show ?case by (fastforce simp: Let_def split: if_splits)
qed

lemma js_split_Cons_sep [simp]: "js_split c (c # xs) = [] # js_split c xs"
  by simp

lemma js_split_Cons_other:
  "x \<noteq> c \<Longrightarrow> js_split c (x # xs) = (x # hd (js_split c xs)) # tl (js_split c xs)"
  by (simp add: Let_def)

lemma js_split_free [simp]: "c \<notin> set s \<Longrightarrow> js_split c s = [s]"
  by (induction s) auto

lemma js_split_append_sep [simp]:
  "c \<notin> set a \<Longrightarrow> js_split c (a @ c # b) = a # js_split c b"
  by (induction a) auto

lemma js_join_Cons: "ws \<noteq> [] \<Longrightarrow> js_join c (w # ws) = w @ c # js_join c ws"
  by (cases ws) auto

lemma js_join_split [simp]: "js_join c (js_split c s) = s"
proof (induction s)
  case Nil
  then show ?case by simp
next
  case (Cons x xs)
  obtain r rs where r: "js_split c xs = r # rs"
    using js_split_nonempty by (metis list.exhaust)
  show ?case
  proof (cases "x = c")
    case True
    with Cons r show ?thesis by simp
  next
    case False
    with Cons r show ?thesis by (cases rs) auto
  qed
qed

lemma set_js_join_subset: "set (js_join c ws) \<subseteq> insert c (\<Union>w \<in> set ws. set w)"
  by (induction c ws rule: js_join.induct) auto

lemma js_join_free:
  "\<forall>w \<in> set ws. x \<notin> set w \<Longrightarrow> x \<noteq> c \<Longrightarrow> x \<notin> set (js_join c ws)"
  using set_js_join_subset [of c ws] by blast

lemma last_js_split_append [simp]:
  "c \<notin> set b \<Longrightarrow> last (js_split c (a @ c # b)) = b"
proof (induction a)
  case Nil
  then show ?case by simp
next
  case (Cons x xs)
  obtain r rs where r: "js_split c (xs @ c # b) = r # rs"
    using js_split_nonempty by (metis list.exhaust)
  have "rs \<noteq> []"
  proof
    assume "rs = []"
    with r have "js_join c (js_split c (xs @ c # b)) = r" by simp
    moreover have "c \<notin> set r"
      using js_split_no_sep [of r c "xs @ c # b"] r by simp
    moreover have "c \<in> set (xs @ c # b)" by simp
    ultimately show False by simp
  qed
  with Cons r show ?case by (auto simp: Let_def)
qed

lemma map_sum_id_Inr [simp]:
  "map_sum id f a = Inr r \<longleftrightarrow> (\<exists>x. a = Inr x \<and> r = f x)"
  by (cases a) auto

lemma set_map_filter [model_simps]:
  "set (List.map_filter f xs) = {y. \<exists>x \<in> set xs. f x = Some y}"
  by (induction xs) (auto split: option.splits)

lemma starts_with_append [simp]: "starts_with (p @ s) p"
  by (simp add: starts_with_def)

lemma js_includes_iff: "js_includes s t \<longleftrightarrow> (\<exists>a b. s = a @ t @ b)"
proof (induction s)
  case Nil
  then show ?case by simp
next
  case (Cons x xs)
  show ?case
  proof
    assume inc: "js_includes (x # xs) t"
    show "\<exists>a b. x # xs = a @ t @ b"
    proof (cases "prefix t (x # xs)")
      case True
      then obtain zs where "x # xs = t @ zs" by (auto simp: prefix_def)
      then have "x # xs = [] @ t @ zs" by simp
      then show ?thesis by blast
    next
      case False
      with inc Cons.IH obtain a b where "xs = a @ t @ b" by auto
      then have "x # xs = (x # a) @ t @ b" by simp
      then show ?thesis by blast
    qed
  next
    assume "\<exists>a b. x # xs = a @ t @ b"
    then obtain a b where ab: "x # xs = a @ t @ b" by blast
    show "js_includes (x # xs) t"
    proof (cases a)
      case Nil
      with ab have "prefix t (x # xs)" by (simp add: prefix_def)
      then show ?thesis by simp
    next
      case (Cons y ys)
      with ab Cons.IH show ?thesis by auto
    qed
  qed
qed

lemma find_append_split: "find P (xs @ ys) = (case find P xs of None \<Rightarrow> find P ys | Some x \<Rightarrow> Some x)"
  by (induction xs) auto

text \<open>In a list sorted by a key, an element of smaller key comes first.\<close>

lemma sorted_key_before:
  assumes "sorted (map f xs)" "x \<in> set xs" "y \<in> set xs" "f x < f y"
  shows "\<exists>i j. i < j \<and> j < length xs \<and> xs ! i = x \<and> xs ! j = y"
proof -
  obtain i j where i: "i < length xs" "xs ! i = x" and j: "j < length xs" "xs ! j = y"
    using assms(2,3) by (metis in_set_conv_nth)
  have "\<not> j \<le> i"
  proof
    assume "j \<le> i"
    with sorted_nth_mono [OF assms(1), of j i] i have "f y \<le> f x" by (simp add: j)
    with assms(4) show False by simp
  qed
  with i j show ?thesis by (intro exI [of _ i] exI [of _ j]) simp
qed

end
