(* ===== verification/SearchTypes.thy ===== *)
theory SearchTypes
  imports Prelude
begin

text \<open>
  The data model of \<open>src/src/globals/search-types.ts\<close>: indexed documents and
  their references, lines of a file, matched and highlighted lines, and the
  polymorphic result items. The TypeScript class hierarchy under \<open>Item\<close>
  (\<open>LineItem\<close>, \<open>FileItem\<close>, \<open>FileSubItem\<close>), which the UI tells apart with
  \<open>instanceof\<close>, is a \<^theory_text>\<open>datatype\<close> with one constructor per subclass. The
  optional DOM \<open>element\<close> of an item is UI state and is not modelled. A
  \<open>Set<number>\<close> of matched columns is a duplicate-free list in insertion order,
  which is how a JavaScript \<open>Set\<close> iterates.
\<close>

text \<open>\<open>IndexedDocument\<close>: \<open>aliases\<close> and \<open>content\<close> are optional fields.\<close>

record indexed_document =
  doc_path :: string
  doc_basename :: string
  doc_folder :: string
  doc_aliases :: "string option"
  doc_content :: "string option"

text \<open>\<open>DocumentRef\<close>: the numeric handle is optional (\<open>id?: number\<close>).\<close>

record document_ref =
  ref_id :: "nat option"
  ref_path :: string
  lexical_mtime :: int
  embedding_mtime :: int

text \<open>\<open>class Line { text; row }\<close>; the field \<open>text\<close> is \<open>line_text\<close>, since \<^theory_text>\<open>text\<close> is a command.\<close>

record line =
  line_text :: string
  row :: nat

text \<open>\<open>HighlightedContext = Line & { col }\<close>: the column of the first highlighted character.\<close>

record highlighted_context = line +
  col :: nat

text \<open>\<open>MatchedLine = Line & { positions: Set<number> }\<close>.\<close>

record matched_line = line +
  positions :: "nat list"

text \<open>\<open>MatchedFile\<close>.\<close>

record matched_file =
  mf_path :: string
  matched_terms :: "string list"

datatype search_type = NONE | IN_FILE | IN_VAULT

datatype engine_type = LEXICAL | SEMANTIC

text \<open>The \<open>mode\<close> argument of \<open>LineHighlighter.parse\<close>: \<open>"line" | "paragraph" | "subItem"\<close>.\<close>

datatype hl_mode = LineMode | ParagraphMode | SubItemMode

text \<open>The query mode of \<open>LexicalEngine.searchFiles\<close>: \<open>"and" | "or"\<close>.\<close>

datatype query_mode = ModeAnd | ModeOr

text \<open>A value of TypeScript type \<open>any\<close>, as far as the sources store one.\<close>

datatype js_any = JsUndefined | JsString string

text \<open>\<open>FileSubItem\<close>: the text of a sub-item and its origin row and column.\<close>

record file_sub_item =
  sub_text :: string
  sub_row :: nat
  sub_col :: nat

text \<open>The run-time value of the \<open>subItems\<close> field of a \<open>FileItem\<close>. It is declared
  \<open>FileSubItem[]\<close>, but the constructor stores whatever its fourth argument is, and
  the only construction site in the sources passes a string there.\<close>

datatype sub_items_value = SubItemList "file_sub_item list" | SubItemText string

text \<open>\<open>FileItem\<close>: its constructor
  \<open>(engineType, path, matchedTerms, subItems, previewContent)\<close> stores each argument
  in the field of the same name; \<open>previewContent\<close> has type \<open>any\<close>.\<close>

record file_item =
  engine :: engine_type
  fi_path :: string
  fi_matched_terms :: "string list"
  sub_items :: sub_items_value
  preview_content :: js_any

text \<open>\<open>LineItem\<close>: the highlighted line and its paragraph context.\<close>

record line_item =
  li_line :: highlighted_context
  li_context :: string

datatype item =
    LineItem line_item
  | FileItem file_item
  | FileSubItem file_sub_item

text \<open>\<open>class SearchResult { currPath; items }\<close>.\<close>

record search_result =
  curr_path :: string
  items :: "item list"

text \<open>\<open>new Line(text, index)\<close> over the lines of a file, as every caller numbers them.\<close>

definition number_lines :: "string list \<Rightarrow> line list" where
  "number_lines ts = map (\<lambda>(i, t). \<lparr>line_text = t, row = i\<rparr>) (enumerate 0 ts)"

definition empty_result :: "string \<Rightarrow> search_result" where
  "empty_result p = \<lparr>curr_path = p, items = []\<rparr>"

text \<open>A matched line is well formed when its columns are distinct offsets into its text.\<close>

definition valid_match :: "'a matched_line_scheme \<Rightarrow> bool" where
  "valid_match m \<longleftrightarrow> distinct (positions m) \<and> (\<forall>p \<in> set (positions m). p < length (line_text m))"

lemma length_number_lines [simp]: "length (number_lines ts) = length ts"
  by (simp add: number_lines_def)

lemma nth_number_lines [simp]:
  "i < length ts \<Longrightarrow> number_lines ts ! i = \<lparr>line_text = ts ! i, row = i\<rparr>"
  by (simp add: number_lines_def nth_enumerate_eq)

lemma row_number_lines [model_simps]: "l \<in> set (number_lines ts) \<Longrightarrow> row l < length ts \<and> line_text l = ts ! row l"
  by (auto simp: in_set_conv_nth)

lemma map_text_number_lines [simp]: "map line_text (number_lines ts) = ts"
  by (rule nth_equalityI) auto

end
