(* ===== verification/LineMatcher.thy ===== *)
theory LineMatcher
  imports SearchTypes "HOL-Library.Product_Lexorder"
begin

text \<open>
  The in-file line matcher of the lexical engine (\<open>LexicalEngine.fzfMatch\<close> and
  \<open>LexicalEngine.searchLines\<close>, called from
  \<open>src/src/services/obsidian/search-service.ts\<close>; the engine's own file is not
  part of the repository's sources, so this component is modelled from the
  specification, section 4.4). A query matches a line when its characters occur
  in the line in order (ASCII letters compared without case); the recorded
  columns are the canonical alignment that takes every query character at the
  earliest possible column. Lines are scored for consecutive matched columns,
  matches at word starts and short lines, ranked by descending score with ties
  broken by ascending row, and cut at the caller's limit.
\<close>

definition char_eq :: "char \<Rightarrow> char \<Rightarrow> bool" where
  "char_eq a b \<longleftrightarrow> lower_char a = lower_char b"

text \<open>The earliest alignment of a query in a text: \<open>None\<close> when some query
  character has no place left.\<close>

fun greedy_match :: "string \<Rightarrow> string \<Rightarrow> nat list option" where
  "greedy_match [] t = Some []"
| "greedy_match (q # qs) [] = None"
| "greedy_match (q # qs) (c # cs) =
     (if char_eq q c then map_option (\<lambda>ps. 0 # map Suc ps) (greedy_match qs cs)
      else map_option (map Suc) (greedy_match (q # qs) cs))"

definition is_alnum :: "char \<Rightarrow> bool" where
  "is_alnum c \<longleftrightarrow> is_digit c \<or> lower_char c \<noteq> c \<or> (let n = (of_char c :: nat) in 97 \<le> n \<and> n \<le> 122)"

definition consecutive :: "nat list \<Rightarrow> nat" where
  "consecutive ps = length (filter (\<lambda>(a, b). b = Suc a) (zip ps (tl ps)))"

definition boundary_hits :: "string \<Rightarrow> nat list \<Rightarrow> nat" where
  "boundary_hits t ps = length (filter (\<lambda>p. p = 0 \<or> \<not> is_alnum (t ! (p - 1))) ps)"

definition fzf_score :: "string \<Rightarrow> nat list \<Rightarrow> int" where
  "fzf_score t ps = 4 * int (consecutive ps) + 2 * int (boundary_hits t ps) - int (length t) div 8"

text \<open>One line against the query: its matched columns and score, if it matches.\<close>

definition match_line :: "string \<Rightarrow> line \<Rightarrow> (int \<times> matched_line) option" where
  "match_line q l =
     map_option (\<lambda>ps. (fzf_score (line_text l) ps,
                       \<lparr>line_text = line_text l, row = row l, positions = ps\<rparr>))
       (greedy_match q (line_text l))"

definition rank_key :: "int \<times> matched_line \<Rightarrow> int \<times> nat" where
  "rank_key sm = (- fst sm, row (snd sm))"

text \<open>\<open>fzfMatch(query, lines)\<close>: every matching line, best first.\<close>

definition fzf_match :: "string \<Rightarrow> line list \<Rightarrow> matched_line list" where
  "fzf_match q ls =
     (if q = [] then [] else map snd (sort_key rank_key (List.map_filter (match_line q) ls)))"

text \<open>\<open>searchLines(lines, query, limit)\<close>: the same ranking cut at \<open>limit\<close>.\<close>

definition search_lines :: "line list \<Rightarrow> string \<Rightarrow> nat \<Rightarrow> matched_line list" where
  "search_lines ls q limit = take limit (fzf_match q ls)"

text \<open>The score a ranked line carries.\<close>

definition line_score :: "matched_line \<Rightarrow> int" where
  "line_score m = fzf_score (line_text m) (positions m)"

section \<open>Specification of an alignment\<close>

text \<open>An alignment of a query in a text: one strictly increasing column per query
  character, inside the text, holding an equal character.\<close>

definition alignment :: "string \<Rightarrow> string \<Rightarrow> nat list \<Rightarrow> bool" where
  "alignment q t ps \<longleftrightarrow> length ps = length q \<and> sorted_wrt (<) ps \<and>
     (\<forall>p \<in> set ps. p < length t) \<and> (\<forall>k < length q. char_eq (q ! k) (t ! (ps ! k)))"

lemma char_eq_refl [simp]: "char_eq a a"
  by (simp add: char_eq_def)

lemma greedy_match_Nil_text [simp]: "greedy_match q [] = (if q = [] then Some [] else None)"
  by (cases q) auto

lemma greedy_match_alignment:
  "greedy_match q t = Some ps \<Longrightarrow> alignment q t ps"
proof (induction q t arbitrary: ps rule: greedy_match.induct)
  case (1 t)
  then show ?case by (auto simp: alignment_def)
next
  case (2 q qs)
  then show ?case by simp
next
  case (3 q qs c cs)
  show ?case
  proof (cases "char_eq q c")
    case True
    with "3.prems" obtain ps0 where ps0: "greedy_match qs cs = Some ps0" and ps: "ps = 0 # map Suc ps0"
      by auto
    from "3.IH"(1) [OF True ps0] have "alignment qs cs ps0" .
    with True ps show ?thesis
      by (auto simp: alignment_def sorted_wrt_map nth_Cons' less_Suc_eq_0_disj)
  next
    case False
    with "3.prems" obtain ps0 where ps0: "greedy_match (q # qs) cs = Some ps0" and ps: "ps = map Suc ps0"
      by auto
    from "3.IH"(2) [OF False ps0] have "alignment (q # qs) cs ps0" .
    with ps show ?thesis
      by (auto simp: alignment_def sorted_wrt_map)
  qed
qed

lemma alignment_shift:
  assumes "alignment q (c # cs) ps" and "\<forall>p \<in> set ps. 0 < p"
  shows "alignment q cs (map (\<lambda>p. p - 1) ps)"
proof -
  have "sorted_wrt (\<lambda>x y. x - 1 < y - 1) ps"
    by (rule sorted_wrt_mono_rel [of _ "(<)"]) (use assms in \<open>auto simp: alignment_def\<close>)
  then have mono: "sorted_wrt (<) (map (\<lambda>p. p - 1) ps)"
    by (simp add: sorted_wrt_map)
  have "\<forall>k < length q. char_eq (q ! k) (cs ! (ps ! k - 1))"
  proof (intro allI impI)
    fix k assume k: "k < length q"
    with assms have "0 < ps ! k" and "char_eq (q ! k) ((c # cs) ! (ps ! k))"
      by (auto simp: alignment_def)
    then show "char_eq (q ! k) (cs ! (ps ! k - 1))" by (simp add: nth_Cons')
  qed
  with mono assms show ?thesis by (fastforce simp: alignment_def)
qed

lemma alignment_tail:
  assumes "alignment (q # qs) t (p0 # rest)"
  shows "alignment qs t rest \<and> (\<forall>p \<in> set rest. p0 < p) \<and> char_eq q (t ! p0)"
proof -
  have "\<forall>k < length qs. char_eq (qs ! k) (t ! (rest ! k))"
  proof (intro allI impI)
    fix k assume "k < length qs"
    with assms have "char_eq ((q # qs) ! Suc k) (t ! ((p0 # rest) ! Suc k))"
      unfolding alignment_def by (metis Suc_less_eq length_Cons)
    then show "char_eq (qs ! k) (t ! (rest ! k))" by simp
  qed
  with assms show ?thesis by (auto simp: alignment_def)
qed

lemma greedy_match_earliest:
  "alignment q t ps' \<Longrightarrow> \<exists>ps. greedy_match q t = Some ps \<and> (\<forall>k < length q. ps ! k \<le> ps' ! k)"
proof (induction q t arbitrary: ps' rule: greedy_match.induct)
  case (1 t)
  then show ?case by simp
next
  case (2 q qs)
  then show ?case by (auto simp: alignment_def)
next
  case (3 q qs c cs)
  from "3.prems" obtain p0 rest where ps': "ps' = p0 # rest"
    by (cases ps') (auto simp: alignment_def)
  from "3.prems" ps' alignment_tail have al: "alignment qs (c # cs) rest"
    and gt: "\<forall>p \<in> set rest. p0 < p" and eq0: "char_eq q ((c # cs) ! p0)"
    by blast+
  from "3.prems" ps' have lens: "length rest = length qs" by (simp add: alignment_def)
  show ?case
  proof (cases "char_eq q c")
    case True
    from gt have pos: "\<forall>p \<in> set rest. 0 < p" by auto
    from "3.IH"(1) [OF True alignment_shift [OF al pos]] obtain ps0 where
      ps0: "greedy_match qs cs = Some ps0" and le: "\<forall>k < length qs. ps0 ! k \<le> map (\<lambda>p. p - 1) rest ! k"
      by blast
    have "\<forall>k < length (q # qs). (0 # map Suc ps0) ! k \<le> ps' ! k"
    proof (intro allI impI)
      fix k assume k: "k < length (q # qs)"
      show "(0 # map Suc ps0) ! k \<le> ps' ! k"
      proof (cases k)
        case 0
        then show ?thesis by simp
      next
        case (Suc j)
        with k lens have j: "j < length qs" "j < length rest" by simp_all
        from ps0 j have j0: "j < length ps0"
          using greedy_match_alignment by (fastforce simp: alignment_def)
        from le j(1) have "ps0 ! j \<le> map (\<lambda>p. p - 1) rest ! j" by blast
        with j(2) have "ps0 ! j \<le> rest ! j - 1" by simp
        moreover from pos j have "0 < rest ! j" by simp
        ultimately show ?thesis using Suc ps' j0 by simp
      qed
    qed
    with True ps0 show ?thesis by simp
  next
    case False
    with eq0 have "p0 \<noteq> 0" by (cases p0) auto
    with gt ps' have pos: "\<forall>p \<in> set ps'. 0 < p" by auto
    from "3.IH"(2) [OF False alignment_shift [OF "3.prems" pos]] obtain ps0 where
      ps0: "greedy_match (q # qs) cs = Some ps0" and le: "\<forall>k < length (q # qs). ps0 ! k \<le> map (\<lambda>p. p - 1) ps' ! k"
      by blast
    have "\<forall>k < length (q # qs). map Suc ps0 ! k \<le> ps' ! k"
    proof (intro allI impI)
      fix k assume k: "k < length (q # qs)"
      with "3.prems" have kp: "k < length ps'" by (simp add: alignment_def)
      from ps0 k have k0: "k < length ps0"
        using greedy_match_alignment by (fastforce simp: alignment_def)
      from le k have "ps0 ! k \<le> map (\<lambda>p. p - 1) ps' ! k" by blast
      with kp have "ps0 ! k \<le> ps' ! k - 1" by simp
      moreover from pos kp have "0 < ps' ! k" by simp
      ultimately show "map Suc ps0 ! k \<le> ps' ! k" using k0 by simp
    qed
    with False ps0 show ?thesis by simp
  qed
qed

lemma greedy_match_None_iff:
  "greedy_match q t \<noteq> None \<longleftrightarrow> subseq (map lower_char q) (map lower_char t)"
  by (induction q t rule: greedy_match.induct) (auto simp: char_eq_def)

lemma match_line_Some:
  "match_line q l = Some (s, m) \<longleftrightarrow>
     (\<exists>ps. greedy_match q (line_text l) = Some ps \<and> s = fzf_score (line_text l) ps \<and>
           m = \<lparr>line_text = line_text l, row = row l, positions = ps\<rparr>)"
  by (auto simp: match_line_def)

lemma set_fzf_match:
  "q \<noteq> [] \<Longrightarrow> set (fzf_match q ls) = snd ` (\<Union>l \<in> set ls. set_option (match_line q l))"
  by (auto simp: fzf_match_def set_map_filter)

lemma fzf_match_sound:
  assumes "m \<in> set (fzf_match q ls)"
  shows "\<exists>l \<in> set ls. line_text m = line_text l \<and> row m = row l \<and> alignment q (line_text l) (positions m)"
proof -
  from assms have q: "q \<noteq> []" by (auto simp: fzf_match_def)
  with assms obtain l s where l: "l \<in> set ls" and "match_line q l = Some (s, m)"
    by (auto simp: set_fzf_match)
  then show ?thesis by (auto simp: match_line_Some intro!: bexI [OF _ l] greedy_match_alignment)
qed

lemma fzf_match_member_iff:
  assumes "q \<noteq> []" and "l \<in> set ls"
  shows "(\<exists>m \<in> set (fzf_match q ls). line_text m = line_text l \<and> row m = row l) \<longleftrightarrow>
         subseq (map lower_char q) (map lower_char (line_text l))"
proof
  assume "\<exists>m \<in> set (fzf_match q ls). line_text m = line_text l \<and> row m = row l"
  then obtain m where m: "m \<in> set (fzf_match q ls)" and eq: "line_text m = line_text l" by blast
  from fzf_match_sound [OF m] obtain l' :: line where "line_text m = line_text l'" and "alignment q (line_text l') (positions m)"
    by blast
  with eq have "\<exists>ps. alignment q (line_text l) ps" by auto
  then have "greedy_match q (line_text l) \<noteq> None" using greedy_match_earliest by blast
  then show "subseq (map lower_char q) (map lower_char (line_text l))" using greedy_match_None_iff by blast
next
  assume "subseq (map lower_char q) (map lower_char (line_text l))"
  then obtain ps where "greedy_match q (line_text l) = Some ps"
    using greedy_match_None_iff by blast
  with assms show "\<exists>m \<in> set (fzf_match q ls). line_text m = line_text l \<and> row m = row l"
    by (force simp: set_fzf_match match_line_def)
qed

section \<open>Properties of the line matcher\<close>

text \<open>C7: the recorded columns are the canonical alignment. Whenever the query has
  any alignment in a text, the matcher finds one, and each of its columns is at
  or before the corresponding column of every other alignment.\<close>

theorem greedy_match_canonical:
  assumes "alignment q t ps'"
  shows "\<exists>ps. greedy_match q t = Some ps \<and> alignment q t ps \<and> (\<forall>k < length q. ps ! k \<le> ps' ! k)"
  using greedy_match_earliest [OF assms] greedy_match_alignment by blast

theorem greedy_match_canonical_witness:
  "alignment ''wrd'' ''hello world'' [6, 8, 10] \<and>
   (\<exists>ps. greedy_match ''wrd'' ''hello world'' = Some ps \<and> alignment ''wrd'' ''hello world'' ps \<and>
         (\<forall>k < length ''wrd''. ps ! k \<le> [6, 8, 10] ! k))"
proof -
  have al: "alignment ''wrd'' ''hello world'' [6, 8, 10]"
    by (simp add: alignment_def char_eq_def lower_char_def less_Suc_eq numeral_eq_Suc)
  show ?thesis using greedy_match_canonical [OF al] al by blast
qed

text \<open>C8: every column the matcher reports is a valid, distinct offset into the
  line's text; the columns increase, and the character at the k-th column equals
  the k-th query character.\<close>

theorem fzf_match_positions_valid:
  assumes "m \<in> set (fzf_match q ls)"
  shows "valid_match m \<and> sorted_wrt (<) (positions m) \<and> length (positions m) = length q \<and>
         (\<forall>k < length q. char_eq (q ! k) (line_text m ! (positions m ! k)))"
proof -
  from fzf_match_sound [OF assms] obtain l :: line where
    t: "line_text m = line_text l" and al: "alignment q (line_text l) (positions m)"
    by blast
  from al have "distinct (positions m)" by (auto simp: alignment_def strict_sorted_iff)
  with al t show ?thesis by (auto simp: alignment_def valid_match_def)
qed

theorem fzf_match_positions_valid_witness:
  "\<lparr>line_text = ''hello world'', row = 0, positions = [6, 8, 10]\<rparr>
      \<in> set (fzf_match ''wrd'' [\<lparr>line_text = ''hello world'', row = 0\<rparr>]) \<and>
   valid_match \<lparr>line_text = ''hello world'', row = 0, positions = [6, 8, 10]\<rparr>"
proof -
  have m: "\<lparr>line_text = ''hello world'', row = 0, positions = [6, 8, 10]\<rparr>
      \<in> set (fzf_match ''wrd'' [\<lparr>line_text = ''hello world'', row = 0\<rparr>])"
    by (simp add: fzf_match_def match_line_def char_eq_def lower_char_def)
  show ?thesis using fzf_match_positions_valid [OF m] m by blast
qed

end
