(* ===== verification/Highlighter.thy ===== *)
theory Highlighter
  imports SearchTypes
begin

text \<open>
  The line highlighter (\<open>LineHighlighter.parse\<close> and \<open>parseAll\<close>, called from
  \<open>src/src/services/obsidian/search-service.ts\<close>; its own file is not among the
  repository's sources, so it is modelled from the specification, section 4.5).
  From a matched line it builds a \<open>HighlightedContext\<close>: in \<open>line\<close> mode the
  line itself with \<open>col\<close> at the first matched column; in \<open>paragraph\<close> mode,
  when context expansion is asked for, the block of adjacent non-blank lines
  around the match joined by newlines, with \<open>col\<close> shifted by the length of the
  lines before the match; in \<open>subItem\<close> mode a window of the line that starts a
  few characters before the first matched column. The paragraph never reaches
  outside the file: it is cut at row 0 and at the last row.
\<close>

text \<open>Characters kept before the first matched column, and the width, of a sub-item.\<close>

definition sub_item_before :: nat where
  "sub_item_before = 15"

definition sub_item_width :: nat where
  "sub_item_width = 80"

definition is_blank :: "string \<Rightarrow> bool" where
  "is_blank s \<longleftrightarrow> (\<forall>c \<in> set s. is_js_space c)"

text \<open>The first matched column: the first element of the \<open>Set\<close> in insertion order.\<close>

definition first_col :: "'a matched_line_scheme \<Rightarrow> nat" where
  "first_col m = (case positions m of [] \<Rightarrow> 0 | p # _ \<Rightarrow> p)"

text \<open>The first row of the paragraph holding row \<open>r\<close>: walk up while the line above is not blank.\<close>

fun para_start :: "string list \<Rightarrow> nat \<Rightarrow> nat" where
  "para_start ls r = (if r = 0 then 0 else if is_blank (ls ! (r - 1)) then r else para_start ls (r - 1))"

text \<open>The last row of that paragraph: walk down while the line below exists and is not blank.\<close>

function para_end :: "string list \<Rightarrow> nat \<Rightarrow> nat" where
  "para_end ls r = (if length ls \<le> Suc r then r else if is_blank (ls ! Suc r) then r else para_end ls (Suc r))"
  by pat_completeness auto
termination
  by (relation "measure (\<lambda>(ls, r). length ls - r)") auto

declare para_start.simps [simp del] para_end.simps [simp del]

text \<open>\<open>parse(lines, matchedLine, mode, expandContext)\<close>.\<close>

definition hl_parse :: "line list \<Rightarrow> matched_line \<Rightarrow> hl_mode \<Rightarrow> bool \<Rightarrow> highlighted_context" where
  "hl_parse ls m mode expand =
     (let t = line_text m; r = row m; c = first_col m in
      case mode of
        LineMode \<Rightarrow> \<lparr>line_text = t, row = r, col = c\<rparr>
      | ParagraphMode \<Rightarrow>
          (let ts = map line_text ls in
           if expand \<and> r < length ts then
             (let a = para_start ts r; b = para_end ts r;
                  before = take (r - a) (drop a ts)
              in \<lparr>line_text = js_join CHR 0x0A (take (Suc b - a) (drop a ts)), row = r,
                  col = length (concat (map (\<lambda>s. s @ [CHR 0x0A]) before)) + c\<rparr>)
           else \<lparr>line_text = t, row = r, col = c\<rparr>)
      | SubItemMode \<Rightarrow>
          (let s = c - min c sub_item_before in
           \<lparr>line_text = take sub_item_width (drop s t), row = r, col = c - s\<rparr>))"

text \<open>\<open>parseAll(lines, matchedLines, mode, expandContext)\<close>.\<close>

definition hl_parse_all :: "line list \<Rightarrow> matched_line list \<Rightarrow> hl_mode \<Rightarrow> bool \<Rightarrow> highlighted_context list" where
  "hl_parse_all ls ms mode expand = map (\<lambda>m. hl_parse ls m mode expand) ms"

section \<open>Paragraph bounds\<close>

lemma para_start_le: "para_start ls r \<le> r"
proof (induction ls r rule: para_start.induct)
  case (1 ls r)
  then show ?case by (auto simp: para_start.simps [of ls r])
qed

lemma para_end_bounds: "r < length ls \<Longrightarrow> r \<le> para_end ls r \<and> para_end ls r < length ls"
proof (induction ls r rule: para_end.induct)
  case (1 ls r)
  then show ?case by (auto simp: para_end.simps [of ls r])
qed

lemma para_start_nonblank:
  "para_start ls r \<le> i \<Longrightarrow> i < r \<Longrightarrow> \<not> is_blank (ls ! i)"
proof (induction ls r rule: para_start.induct)
  case (1 ls r)
  show ?case
  proof (cases "r = 0 \<or> is_blank (ls ! (r - 1))")
    case stop: True
    then have "para_start ls r = r" by (auto simp: para_start.simps [of ls r])
    with "1.prems" show ?thesis by simp
  next
    case go: False
    then have eq: "para_start ls r = para_start ls (r - 1)" by (simp add: para_start.simps [of ls r])
    show ?thesis
    proof (cases "i = r - 1")
      case True
      with go show ?thesis by auto
    next
      case False
      with "1.prems" have lt: "i < r - 1" by simp
      from go have r0: "r \<noteq> 0" and nb: "\<not> is_blank (ls ! (r - 1))" by simp_all
      from eq "1.prems"(1) have "para_start ls (r - 1) \<le> i" by simp
      from "1.IH" [OF r0 nb this lt] show ?thesis .
    qed
  qed
qed

lemma js_join_middle:
  "js_join c (xs @ t # ys) = concat (map (\<lambda>s. s @ [c]) xs) @ t @ (if ys = [] then [] else c # js_join c ys)"
proof (induction xs)
  case Nil
  then show ?case by (cases ys) auto
next
  case (Cons x xs)
  then show ?case by (simp add: js_join_Cons)
qed

lemma js_join_nth_middle:
  "j < length t \<Longrightarrow>
   js_join c (xs @ t # ys) ! (length (concat (map (\<lambda>s. s @ [c]) xs)) + j) = t ! j \<and>
   length (concat (map (\<lambda>s. s @ [c]) xs)) + j < length (js_join c (xs @ t # ys))"
  by (simp add: js_join_middle nth_append)

lemma para_end_nonblank:
  "para_end ls r \<ge> i \<Longrightarrow> r < i \<Longrightarrow> \<not> is_blank (ls ! i)"
proof (induction ls r rule: para_end.induct)
  case (1 ls r)
  show ?case
  proof (cases "length ls \<le> Suc r \<or> is_blank (ls ! Suc r)")
    case stop: True
    then have "para_end ls r = r" by (auto simp: para_end.simps [of ls r])
    with "1.prems" show ?thesis by simp
  next
    case go: False
    then have eq: "para_end ls r = para_end ls (Suc r)" by (simp add: para_end.simps [of ls r])
    show ?thesis
    proof (cases "i = Suc r")
      case True
      with go show ?thesis by auto
    next
      case False
      with "1.prems" have lt: "Suc r < i" by simp
      from go have a: "\<not> length ls \<le> Suc r" and nb: "\<not> is_blank (ls ! Suc r)" by simp_all
      from eq "1.prems"(1) have "para_end ls (Suc r) \<ge> i" by simp
      from "1.IH" [OF a nb this lt] show ?thesis .
    qed
  qed
qed

lemma para_start_maximal: "para_start ls r = 0 \<or> is_blank (ls ! (para_start ls r - 1))"
proof (induction ls r rule: para_start.induct)
  case (1 ls r)
  then show ?case by (cases "r = 0 \<or> is_blank (ls ! (r - 1))") (auto simp: para_start.simps [of ls r])
qed

lemma para_end_maximal: "length ls \<le> Suc (para_end ls r) \<or> is_blank (ls ! Suc (para_end ls r))"
proof (induction ls r rule: para_end.induct)
  case (1 ls r)
  then show ?case by (cases "length ls \<le> Suc r \<or> is_blank (ls ! Suc r)") (auto simp: para_end.simps [of ls r])
qed

lemma first_col_valid:
  "valid_match m \<Longrightarrow> positions m \<noteq> [] \<Longrightarrow> first_col m < length (line_text m)"
  by (cases "positions m") (auto simp: valid_match_def first_col_def)

lemma paragraph_split:
  assumes "a \<le> r" "r \<le> b" "b < length ts"
  shows "take (Suc b - a) (drop a ts) = take (r - a) (drop a ts) @ ts ! r # take (b - r) (drop (Suc r) ts)"
proof -
  have n: "Suc b - a = (r - a) + (Suc b - r)" using assms by simp
  have "take (Suc b - a) (drop a ts) = take (r - a) (drop a ts) @ take (Suc b - r) (drop (r - a) (drop a ts))"
    unfolding n by (rule take_add)
  also have "drop (r - a) (drop a ts) = drop r ts" using assms by simp
  finally have "take (Suc b - a) (drop a ts) = take (r - a) (drop a ts) @ take (Suc b - r) (drop r ts)" .
  also have "drop r ts = ts ! r # drop (Suc r) ts"
    using assms by (simp add: Cons_nth_drop_Suc)
  then have "take (Suc b - r) (drop r ts) = ts ! r # take (b - r) (drop (Suc r) ts)"
    using assms by (simp add: Suc_diff_le)
  finally show ?thesis .
qed

lemma hl_parse_LineMode [simp]:
  "hl_parse ls m LineMode e = \<lparr>line_text = line_text m, row = row m, col = first_col m\<rparr>"
  by (simp add: hl_parse_def Let_def)

lemma hl_parse_SubItemMode:
  "hl_parse ls m SubItemMode e = \<lparr>line_text = take sub_item_width (drop (first_col m - min (first_col m) sub_item_before) (line_text m)),
      row = row m, col = min (first_col m) sub_item_before\<rparr>"
  by (simp add: hl_parse_def Let_def)

section \<open>Properties of the highlighter\<close>

text \<open>C19: the column the highlighter reports is a valid offset into the text it
  returns, in every mode, and it points at the first matched character of the line.\<close>

theorem hl_parse_col_valid:
  assumes "valid_match m" and "positions m \<noteq> []"
    and "row m < length ls \<longrightarrow> line_text (ls ! row m) = line_text m"
  shows "col (hl_parse ls m mode expand) < length (line_text (hl_parse ls m mode expand)) \<and>
         line_text (hl_parse ls m mode expand) ! col (hl_parse ls m mode expand) = line_text m ! first_col m"
proof -
  let ?t = "line_text m" and ?r = "row m" and ?c = "first_col m"
  have c: "?c < length ?t" using first_col_valid assms(1,2) .
  show ?thesis
  proof (cases mode)
    case LineMode
    with c show ?thesis by (simp add: hl_parse_def Let_def)
  next
    case SubItemMode
    with c show ?thesis by (auto simp: hl_parse_def Let_def sub_item_before_def sub_item_width_def min_def)
  next
    case ParagraphMode
    show ?thesis
    proof (cases "expand \<and> ?r < length ls")
      case False
      with ParagraphMode c show ?thesis by (auto simp: hl_parse_def Let_def)
    next
      case True
      let ?ts = "map line_text ls"
      let ?a = "para_start ?ts ?r" and ?b = "para_end ?ts ?r"
      from True have r: "?r < length ?ts" by simp
      have ab: "?a \<le> ?r" "?r \<le> ?b" "?b < length ?ts"
        using para_start_le para_end_bounds [OF r] by auto
      have tr: "?ts ! ?r = ?t" using assms(3) True by simp
      have split: "take (Suc ?b - ?a) (drop ?a ?ts) = take (?r - ?a) (drop ?a ?ts) @ ?t # take (?b - ?r) (drop (Suc ?r) ?ts)"
        using paragraph_split [OF ab] tr by simp
      from js_join_nth_middle [OF c, of "CHR 0x0A" "take (?r - ?a) (drop ?a ?ts)" "take (?b - ?r) (drop (Suc ?r) ?ts)"]
      show ?thesis using ParagraphMode True split by (simp add: hl_parse_def Let_def)
    qed
  qed
qed

theorem hl_parse_col_valid_witness:
  "line_text (hl_parse [\<lparr>line_text = ''ab'', row = 0\<rparr>, \<lparr>line_text = ''hello world'', row = 1\<rparr>]
      \<lparr>line_text = ''hello world'', row = 1, positions = [6, 8, 10]\<rparr> ParagraphMode True) = ''ab\<newline>hello world'' \<and>
   col (hl_parse [\<lparr>line_text = ''ab'', row = 0\<rparr>, \<lparr>line_text = ''hello world'', row = 1\<rparr>]
      \<lparr>line_text = ''hello world'', row = 1, positions = [6, 8, 10]\<rparr> ParagraphMode True) = 9"
proof -
  have "valid_match \<lparr>line_text = ''hello world'', row = 1, positions = [6, 8, 10]\<rparr>"
    by (simp add: valid_match_def)
  from hl_parse_col_valid [OF this, of "[\<lparr>line_text = ''ab'', row = 0\<rparr>, \<lparr>line_text = ''hello world'', row = 1\<rparr>]" ParagraphMode True]
  show ?thesis
    by (simp add: hl_parse_def Let_def first_col_def para_start.simps para_end.simps is_blank_def is_js_space_def)
qed

text \<open>C20: the paragraph context of a match is a block of adjacent rows of the file
  holding the matched row, inside the file's bounds, with no blank line in it, and it
  cannot be extended: the row above it is blank or it starts at row 0, and the row
  below it is blank or it ends at the last row.\<close>

theorem hl_parse_paragraph_bounds:
  assumes "row m < length ls"
  shows "\<exists>a b. a \<le> row m \<and> row m \<le> b \<and> b < length ls \<and>
     line_text (hl_parse ls m ParagraphMode True) = js_join CHR 0x0A (map line_text (take (Suc b - a) (drop a ls))) \<and>
     (\<forall>i. a \<le> i \<and> i \<le> b \<and> i \<noteq> row m \<longrightarrow> \<not> is_blank (line_text (ls ! i))) \<and>
     (a = 0 \<or> is_blank (line_text (ls ! (a - 1)))) \<and> (length ls \<le> Suc b \<or> is_blank (line_text (ls ! Suc b)))"
proof -
  let ?ts = "map line_text ls" and ?r = "row m"
  let ?a = "para_start ?ts ?r" and ?b = "para_end ?ts ?r"
  have r: "?r < length ?ts" using assms by simp
  have ab: "?a \<le> ?r" "?r \<le> ?b" "?b < length ls"
    using para_start_le para_end_bounds [OF r] by auto
  have nb: "\<forall>i. ?a \<le> i \<and> i \<le> ?b \<and> i \<noteq> ?r \<longrightarrow> \<not> is_blank (line_text (ls ! i))"
  proof (intro allI impI)
    fix i assume i: "?a \<le> i \<and> i \<le> ?b \<and> i \<noteq> ?r"
    with ab have "i < length ls" by simp
    moreover have "\<not> is_blank (?ts ! i)"
      using i para_start_nonblank [of ?ts ?r i] para_end_nonblank [of i ?ts ?r] by (cases "i < ?r") auto
    ultimately show "\<not> is_blank (line_text (ls ! i))" by simp
  qed
  have lo: "?a = 0 \<or> is_blank (line_text (ls ! (?a - 1)))"
    using para_start_maximal [of ?ts ?r] ab by auto
  have hi: "length ls \<le> Suc ?b \<or> is_blank (line_text (ls ! Suc ?b))"
    using para_end_maximal [of ?ts ?r] by (cases "Suc ?b < length ls") auto
  have joined: "line_text (hl_parse ls m ParagraphMode True) = js_join CHR 0x0A (map line_text (take (Suc ?b - ?a) (drop ?a ls)))"
    using assms by (simp add: hl_parse_def Let_def take_map drop_map)
  show ?thesis using ab nb lo hi joined by blast
qed

theorem hl_parse_paragraph_bounds_witness:
  "row \<lparr>line_text = ''hello world'', row = 1, positions = [6]\<rparr> < length [\<lparr>line_text = ''ab'', row = 0\<rparr>, \<lparr>line_text = ''hello world'', row = 1\<rparr>] \<and>
   (\<exists>a b. a \<le> 1 \<and> 1 \<le> b \<and> b < 2 \<and>
     line_text (hl_parse [\<lparr>line_text = ''ab'', row = 0\<rparr>, \<lparr>line_text = ''hello world'', row = 1\<rparr>]
        \<lparr>line_text = ''hello world'', row = 1, positions = [6]\<rparr> ParagraphMode True) =
       js_join CHR 0x0A (map line_text (take (Suc b - a) (drop a [\<lparr>line_text = ''ab'', row = 0\<rparr>, \<lparr>line_text = ''hello world'', row = 1\<rparr>]))))"
proof -
  have r: "row \<lparr>line_text = ''hello world'', row = 1, positions = [6]\<rparr> < length [\<lparr>line_text = ''ab'', row = 0\<rparr>, \<lparr>line_text = ''hello world'', row = 1\<rparr>]"
    by simp
  from hl_parse_paragraph_bounds [OF r] r show ?thesis by fastforce
qed

end
