(* ===== verification/SearchService.thy ===== *)
theory SearchService
  imports SearchTypes
begin

text \<open>
  \<open>SearchService\<close> of \<open>src/src/services/obsidian/search-service.ts\<close>: the
  orchestration of vault-wide and in-file search. The service holds no state of
  its own; it reads the host (the active file, file types, file contents, the
  persisted index snapshot, the documents of the vault) and calls the lexical
  engine and the line highlighter. Those collaborators are records of
  functions here, so the service is defined, and its interface lemmas proved,
  for every engine and highlighter; the root theory instantiates them with the
  models of \<open>LineMatcher\<close> and \<open>Highlighter\<close>. The lexical engine's index is a
  type parameter \<open>'idx\<close>, the persisted snapshot a parameter \<open>'snap\<close>.
  \<open>async\<close>/\<open>await\<close> is sequential composition; the one call the service does
  not await is recorded in the result of \<open>init_search_engines\<close>.
\<close>

text \<open>What the service reads from the host application and the data provider.\<close>

record 'snap host =
  active_file :: "string option"
  is_plain_text :: "string \<Rightarrow> bool"
  read_plain_text :: "string \<Rightarrow> string"
  read_plain_text_lines :: "string \<Rightarrow> string list"
  split_eol :: "string \<Rightarrow> string list"
  mini_search_data :: "'snap option"
  all_documents :: "indexed_document list"

text \<open>The operations of \<open>LexicalEngine\<close> the service calls.\<close>

record ('idx, 'snap) lexical_engine =
  search_files :: "'idx \<Rightarrow> string \<Rightarrow> query_mode \<Rightarrow> matched_file list"
  eng_search_lines :: "line list \<Rightarrow> string \<Rightarrow> nat \<Rightarrow> matched_line list"
  eng_fzf_match :: "string \<Rightarrow> line list \<Rightarrow> matched_line list"
  reindex_documents :: "indexed_document list \<Rightarrow> 'idx"
  reindex_snapshot :: "'snap \<Rightarrow> 'idx"

text \<open>The operations of \<open>LineHighlighter\<close> the service calls.\<close>

record line_highlighter =
  hl_parse_fn :: "line list \<Rightarrow> matched_line \<Rightarrow> hl_mode \<Rightarrow> bool \<Rightarrow> highlighted_context"
  hl_parse_all_fn :: "line list \<Rightarrow> matched_line list \<Rightarrow> hl_mode \<Rightarrow> bool \<Rightarrow> highlighted_context list"
  parse_line_items :: "line list \<Rightarrow> string \<Rightarrow> line_item list"

text \<open>\<open>TO_BE_IMPL\<close>, the placeholder path of vault-wide results.\<close>

definition TO_BE_IMPL :: string where
  "TO_BE_IMPL = ''TO_BE_IMPL''"

text \<open>\<open>new FileItem(EngineType.LEXICAL, matchedFile.path, [], "nothing")\<close>: four
  arguments for five parameters, so \<open>"nothing"\<close> is stored as \<open>subItems\<close> and
  \<open>previewContent\<close> stays undefined.\<close>

definition lexical_file_item :: "matched_file \<Rightarrow> item" where
  "lexical_file_item mf = FileItem \<lparr>engine = LEXICAL, fi_path = mf_path mf, fi_matched_terms = [],
     sub_items = SubItemText ''nothing'', preview_content = JsUndefined\<rparr>"

text \<open>\<open>searchInVault(queryText)\<close>.\<close>

definition search_in_vault :: "('idx, 'snap) lexical_engine \<Rightarrow> 'idx \<Rightarrow> string \<Rightarrow> search_result" where
  "search_in_vault E idx q =
     (let result = \<lparr>curr_path = ''no result'', items = []\<rparr> in
      if length q = 0 then result
      else
        (let lexical_matches = search_files E idx q ModeAnd in
         if length lexical_matches \<noteq> 0
         then \<lparr>curr_path = TO_BE_IMPL, items = map lexical_file_item lexical_matches\<rparr>
         else result))"

text \<open>The object literal \<open>{text, row, col}\<close> built from each highlighted context.\<close>

definition to_sub_item :: "highlighted_context \<Rightarrow> file_sub_item" where
  "to_sub_item c = \<lparr>sub_text = line_text c, sub_row = row c, sub_col = col c\<rparr>"

text \<open>\<open>getFileSubItems(path, queryText)\<close>: at most 30 lines, as sub-items.\<close>

definition get_file_sub_items ::
  "'snap host \<Rightarrow> ('idx, 'snap) lexical_engine \<Rightarrow> line_highlighter \<Rightarrow> string \<Rightarrow> string \<Rightarrow> file_sub_item list" where
  "get_file_sub_items h E H path q =
     (if \<not> is_plain_text h path then []
      else
        (let content = read_plain_text h path;
             lines = number_lines (split_eol h content);
             matched_lines = eng_search_lines E lines q 30
         in map to_sub_item (hl_parse_all_fn H lines matched_lines SubItemMode False)))"

text \<open>\<open>queryText.replace(/\s/g, "")\<close>.\<close>

definition strip_spaces :: "string \<Rightarrow> string" where
  "strip_spaces q = filter (\<lambda>c. \<not> is_js_space c) q"

text \<open>The \<open>LineItem\<close> of one matched line: the line highlighted in place, and the text
  of its paragraph.\<close>

definition to_line_item :: "line_highlighter \<Rightarrow> line list \<Rightarrow> matched_line \<Rightarrow> item" where
  "to_line_item H lines ml =
     (let highlighted_line = hl_parse_fn H lines ml LineMode False;
          paragraph_context = hl_parse_fn H lines ml ParagraphMode True
      in LineItem \<lparr>li_line = highlighted_line, li_context = line_text paragraph_context\<rparr>)"

text \<open>\<open>searchInFile(queryText)\<close>.\<close>

definition search_in_file ::
  "'snap host \<Rightarrow> ('idx, 'snap) lexical_engine \<Rightarrow> line_highlighter \<Rightarrow> string \<Rightarrow> search_result" where
  "search_in_file h E H q =
     (let result = \<lparr>curr_path = [], items = []\<rparr> in
      case active_file h of
        None \<Rightarrow> result
      | Some path \<Rightarrow>
          if q = [] then result
          else if \<not> is_plain_text h path then result
          else
            (let lines = number_lines (read_plain_text_lines h path);
                 query_no_spaces = strip_spaces q;
                 matched_lines = eng_fzf_match E query_no_spaces lines
             in \<lparr>curr_path = path, items = map (to_line_item H lines) matched_lines\<rparr>))"

text \<open>\<open>deprecatedSearchInFile(queryText)\<close>.\<close>

definition deprecated_search_in_file ::
  "'snap host \<Rightarrow> line_highlighter \<Rightarrow> string \<Rightarrow> search_result" where
  "deprecated_search_in_file h H q =
     (let result = \<lparr>curr_path = [], items = []\<rparr> in
      case active_file h of
        None \<Rightarrow> result
      | Some path \<Rightarrow>
          if q = [] \<or> \<not> is_plain_text h path then result
          else
            (let lines = number_lines (read_plain_text_lines h path)
             in \<lparr>curr_path = path, items = map LineItem (parse_line_items H lines q)\<rparr>))"

text \<open>\<open>initSearchEngines()\<close>: the new index, and whether \<open>reIndexAll\<close> was awaited
  before the method returned. With a snapshot the call is not awaited.\<close>

definition init_search_engines :: "'snap host \<Rightarrow> ('idx, 'snap) lexical_engine \<Rightarrow> 'idx \<times> bool" where
  "init_search_engines h E =
     (case mini_search_data h of
        Some prev_data \<Rightarrow> (reindex_snapshot E prev_data, False)
      | None \<Rightarrow> (reindex_documents E (all_documents h), True))"

section \<open>Interface lemmas\<close>

lemma search_in_file_items:
  "it \<in> set (items (search_in_file h E H q)) \<longleftrightarrow>
   (\<exists>path. active_file h = Some path \<and> q \<noteq> [] \<and> is_plain_text h path \<and>
      (\<exists>ml \<in> set (eng_fzf_match E (strip_spaces q) (number_lines (read_plain_text_lines h path))).
         it = to_line_item H (number_lines (read_plain_text_lines h path)) ml))"
  by (auto simp: search_in_file_def Let_def split: option.splits)

end
