(* ===== verification/MyLib.thy ===== *)
theory MyLib
  imports Prelude
begin

text \<open>
  The string utilities of \<open>src/src/utils/my-lib.ts\<close>: \<open>formatMillis\<close> (the running
  time printed by \<open>monitorExecution\<close>), \<open>MyLib.getBasename\<close>, \<open>MyLib.getExtension\<close>
  and \<open>MyLib.extractDomainFromHttpsUrl\<close>, with the JavaScript \<open>split\<close>, \<open>pop\<close>,
  \<open>slice\<close> and \<open>join\<close> they use and the regular expression of the last one.
  \<open>getAllFiles\<close> is in the theory \<open>FileWalk\<close>.
\<close>

text \<open>\<open>formatMillis(millis)\<close>. The divisions are taken on non-negative values only (the
  first branch catches everything below 1000), where \<open>Math.floor\<close> and \<open>%\<close> agree with
  \<open>div\<close> and \<open>mod\<close>.\<close>

definition format_millis :: "int \<Rightarrow> string" where
  "format_millis millis =
     (if millis < 1000 then show_int millis @ '' ms''
      else if millis < 60000 then
        (let seconds = millis div 1000; milliseconds = millis mod 1000
         in show_int seconds @ '' s '' @ show_int milliseconds @ '' ms'')
      else
        (let minutes = millis div 60000; seconds = (millis mod 60000) div 1000; milliseconds = millis mod 1000
         in show_int minutes @ '' min '' @ show_int seconds @ '' s '' @ show_int milliseconds @ '' ms''))"

text \<open>\<open>MyLib.getBasename(path)\<close>: the last \<open>/\<close>-segment, without its last \<open>.\<close>-suffix unless
  that leaves nothing. \<open>pop()\<close> of a non-empty array is its last element, and \<open>|| ""\<close>
  maps the empty string to itself.\<close>

definition get_basename :: "string \<Rightarrow> string" where
  "get_basename path =
     (let filename = last (js_split CHR ''/'' path);
          stem = js_join CHR ''.'' (butlast (js_split CHR ''.'' filename))
      in if stem = [] then filename else stem)"

text \<open>\<open>MyLib.getExtension(path)\<close>: what follows the last \<open>.\<close> of the whole path.\<close>

definition get_extension :: "string \<Rightarrow> string" where
  "get_extension path =
     (let parts = js_split CHR ''.'' path in
      if length parts > 1 then last parts else [])"

text \<open>The regular expression \<open>/^(https?:\/\/)?([\w.-]+)(?:\/|$)/\<close> of
  \<open>extractDomainFromHttpsUrl\<close>: \<open>\w\<close> is \<open>[A-Za-z0-9_]\<close>. The optional group is tried first,
  with \<open>https\<close> before \<open>http\<close>, then skipped; for each choice the greedy \<open>[\w.-]+\<close>
  can only succeed with its longest run, since a shorter run is followed by another
  character of the class, which is neither \<open>/\<close> nor the end.\<close>

definition is_word_char :: "char \<Rightarrow> bool" where
  "is_word_char c \<longleftrightarrow> (let n = (of_char c :: nat) in
     (48 \<le> n \<and> n \<le> 57) \<or> (65 \<le> n \<and> n \<le> 90) \<or> (97 \<le> n \<and> n \<le> 122) \<or> n = 95)"

definition is_domain_char :: "char \<Rightarrow> bool" where
  "is_domain_char c \<longleftrightarrow> is_word_char c \<or> c = CHR ''.'' \<or> c = CHR ''-''"

definition domain_run :: "string \<Rightarrow> string option" where
  "domain_run s = (let d = takeWhile is_domain_char s; rest = drop (length d) s in
     if d \<noteq> [] \<and> (rest = [] \<or> hd rest = CHR ''/'') then Some d else None)"

definition url_regex_match :: "string \<Rightarrow> string option" where
  "url_regex_match url =
     (if starts_with url ''https://'' \<and> domain_run (drop 8 url) \<noteq> None then domain_run (drop 8 url)
      else if starts_with url ''http://'' \<and> domain_run (drop 7 url) \<noteq> None then domain_run (drop 7 url)
      else domain_run url)"

text \<open>\<open>MyLib.extractDomainFromHttpsUrl(url)\<close>: \<open>""\<close> for \<open>http://\<close> (after logging an
  error), the second capture group on a match, \<open>""\<close> otherwise.\<close>

definition extract_domain_from_https_url :: "string \<Rightarrow> string" where
  "extract_domain_from_https_url url =
     (if starts_with url ''http://'' then []
      else case url_regex_match url of Some d \<Rightarrow> d | None \<Rightarrow> [])"

text \<open>Reading a duration back from its rendering.\<close>

definition parse_millis :: "string \<Rightarrow> int option" where
  "parse_millis s =
     (case js_split CHR '' '' s of
        [a, u] \<Rightarrow> if u = ''ms'' then Some (read_int a) else None
      | [a, u, b, v] \<Rightarrow> if u = ''s'' \<and> v = ''ms'' then Some (1000 * read_int a + read_int b) else None
      | [a, u, b, v, c, w] \<Rightarrow> if u = ''min'' \<and> v = ''s'' \<and> w = ''ms''
          then Some (60000 * read_int a + 1000 * read_int b + read_int c) else None
      | _ \<Rightarrow> None)"

text \<open>A parse of a URL by the regular expression: scheme group, captured run, and
  the rest, which is empty or starts with \<open>/\<close>.\<close>

definition regex_parse :: "string \<Rightarrow> string \<Rightarrow> string \<Rightarrow> string \<Rightarrow> bool" where
  "regex_parse url p d r \<longleftrightarrow> url = p @ d @ r \<and> p \<in> {[], ''http://'', ''https://''} \<and>
     d \<noteq> [] \<and> (\<forall>c \<in> set d. is_domain_char c) \<and> (r = [] \<or> hd r = CHR ''/'')"

text \<open>\<open>currModifier\<close>: \<open>"Mod"\<close> when \<open>/Mac|iPod|iPhone|iPad/\<close> occurs in the
  user agent, \<open>"Ctrl"\<close> otherwise.\<close>

definition curr_modifier :: "string \<Rightarrow> string" where
  "curr_modifier user_agent =
     (if js_includes user_agent ''Mac'' \<or> js_includes user_agent ''iPod'' \<or> js_includes user_agent ''iPhone''
         \<or> js_includes user_agent ''iPad'' then ''Mod'' else ''Ctrl'')"

text \<open>\<open>fn.name.replace(/^bound /, "")\<close>: the name of a bound function without its
  \<open>bound\<close> prefix.\<close>

definition strip_bound_prefix :: "string \<Rightarrow> string" where
  "strip_bound_prefix name = (if starts_with name ''bound '' then drop 6 name else name)"

text \<open>\<open>monitorExecution(fn)\<close>: runs \<open>fn\<close> between two readings of the clock and
  returns the line it logs.\<close>

definition monitor_execution :: "('w \<Rightarrow> int) \<Rightarrow> string \<Rightarrow> ('w \<Rightarrow> 'w) \<Rightarrow> 'w \<Rightarrow> 'w \<times> string" where
  "monitor_execution clock fn_name fn w =
     (let start_time = clock w; w' = fn w; end_time = clock w';
          duration = format_millis (end_time - start_time)
      in (w', ''['' @ strip_bound_prefix fn_name @ ''] running time: '' @ duration))"

section \<open>Lemmas\<close>

lemma js_split_snoc_sep:
  "c \<notin> set e \<Longrightarrow> js_split c (n @ c # e) = butlast (js_split c n) @ [last (js_split c n), e]"
proof (induction n)
  case Nil
  then show ?case by simp
next
  case (Cons x xs)
  obtain r rs where r: "js_split c xs = r # rs"
    using js_split_nonempty by (metis list.exhaust)
  show ?case
  proof (cases "x = c")
    case True
    with Cons r show ?thesis by simp
  next
    case False
    with Cons r show ?thesis by (cases rs) (auto simp: Let_def)
  qed
qed

lemma butlast_js_split_snoc [simp]:
  "c \<notin> set e \<Longrightarrow> butlast (js_split c (n @ c # e)) = js_split c n"
  using js_split_snoc_sep [of c e n] js_split_nonempty [of c n] by (simp add: butlast_append)

lemma last_js_split_snoc [simp]:
  "c \<notin> set e \<Longrightarrow> last (js_split c (n @ c # e)) = e"
  using js_split_snoc_sep [of c e n] by simp

lemma last_in_js_split: "last (js_split c s) \<in> set (js_split c s)"
  by simp

lemma slash_not_domain [simp]: "\<not> is_domain_char CHR ''/''"
  by (simp add: is_domain_char_def is_word_char_def)

lemma domain_run_iff:
  "domain_run s = Some d \<longleftrightarrow> (\<exists>r. s = d @ r \<and> d \<noteq> [] \<and> (\<forall>c \<in> set d. is_domain_char c) \<and> (r = [] \<or> hd r = CHR ''/''))"
proof
  assume "domain_run s = Some d"
  then have d: "d = takeWhile is_domain_char s" and ne: "d \<noteq> []"
    and rest: "drop (length d) s = [] \<or> hd (drop (length d) s) = CHR ''/''"
    by (auto simp: domain_run_def Let_def split: if_splits)
  have "s = d @ drop (length d) s" using d by (metis takeWhile_eq_take append_take_drop_id)
  moreover have "\<forall>c \<in> set d. is_domain_char c" using d by (auto dest: set_takeWhileD)
  ultimately show "\<exists>r. s = d @ r \<and> d \<noteq> [] \<and> (\<forall>c \<in> set d. is_domain_char c) \<and> (r = [] \<or> hd r = CHR ''/'')"
    using ne rest by blast
next
  assume "\<exists>r. s = d @ r \<and> d \<noteq> [] \<and> (\<forall>c \<in> set d. is_domain_char c) \<and> (r = [] \<or> hd r = CHR ''/'')"
  then obtain r where s: "s = d @ r" and ne: "d \<noteq> []" and dc: "\<forall>c \<in> set d. is_domain_char c"
    and r: "r = [] \<or> hd r = CHR ''/''" by blast
  have "takeWhile is_domain_char r = []" using r by (cases r) auto
  then have "takeWhile is_domain_char s = d" using s dc by (simp add: takeWhile_append2)
  with s ne r show "domain_run s = Some d" by (simp add: domain_run_def)
qed

section \<open>Properties of the utilities\<close>

text \<open>C35: \<open>formatMillis\<close> loses nothing: reading the minutes, seconds and milliseconds
  back from the text gives the original duration, for every integer input.\<close>

theorem format_millis_roundtrip: "parse_millis (format_millis m) = Some m"
proof -
  have sp: "\<And>i r. js_split CHR '' '' (show_int i @ CHR '' '' # r) = show_int i # js_split CHR '' '' r"
    by simp
  show ?thesis
  proof (cases "m < 1000")
    case True
    then show ?thesis by (simp add: format_millis_def parse_millis_def)
  next
    case False
    show ?thesis
    proof (cases "m < 60000")
      case True
      with False show ?thesis by (simp add: format_millis_def parse_millis_def Let_def)
    next
      case False': False
      have a: "60000 * (m div 60000) + m mod 60000 = m" by (rule mult_div_mod_eq)
      have b: "1000 * (m mod 60000 div 1000) + m mod 60000 mod 1000 = m mod 60000" by (rule mult_div_mod_eq)
      have c: "m mod 60000 mod 1000 = m mod 1000" by (rule mod_mod_cancel) simp
      from a b c have "60000 * (m div 60000) + 1000 * ((m mod 60000) div 1000) + m mod 1000 = m" by linarith
      with False False' show ?thesis by (simp add: format_millis_def parse_millis_def Let_def)
    qed
  qed
qed

text \<open>above one minute, \<open>formatMillis\<close> prints minutes, seconds below 60 and
  milliseconds below 1000 that add up to the input.\<close>

theorem format_millis_fields:
  assumes "60000 \<le> m"
  shows "\<exists>a b c. format_millis m = show_int a @ '' min '' @ show_int b @ '' s '' @ show_int c @ '' ms'' \<and>
     0 \<le> b \<and> b < 60 \<and> 0 \<le> c \<and> c < 1000 \<and> 60000 * a + 1000 * b + c = m"
proof -
  have a: "60000 * (m div 60000) + m mod 60000 = m" by (rule mult_div_mod_eq)
  have b: "1000 * (m mod 60000 div 1000) + m mod 60000 mod 1000 = m mod 60000" by (rule mult_div_mod_eq)
  have c: "m mod 60000 mod 1000 = m mod 1000" by (rule mod_mod_cancel) simp
  have b60: "m mod 60000 div 1000 < 60" by (simp add: div_less_iff_less_mult)
  have b0: "0 \<le> m mod 60000 div 1000" by simp
  have c1000: "0 \<le> m mod 1000" "m mod 1000 < 1000" by simp_all
  from a b c have sum: "60000 * (m div 60000) + 1000 * (m mod 60000 div 1000) + m mod 1000 = m" by linarith
  from assms have "\<not> m < 1000" "\<not> m < 60000" by simp_all
  then have fm: "format_millis m = show_int (m div 60000) @ '' min '' @ show_int (m mod 60000 div 1000) @ '' s '' @
      show_int (m mod 1000) @ '' ms''"
    unfolding format_millis_def Let_def by (simp only: if_False)
  from fm b60 b0 c1000 sum show ?thesis by blast
qed

theorem format_millis_fields_witness:
  "(60000::int) \<le> 61001 \<and> (\<exists>a b c. format_millis 61001 = show_int a @ '' min '' @ show_int b @ '' s '' @ show_int c @ '' ms'' \<and>
     0 \<le> b \<and> b < 60 \<and> 0 \<le> c \<and> c < 1000 \<and> 60000 * a + 1000 * b + c = 61001)"
  using format_millis_fields [of 61001] by simp

text \<open>C37: the base name of \<open>dir/name.ext\<close> is \<open>name\<close>, whatever the directory, for a
  non-empty name (possibly holding dots) and an extension without dots.\<close>

theorem get_basename_path:
  assumes "CHR ''/'' \<notin> set n" "CHR ''/'' \<notin> set e" "CHR ''.'' \<notin> set e" "n \<noteq> []"
  shows "get_basename (d @ CHR ''/'' # n @ CHR ''.'' # e) = n"
proof -
  have "last (js_split CHR ''/'' (d @ CHR ''/'' # n @ CHR ''.'' # e)) = n @ CHR ''.'' # e"
    using assms by simp
  then show ?thesis using assms by (simp add: get_basename_def Let_def split: list.split)
qed

theorem get_basename_path_witness: "get_basename ''notes/2024/a.b.md'' = ''a.b''"
proof -
  have "get_basename (''notes/2024'' @ CHR ''/'' # ''a.b'' @ CHR ''.'' # ''md'') = ''a.b''"
    by (rule get_basename_path) simp_all
  then show ?thesis by simp
qed

text \<open>a base name never holds a \<open>/\<close>.\<close>

theorem get_basename_no_slash: "CHR ''/'' \<notin> set (get_basename path)"
proof -
  let ?f = "last (js_split CHR ''/'' path)"
  have f: "CHR ''/'' \<notin> set ?f" using js_split_no_sep last_in_js_split by metis
  have "\<forall>w \<in> set (butlast (js_split CHR ''.'' ?f)). CHR ''/'' \<notin> set w"
    using f set_js_split_piece in_set_butlastD by fastforce
  then have "CHR ''/'' \<notin> set (js_join CHR ''.'' (butlast (js_split CHR ''.'' ?f)))"
    by (rule js_join_free) simp
  with f show ?thesis by (simp add: get_basename_def Let_def)
qed

text \<open>\<open>getExtension\<close> returns what follows the last dot of the whole path, even when
  that dot is in a folder name and the file has no extension: the result then holds
  a \<open>/\<close>.\<close>

theorem get_extension_last_dot:
  assumes "CHR ''.'' \<notin> set e"
  shows "get_extension (p @ CHR ''.'' # e) = e"
proof -
  have "length (js_split CHR ''.'' (p @ CHR ''.'' # e)) > 1"
    using js_split_snoc_sep [OF assms, of p] by simp
  with assms show ?thesis by (simp add: get_extension_def)
qed

theorem get_extension_last_dot_witness: "get_extension ''notes.v2/readme'' = ''v2/readme''"
proof -
  have "get_extension (''notes'' @ CHR ''.'' # ''v2/readme'') = ''v2/readme''"
    by (rule get_extension_last_dot) simp
  then show ?thesis by simp
qed

text \<open>C36: the domain matcher agrees with the regular expression: whatever it returns is
  the captured run of a parse of the URL, and whenever the URL has a parse it returns
  something.\<close>

theorem url_regex_match_correct:
  "(url_regex_match url = Some d \<longrightarrow> (\<exists>p r. regex_parse url p d r)) \<and>
   ((\<exists>p d r. regex_parse url p d r) \<longrightarrow> url_regex_match url \<noteq> None)"
proof (intro conjI impI)
  assume m: "url_regex_match url = Some d"
  show "\<exists>p r. regex_parse url p d r"
  proof (cases "starts_with url ''https://'' \<and> domain_run (drop 8 url) \<noteq> None")
    case True
    from m have "domain_run (drop 8 url) = Some d"
      unfolding url_regex_match_def if_P [OF True] .
    then obtain r where "drop 8 url = d @ r" "d \<noteq> []" "\<forall>c \<in> set d. is_domain_char c" "r = [] \<or> hd r = CHR ''/''"
      by (auto simp: domain_run_iff)
    moreover from True have "url = ''https://'' @ drop 8 url"
      by (auto simp: starts_with_def prefix_def)
    ultimately show ?thesis unfolding regex_parse_def by (metis insertCI)
  next
    case F1: False
    show ?thesis
    proof (cases "starts_with url ''http://'' \<and> domain_run (drop 7 url) \<noteq> None")
      case True
      from m have "domain_run (drop 7 url) = Some d"
        unfolding url_regex_match_def if_not_P [OF F1] if_P [OF True] .
      then obtain r where "drop 7 url = d @ r" "d \<noteq> []" "\<forall>c \<in> set d. is_domain_char c" "r = [] \<or> hd r = CHR ''/''"
        by (auto simp: domain_run_iff)
      moreover from True have "url = ''http://'' @ drop 7 url"
        by (auto simp: starts_with_def prefix_def)
      ultimately show ?thesis unfolding regex_parse_def by (metis insertCI)
    next
      case False
      from m have "domain_run url = Some d"
        unfolding url_regex_match_def if_not_P [OF F1] if_not_P [OF False] .
      then obtain r where "url = [] @ d @ r" "d \<noteq> []" "\<forall>c \<in> set d. is_domain_char c" "r = [] \<or> hd r = CHR ''/''"
        by (auto simp: domain_run_iff)
      then show ?thesis unfolding regex_parse_def by blast
    qed
  qed
next
  assume "\<exists>p d r. regex_parse url p d r"
  then obtain p d r where pr: "regex_parse url p d r" by blast
  then have dr: "domain_run (drop (length p) url) = Some d"
    by (auto simp: regex_parse_def domain_run_iff)
  from pr consider "p = []" | "p = ''http://''" | "p = ''https://''" by (auto simp: regex_parse_def)
  then show "url_regex_match url \<noteq> None"
  proof cases
    case 1
    with dr show ?thesis by (auto simp: url_regex_match_def)
  next
    case 2
    with pr dr show ?thesis by (auto simp: url_regex_match_def regex_parse_def starts_with_def)
  next
    case 3
    with pr dr show ?thesis by (auto simp: url_regex_match_def regex_parse_def starts_with_def)
  qed
qed

theorem url_regex_match_correct_witness:
  "url_regex_match ''https://example.com/a'' = Some ''example.com''"
proof -
  have "regex_parse ''https://example.com/a'' ''https://'' ''example.com'' ''/a''"
    by (simp add: regex_parse_def is_domain_char_def is_word_char_def)
  with url_regex_match_correct [of "''https://example.com/a''"]
  have "url_regex_match ''https://example.com/a'' \<noteq> None" by blast
  then show ?thesis by (simp add: url_regex_match_def starts_with_def domain_run_def is_domain_char_def is_word_char_def)
qed

text \<open>for \<open>https://\<close> followed by a run of domain characters and then \<open>/\<close> or the
  end, \<open>extractDomainFromHttpsUrl\<close> returns exactly that run.\<close>

theorem extract_domain_https:
  assumes "d \<noteq> []" "\<forall>c \<in> set d. is_domain_char c" "r = [] \<or> hd r = CHR ''/''"
  shows "extract_domain_from_https_url (''https://'' @ d @ r) = d"
proof -
  have "domain_run (d @ r) = Some d" using assms by (auto simp: domain_run_iff)
  then show ?thesis by (simp add: extract_domain_from_https_url_def url_regex_match_def starts_with_def)
qed

theorem extract_domain_https_witness: "extract_domain_from_https_url ''https://api.example.com/v1/chat'' = ''api.example.com''"
proof -
  have "extract_domain_from_https_url (''https://'' @ ''api.example.com'' @ ''/v1/chat'') = ''api.example.com''"
    by (rule extract_domain_https) (simp_all add: is_domain_char_def is_word_char_def)
  then show ?thesis by simp
qed

end
