(* ===== verification/FileWalk.thy ===== *)
theory FileWalk
  imports Prelude
begin

text \<open>
  \<open>getAllFiles(dirs, extensions)\<close> of \<open>src/src/utils/my-lib.ts\<close>: a recursive walk
  over directories that skips the paths containing \<open>/.obsidian\<close>, \<open>/.git\<close> or
  \<open>/.vscode\<close>, keeps the files whose lower-cased \<open>path.extname\<close> is one of the
  requested extensions, and remembers the directories it has entered. The walk is
  defined with fuel: it may not return (a directory that links to an ancestor), so a
  run that has not returned is \<open>None\<close>; a rejected \<open>readdir\<close> or \<open>stat\<close> is
  \<open>Inl\<close>.
\<close>

text \<open>The file system as the walk sees it: a map from paths to directories (with the
  entry names \<open>readdir\<close> lists, in its order) and regular files. A symbolic link is an
  entry whose path the map resolves like its target; \<open>stat\<close> follows it. A path whose
  resolution meets more symbolic links than the kernel follows (40 on Linux) is
  \<open>TooManyLinks\<close>: \<open>readdir\<close> and \<open>stat\<close> reject it with \<open>ELOOP\<close>.\<close>

datatype fs_node = Directory "string list" | RegularFile | TooManyLinks

type_synonym file_system = "string \<Rightarrow> fs_node option"

text \<open>The rejections of \<open>fs.promises.readdir\<close> and \<open>stat\<close> the walk can meet.\<close>

datatype fs_error = ENOENT string | ENOTDIR string | ELOOP string

text \<open>\<open>enum FileExtension { MD = ".md", TXT = ".txt", ALL = "" }\<close>.\<close>

datatype file_extension = MD | TXT | ALL_EXT

definition extension_string :: "file_extension \<Rightarrow> string" where
  "extension_string e = (case e of MD \<Rightarrow> ''.md'' | TXT \<Rightarrow> ''.txt'' | ALL_EXT \<Rightarrow> [])"

text \<open>\<open>IGNORED_DIRECTORIES\<close>.\<close>

definition IGNORED_DIRECTORIES :: "string list" where
  "IGNORED_DIRECTORIES = [''.obsidian'', ''.git'', ''.vscode'']"

text \<open>\<open>path.sep\<close> on POSIX, and \<open>path.resolve(dir, file)\<close> for an entry name \<open>file\<close>
  and a \<open>dir\<close> that is already absolute and normalised (no trailing separator, no
  \<open>.\<close> or \<open>..\<close> segment), where \<open>resolve\<close> is concatenation with the separator.\<close>

definition path_sep :: char where
  "path_sep = CHR ''/''"

definition resolve :: "string \<Rightarrow> string \<Rightarrow> string" where
  "resolve dir file = dir @ path_sep # file"

text \<open>\<open>path.extname\<close> (Node, POSIX): the text from the last dot of the last segment,
  except that it is empty when the segment has no dot, when its only dot is its first
  character (\<open>.bashrc\<close>), and for the segment \<open>..\<close>.\<close>

definition ext_name :: "string \<Rightarrow> string" where
  "ext_name p =
     (let b = last (js_split path_sep p); parts = js_split CHR ''.'' b in
      if length parts \<le> 1 \<or> (length parts = 2 \<and> hd parts = []) \<or> b = ''..'' then [] else CHR ''.'' # last parts)"

text \<open>\<open>fs.promises.readdir\<close> and \<open>stat(...).isDirectory()\<close>.\<close>

definition readdir :: "file_system \<Rightarrow> string \<Rightarrow> fs_error + string list" where
  "readdir fs d =
     (case fs d of None \<Rightarrow> Inl (ENOENT d) | Some RegularFile \<Rightarrow> Inl (ENOTDIR d) | Some TooManyLinks \<Rightarrow> Inl (ELOOP d)
      | Some (Directory ns) \<Rightarrow> Inr ns)"

definition stat_is_directory :: "file_system \<Rightarrow> string \<Rightarrow> fs_error + bool" where
  "stat_is_directory fs p =
     (case fs p of None \<Rightarrow> Inl (ENOENT p) | Some RegularFile \<Rightarrow> Inr False | Some TooManyLinks \<Rightarrow> Inl (ELOOP p)
      | Some (Directory _) \<Rightarrow> Inr True)"

text \<open>\<open>IGNORED_DIRECTORIES.some(ignored => resolvedPath.includes(sep + ignored))\<close>.\<close>

definition is_ignored :: "string \<Rightarrow> bool" where
  "is_ignored p \<longleftrightarrow> (\<exists>ig \<in> set IGNORED_DIRECTORIES. js_includes p (path_sep # ig))"

text \<open>The closure state of \<open>getAllFiles\<close>: \<open>visitedDirs\<close> and \<open>results\<close>.\<close>

record walk_state =
  visited_dirs :: "string list"
  results :: "string list"

text \<open>\<open>traverse(dir)\<close> and its \<open>for (const file of list)\<close> loop, sequential as the
  \<open>await\<close>s make them. Each nested call spends one unit of fuel; \<open>None\<close> is a walk that
  has not returned, \<open>Some (Inl e)\<close> a rejected promise.\<close>

fun traverse :: "nat \<Rightarrow> file_system \<Rightarrow> string list \<Rightarrow> string \<Rightarrow> walk_state \<Rightarrow> (fs_error + walk_state) option"
and traverse_entries :: "nat \<Rightarrow> file_system \<Rightarrow> string list \<Rightarrow> string \<Rightarrow> string list \<Rightarrow> walk_state \<Rightarrow> (fs_error + walk_state) option" where
  "traverse 0 fs exts dir st = None"
| "traverse (Suc n) fs exts dir st =
     (if dir \<in> set (visited_dirs st) then Some (Inr st)
      else
        (let st1 = st\<lparr>visited_dirs := dir # visited_dirs st\<rparr> in
         case readdir fs dir of
           Inl e \<Rightarrow> Some (Inl e)
         | Inr list \<Rightarrow> traverse_entries n fs exts dir list st1))"
| "traverse_entries n fs exts dir [] st = Some (Inr st)"
| "traverse_entries n fs exts dir (file # rest) st =
     (let resolved_path = resolve dir file in
      if is_ignored resolved_path then traverse_entries n fs exts dir rest st
      else
        (case stat_is_directory fs resolved_path of
           Inl e \<Rightarrow> Some (Inl e)
         | Inr True \<Rightarrow>
             (case traverse n fs exts resolved_path st of
                None \<Rightarrow> None
              | Some (Inl e) \<Rightarrow> Some (Inl e)
              | Some (Inr st') \<Rightarrow> traverse_entries n fs exts dir rest st')
         | Inr False \<Rightarrow>
             traverse_entries n fs exts dir rest
               (if to_lower (ext_name resolved_path) \<in> set exts
                then st\<lparr>results := results st @ [resolved_path]\<rparr> else st)))"

text \<open>\<open>for (const dir of dirs) await traverse(dir)\<close>.\<close>

fun traverse_all :: "nat \<Rightarrow> file_system \<Rightarrow> string list \<Rightarrow> string list \<Rightarrow> walk_state \<Rightarrow> (fs_error + walk_state) option" where
  "traverse_all n fs exts [] st = Some (Inr st)"
| "traverse_all n fs exts (d # ds) st =
     (case traverse n fs exts d st of
        None \<Rightarrow> None
      | Some (Inl e) \<Rightarrow> Some (Inl e)
      | Some (Inr st') \<Rightarrow> traverse_all n fs exts ds st')"

text \<open>\<open>getAllFiles(dirs, extensions)\<close>.\<close>

definition get_all_files :: "nat \<Rightarrow> file_system \<Rightarrow> string list \<Rightarrow> file_extension list \<Rightarrow> (fs_error + string list) option" where
  "get_all_files fuel fs dirs extensions =
     (let extensions_str = map extension_string extensions in
      map_option (map_sum id results) (traverse_all fuel fs extensions_str dirs \<lparr>visited_dirs = [], results = []\<rparr>))"

text \<open>Small file systems for concrete runs.\<close>

definition demo_fs :: file_system where
  "demo_fs = [''/v'' \<mapsto> Directory [''a.md'', ''.github'', ''sub'', ''b.txt''],
              ''/v/a.md'' \<mapsto> RegularFile, ''/v/.github'' \<mapsto> Directory [''c.md''], ''/v/.github/c.md'' \<mapsto> RegularFile,
              ''/v/sub'' \<mapsto> Directory [''D.MD'', ''e''], ''/v/sub/D.MD'' \<mapsto> RegularFile, ''/v/sub/e'' \<mapsto> RegularFile,
              ''/v/b.txt'' \<mapsto> RegularFile]"

text \<open>A directory \<open>/v\<close> holding one entry \<open>x\<close>, a symbolic link to \<open>/v\<close> itself:
  \<open>/v\<close> followed by \<open>k\<close> segments \<open>/x\<close> resolves through \<open>k\<close> links, to \<open>/v\<close> while
  \<open>k\<close> is at most the kernel's limit of 40, and to \<open>ELOOP\<close> beyond it.\<close>

definition max_symlinks :: nat where
  "max_symlinks = 40"

definition link_path :: "nat \<Rightarrow> string" where
  "link_path k = ''/v'' @ concat (replicate k ''/x'')"

definition self_link_fs :: file_system where
  "self_link_fs p =
     (let k = (length p - 2) div 2 in
      if p = link_path k then Some (if k \<le> max_symlinks then Directory [''x''] else TooManyLinks) else None)"

definition tiny_fs :: file_system where
  "tiny_fs = [''/w'' \<mapsto> Directory [''n.md'', ''LICENSE''], ''/w/n.md'' \<mapsto> RegularFile, ''/w/LICENSE'' \<mapsto> RegularFile]"

text \<open>What the result list should hold: regular files with an accepted extension
  outside the ignored directories.\<close>

definition good_file :: "file_system \<Rightarrow> string list \<Rightarrow> string \<Rightarrow> bool" where
  "good_file fs exts p \<longleftrightarrow> fs p = Some RegularFile \<and> to_lower (ext_name p) \<in> set exts \<and> \<not> is_ignored p"

text \<open>A finite tree of height at most \<open>h\<close> below a path: no entry is reached again
  through a link, so the walk cannot descend forever.\<close>

inductive fs_tree :: "file_system \<Rightarrow> string \<Rightarrow> nat \<Rightarrow> bool" for fs where
  missing: "fs p = None \<Longrightarrow> fs_tree fs p h"
| loop: "fs p = Some TooManyLinks \<Longrightarrow> fs_tree fs p h"
| regular: "fs p = Some RegularFile \<Longrightarrow> fs_tree fs p h"
| dir: "fs p = Some (Directory ns) \<Longrightarrow> (\<And>n. n \<in> set ns \<Longrightarrow> fs_tree fs (resolve p n) h) \<Longrightarrow> fs_tree fs p (Suc h)"

section \<open>Lemmas\<close>

lemma traverse_results:
  "traverse n fs exts dir st = Some (Inr st') \<Longrightarrow> \<exists>new. results st' = results st @ new \<and> (\<forall>p \<in> set new. good_file fs exts p)"
  "traverse_entries n fs exts dir es st = Some (Inr st') \<Longrightarrow> \<exists>new. results st' = results st @ new \<and> (\<forall>p \<in> set new. good_file fs exts p)"
proof (induction n fs exts dir st and n fs exts dir es st arbitrary: st' and st' rule: traverse_traverse_entries.induct)
  case (1 fs exts dir st)
  then show ?case by simp
next
  case (2 n fs exts dir st)
  then show ?case by (auto simp: Let_def split: if_splits sum.splits)
next
  case (3 n fs exts dir st)
  then show ?case by simp
next
  case (4 n fs exts dir fname rest st)
  let ?p = "resolve dir fname"
  show ?case
  proof (cases "is_ignored ?p")
    case True
    with "4.IH"(1) "4.prems" show ?thesis by (simp add: Let_def)
  next
    case ni: False
    show ?thesis
    proof (cases "stat_is_directory fs ?p")
      case (Inl e)
      with ni "4.prems" show ?thesis by (simp add: Let_def)
    next
      case (Inr isdir)
      show ?thesis
      proof (cases isdir)
        case True
        with ni Inr "4.prems" obtain st1 where t: "traverse n fs exts ?p st = Some (Inr st1)"
          and r: "traverse_entries n fs exts dir rest st1 = Some (Inr st')"
          by (auto simp: Let_def split: option.splits sum.splits)
        have b: "isdir = True" using True by simp
        from "4.IH"(2) [OF refl ni Inr b t] obtain new1 where n1: "results st1 = results st @ new1" "\<forall>p \<in> set new1. good_file fs exts p"
          by (auto simp: Let_def)
        from "4.IH"(3) [OF refl ni Inr b t refl r] obtain new2 where n2: "results st' = results st1 @ new2" "\<forall>p \<in> set new2. good_file fs exts p"
          by (auto simp: Let_def)
        from n1 n2 show ?thesis by (intro exI [of _ "new1 @ new2"]) auto
      next
        case False
        let ?st = "if to_lower (ext_name ?p) \<in> set exts then st\<lparr>results := results st @ [?p]\<rparr> else st"
        from ni Inr False "4.prems" have r: "traverse_entries n fs exts dir rest ?st = Some (Inr st')"
          by (simp add: Let_def)
        have b: "isdir = False" using False by simp
        from "4.IH"(4) [OF refl ni Inr b r] obtain new where n: "results st' = results ?st @ new" "\<forall>p \<in> set new. good_file fs exts p"
          by (auto simp: Let_def)
        have "fs ?p = Some RegularFile" using Inr False by (auto simp: stat_is_directory_def split: option.splits fs_node.splits)
        with n ni show ?thesis
          by (cases "to_lower (ext_name ?p) \<in> set exts") (auto simp: good_file_def intro!: exI [of _ "?p # new"])
      qed
    qed
  qed
qed

lemma traverse_entries_returns:
  assumes "\<And>f st. f \<in> set es \<Longrightarrow> traverse m fs exts (resolve dir f) st \<noteq> None"
  shows "traverse_entries m fs exts dir es st \<noteq> None"
  using assms
proof (induction es arbitrary: st)
  case Nil
  then show ?case by simp
next
  case (Cons f es)
  let ?p = "resolve dir f"
  show ?case
  proof (cases "is_ignored ?p")
    case True
    with Cons show ?thesis by (simp add: Let_def)
  next
    case ni: False
    show ?thesis
    proof (cases "stat_is_directory fs ?p")
      case (Inl e)
      with ni show ?thesis by (simp add: Let_def)
    next
      case (Inr b)
      show ?thesis
      proof (cases b)
        case True
        from Cons.prems obtain y where y: "traverse m fs exts ?p st = Some y" by fastforce
        with ni Inr True Cons show ?thesis by (cases y) (simp_all add: Let_def)
      next
        case False
        with ni Inr Cons show ?thesis by (simp add: Let_def)
      qed
    qed
  qed
qed

lemma traverse_returns: "fs_tree fs p h \<Longrightarrow> h < n \<Longrightarrow> traverse n fs exts p st \<noteq> None"
proof (induction arbitrary: n st rule: fs_tree.induct)
  case (missing p h)
  then obtain m where "n = Suc m" by (cases n) auto
  with missing show ?case by (simp add: readdir_def Let_def)
next
  case (loop p h)
  then obtain m where "n = Suc m" by (cases n) auto
  with loop show ?case by (simp add: readdir_def Let_def)
next
  case (regular p h)
  then obtain m where "n = Suc m" by (cases n) auto
  with regular show ?case by (simp add: readdir_def Let_def)
next
  case (dir p ns h)
  then obtain m where n: "n = Suc m" and hm: "h < m" by (cases n) auto
  have "traverse_entries m fs exts p ns st' \<noteq> None" for st'
    by (rule traverse_entries_returns) (use dir.IH hm in blast)
  with dir.hyps n show ?case by (simp add: readdir_def Let_def)
qed

lemma traverse_all_returns:
  "(\<And>d. d \<in> set ds \<Longrightarrow> fs_tree fs d h) \<Longrightarrow> h < n \<Longrightarrow> traverse_all n fs exts ds st \<noteq> None"
proof (induction ds arbitrary: st)
  case Nil
  then show ?case by simp
next
  case (Cons d ds)
  from Cons.prems have "traverse n fs exts d st \<noteq> None" by (intro traverse_returns) auto
  with Cons show ?case by (auto split: option.splits sum.splits)
qed

lemma js_includes_set: "js_includes s t \<Longrightarrow> set t \<subseteq> set s"
  by (auto simp: js_includes_iff)

lemma no_dot_not_ignored: "CHR ''.'' \<notin> set p \<Longrightarrow> \<not> is_ignored p"
  by (auto simp: is_ignored_def IGNORED_DIRECTORIES_def path_sep_def dest!: js_includes_set)

lemma length_link_path: "length (link_path k) = 2 + 2 * k"
  by (induction k) (simp_all add: link_path_def)

lemma resolve_link_path: "resolve (link_path k) ''x'' = link_path (Suc k)"
proof -
  have "concat (replicate k ''/x'') @ ''/x'' = concat (replicate (Suc k) ''/x'')"
    by (induction k) simp_all
  then show ?thesis by (simp add: link_path_def resolve_def path_sep_def)
qed

lemma self_link_fs_path:
  "self_link_fs (link_path k) = Some (if k \<le> max_symlinks then Directory [''x''] else TooManyLinks)"
  by (simp add: self_link_fs_def length_link_path Let_def)

lemma link_path_no_dot: "CHR ''.'' \<notin> set (link_path k)"
  by (induction k) (auto simp: link_path_def)

lemma traverse_self_link:
  "k \<le> max_symlinks \<Longrightarrow> (\<forall>v \<in> set (visited_dirs st). length v < length (link_path k)) \<Longrightarrow>
   traverse f self_link_fs exts (link_path k) st =
     (if Suc max_symlinks - k \<le> f then Some (Inl (ELOOP (link_path (Suc max_symlinks)))) else None)"
proof (induction f arbitrary: k st)
  case 0
  then show ?case by simp
next
  case (Suc n)
  let ?st1 = "st\<lparr>visited_dirs := link_path k # visited_dirs st\<rparr>"
  have nv: "link_path k \<notin> set (visited_dirs st)" using Suc.prems(2) by auto
  have ni: "\<not> is_ignored (link_path (Suc k))" by (rule no_dot_not_ignored [OF link_path_no_dot])
  show ?case
  proof (cases "k = max_symlinks")
    case True
    with nv ni show ?thesis
      by (simp add: readdir_def stat_is_directory_def self_link_fs_path resolve_link_path Let_def)
  next
    case False
    with Suc.prems(1) have k: "Suc k \<le> max_symlinks" by simp
    have "\<forall>v \<in> set (visited_dirs ?st1). length v < length (link_path (Suc k))"
      using Suc.prems(2) by (auto simp: length_link_path)
    from Suc.IH [OF k this] k nv ni Suc.prems(1) show ?thesis
      by (simp add: readdir_def stat_is_directory_def self_link_fs_path resolve_link_path Let_def Suc_diff_le
          split: option.split sum.split)
  qed
qed

lemma traverse_all_results:
  "traverse_all n fs exts ds st = Some (Inr st') \<Longrightarrow> \<exists>new. results st' = results st @ new \<and> (\<forall>p \<in> set new. good_file fs exts p)"
proof (induction ds arbitrary: st)
  case Nil
  then show ?case by simp
next
  case (Cons d ds)
  from Cons.prems obtain st1 where t: "traverse n fs exts d st = Some (Inr st1)"
    and r: "traverse_all n fs exts ds st1 = Some (Inr st')"
    by (auto split: option.splits sum.splits)
  from traverse_results(1) [OF t] Cons.IH [OF r] show ?case by force
qed

lemma get_all_files_good:
  "get_all_files fuel fs dirs extensions = Some (Inr rs) \<Longrightarrow> \<forall>r \<in> set rs. good_file fs (map extension_string extensions) r"
proof -
  assume "get_all_files fuel fs dirs extensions = Some (Inr rs)"
  then obtain st' where t: "traverse_all fuel fs (map extension_string extensions) dirs \<lparr>visited_dirs = [], results = []\<rparr> = Some (Inr st')"
    and rs: "rs = results st'"
    by (auto simp: get_all_files_def Let_def)
  from traverse_all_results [OF t] rs show ?thesis by simp
qed

lemma tiny_fs_run: "get_all_files 3 tiny_fs [''/w''] [MD] = Some (Inr [''/w/n.md''])"
  by code_simp

lemma tiny_fs_run_all: "get_all_files 3 tiny_fs [''/w''] [ALL_EXT] = Some (Inr [''/w/LICENSE''])"
  by code_simp

section \<open>Properties of getAllFiles\<close>

text \<open>C5: every path \<open>getAllFiles\<close> returns is a regular file, its lower-cased extension
  is one of those asked for, and it lies outside the ignored directories.\<close>

theorem get_all_files_sound:
  assumes "get_all_files fuel fs dirs extensions = Some (Inr rs)"
  shows "\<forall>r \<in> set rs. fs r = Some RegularFile \<and> to_lower (ext_name r) \<in> set (map extension_string extensions) \<and> \<not> is_ignored r"
  using get_all_files_good [OF assms] by (simp add: good_file_def)

theorem get_all_files_sound_witness:
  "tiny_fs ''/w/n.md'' = Some RegularFile \<and> \<not> is_ignored ''/w/n.md''"
  using get_all_files_sound [OF tiny_fs_run] by simp

text \<open>C6: on a file system that is a finite tree below every starting directory,
  \<open>getAllFiles\<close> returns (a list or a rejection) once the fuel exceeds the height.\<close>

theorem get_all_files_returns:
  assumes "\<forall>d \<in> set dirs. fs_tree fs d h" and "h < fuel"
  shows "\<exists>r. get_all_files fuel fs dirs extensions = Some r"
  using traverse_all_returns [of dirs fs h fuel] assms by (auto simp: get_all_files_def)

theorem get_all_files_returns_witness: "\<exists>r. get_all_files 2 tiny_fs [''/w''] [MD] = Some r"
proof -
  have "fs_tree tiny_fs ''/w'' (Suc 0)"
  proof (rule fs_tree.dir)
    show "tiny_fs ''/w'' = Some (Directory [''n.md'', ''LICENSE''])" by (simp add: tiny_fs_def)
    fix n assume "n \<in> set [''n.md'', ''LICENSE'']"
    then show "fs_tree tiny_fs (resolve ''/w'' n) 0"
      by (auto simp: tiny_fs_def resolve_def path_sep_def intro: fs_tree.regular)
  qed
  then show ?thesis using get_all_files_returns [of "[''/w'']" tiny_fs "Suc 0" 2] by simp
qed

text \<open>C38: \<open>visitedDirs\<close> holds path strings as \<open>path.resolve\<close> builds them, without
  resolving links: below a directory holding a link to itself every level is a new
  path, so the walk descends until the kernel refuses a path through more than 40
  links, and \<open>getAllFiles\<close> rejects with \<open>ELOOP\<close> instead of listing the directory;
  with less fuel than that depth it has not returned yet.\<close>

theorem get_all_files_self_link:
  "get_all_files fuel self_link_fs [''/v''] extensions =
     (if Suc max_symlinks \<le> fuel then Some (Inl (ELOOP (link_path (Suc max_symlinks)))) else None)"
proof -
  have "''/v'' = link_path 0" by (simp add: link_path_def)
  with traverse_self_link [of 0 "\<lparr>visited_dirs = [], results = []\<rparr>" fuel "map extension_string extensions"]
  show ?thesis by (simp add: get_all_files_def split: option.split sum.split)
qed

text \<open>a starting directory that does not exist rejects the whole call with
  \<open>ENOENT\<close>, whatever the directories after it.\<close>

theorem get_all_files_missing_root:
  assumes "fs d = None"
  shows "get_all_files (Suc n) fs (d # ds) extensions = Some (Inl (ENOENT d))"
  using assms by (simp add: get_all_files_def readdir_def Let_def)

theorem get_all_files_missing_root_witness:
  "get_all_files 3 tiny_fs [''/nowhere'', ''/w''] [MD] = Some (Inl (ENOENT ''/nowhere''))"
proof -
  have "tiny_fs ''/nowhere'' = None" by (simp add: tiny_fs_def)
  from get_all_files_missing_root [of tiny_fs "''/nowhere''", OF this, of 2 "[''/w'']" "[MD]"] show ?thesis by (simp add: numeral_3_eq_3)
qed

text \<open>\<open>FileExtension.ALL\<close> is the empty string, and \<open>path.extname\<close> is empty only for
  a file without an extension: asking for \<open>ALL\<close> returns only files that have none.\<close>

theorem get_all_files_all_ext:
  assumes "get_all_files fuel fs dirs [ALL_EXT] = Some (Inr rs)"
  shows "\<forall>r \<in> set rs. ext_name r = []"
proof
  fix r assume "r \<in> set rs"
  with get_all_files_good [OF assms] have "to_lower (ext_name r) = []"
    by (simp add: good_file_def extension_string_def)
  then show "ext_name r = []" by (simp add: to_lower_def)
qed

theorem get_all_files_all_ext_witness: "ext_name ''/w/LICENSE'' = [] \<and> ext_name ''/w/n.md'' \<noteq> []"
proof -
  from get_all_files_all_ext [OF tiny_fs_run_all] have "ext_name ''/w/LICENSE'' = []" by simp
  moreover have "ext_name ''/w/n.md'' \<noteq> []" by (simp add: ext_name_def path_sep_def)
  ultimately show ?thesis ..
qed

text \<open>C39: the ignore test matches any entry whose name starts with \<open>.git\<close>, so that a
  \<open>.github\<close> folder is skipped with its notes, while an upper-case \<open>.MD\<close> extension is
  accepted.\<close>

theorem get_all_files_git_prefix:
  "is_ignored (resolve d (''.git'' @ n)) \<and>
   get_all_files 5 demo_fs [''/v''] [MD] = Some (Inr [''/v/a.md'', ''/v/sub/D.MD''])"
proof
  show "is_ignored (resolve d (''.git'' @ n))"
    unfolding is_ignored_def js_includes_iff IGNORED_DIRECTORIES_def resolve_def path_sep_def
    by (rule bexI [of _ "''.git''"], rule exI [of _ d], rule exI [of _ n]) simp_all
  show "get_all_files 5 demo_fs [''/v''] [MD] = Some (Inr [''/v/a.md'', ''/v/sub/D.MD''])"
    by code_simp
qed

end
