(* ===== verification/PluginSetting.thy ===== *)
theory PluginSetting
  imports Complex_Main Prelude
begin

text \<open>
  The settings of \<open>src/src/globals/plugin-setting.ts\<close>: \<open>OuterSetting\<close>, the part the
  user sees, with its defaults \<open>DEFAULT_OUTER_SETTING\<close>, and \<open>innerSetting\<close>, the
  constants of the search. \<open>DEFAULT_OUTER_SETTING\<close> reads two facts of the
  environment when the module loads (the development flag and the language stored
  in \<open>localStorage\<close>); they are parameters here. The floating window reads and
  writes four more fields of \<open>ui\<close> that \<open>UISetting\<close> does not declare; they are
  \<open>string option\<close>, \<open>None\<close> standing for \<open>undefined\<close>, and the defaults leave them
  undefined.
\<close>

datatype showed_extension = ShowNone | ExceptMd | ShowAll

text \<open>\<open>UISetting\<close>, with the undeclared fields \<open>inFileFloatingWindowLeft\<close>,
  \<open>...Top\<close>, \<open>...Width\<close> and \<open>...Height\<close> that \<open>floating-window.ts\<close> uses.\<close>

record ui_setting =
  open_in_new_pane :: bool
  max_item_results :: nat
  showed_ext :: showed_extension
  in_file_left :: "string option"
  in_file_top :: "string option"
  in_file_width :: "string option"
  in_file_height :: "string option"

record api_provider =
  api_domain :: string
  api_key :: string

record outer_setting =
  log_level :: string
  enable_stop_words_en :: bool
  enable_chinese_patch :: bool
  enable_stop_words_zh :: bool
  api_provider1 :: api_provider
  api_provider2 :: api_provider
  exclude_extensions :: "string list"
  ui :: ui_setting

text \<open>\<open>DEFAULT_OUTER_SETTING\<close>, for the development flag and whether the stored
  language is \<open>zh\<close>.\<close>

definition DEFAULT_OUTER_SETTING :: "bool \<Rightarrow> bool \<Rightarrow> outer_setting" where
  "DEFAULT_OUTER_SETTING is_dev is_chinese_user =
     \<lparr>log_level = (if is_dev then ''trace'' else ''info''),
      enable_stop_words_en = True,
      enable_chinese_patch = (if is_chinese_user then True else False),
      enable_stop_words_zh = (if is_chinese_user then True else False),
      api_provider1 = \<lparr>api_domain = [], api_key = []\<rparr>,
      api_provider2 = \<lparr>api_domain = [], api_key = []\<rparr>,
      exclude_extensions = [],
      ui = \<lparr>open_in_new_pane = True, max_item_results = 30, showed_ext = ExceptMd,
            in_file_left = None, in_file_top = None, in_file_width = None, in_file_height = None\<rparr>\<rparr>"

record search_setting =
  min_term_length_for_prefix :: nat
  fuzzy_proportion :: rat
  min_term_length_for_prefix_search :: nat
  weight_filename :: rat
  weight_folder :: rat
  weight_tag_text :: rat
  weight_heading :: rat

definition inner_setting :: search_setting where
  "inner_setting = \<lparr>min_term_length_for_prefix = 3, fuzzy_proportion = 1 / 5,
     min_term_length_for_prefix_search = 2, weight_filename = 3, weight_folder = 2,
     weight_tag_text = 115 / 100, weight_heading = 127 / 100\<rparr>"

end
