(* ===== verification/FloatingWindow.thy ===== *)
theory FloatingWindow
  imports PluginSetting SearchService
begin

text \<open>
  The in-file floating window of \<open>src/src/ui/floating-window.ts\<close> as a state
  machine over DOM events. \<open>FloatingWindow\<close> keeps its drag and resize state in
  private fields, the container element it creates on every opening, the mounted
  component, and it registers four listeners on \<open>document\<close> while open; it reads
  and writes its position in the shared \<open>ui\<close> settings. The state record
  \<open>fw_state\<close> holds all of these; each handler of the class is one definition;
  \<open>fw_step\<close> dispatches one event the way the browser does: a document event runs
  the listeners registered for its type, in registration order; an event on the
  frame, the close button or the resize handle reaches its listener only while the
  container is in the document.

  The layout engine is a parameter \<open>lay\<close>: the pixel value it gives to a CSS
  length (\<open>offsetLeft\<close>, \<open>offsetTop\<close>, \<open>offsetWidth\<close>, \<open>offsetHeight\<close> of an element
  whose style holds that length). Style values are strings; assigning
  \<open>undefined\<close> to a style property leaves it unchanged, and CSS validity of other
  strings is not modelled. Pointer coordinates are integers.
\<close>

datatype dom_event = MouseMove | MouseUp

text \<open>The four handlers \<open>FloatingWindow\<close> registers on \<open>document\<close>. They are
  arrow-function fields, so each is one stable function reference, and
  \<open>addEventListener\<close> of a registered pair is a no-op.\<close>

datatype handler = HMouseMove | HMouseUp | HResize | HResizeEnd

text \<open>\<open>containerEl\<close>: the inline styles the class reads and writes, and whether the
  element is in the document.\<close>

record container =
  c_left :: string
  c_top :: string
  c_width :: string
  c_height :: string
  c_opacity :: string
  c_attached :: bool

text \<open>The fields of a \<open>FloatingWindow\<close>, the listeners of \<open>document\<close>, the shared
  \<open>ui\<close> settings, and the number of \<open>postSettingUpdated\<close> calls.\<close>

record fw_state =
  is_dragging :: bool
  drag_start_x :: int
  drag_start_y :: int
  is_resizing :: bool
  resize_start_x :: int
  resize_start_y :: int
  resize_start_width :: int
  resize_start_height :: int
  container_el :: "container option"
  mounted :: bool
  doc_listeners :: "(dom_event \<times> handler) list"
  ui_of :: ui_setting
  posted :: nat

definition add_event_listener :: "dom_event \<Rightarrow> handler \<Rightarrow> (dom_event \<times> handler) list \<Rightarrow> (dom_event \<times> handler) list" where
  "add_event_listener t h ls = (if (t, h) \<in> set ls then ls else ls @ [(t, h)])"

definition remove_event_listener :: "dom_event \<Rightarrow> handler \<Rightarrow> (dom_event \<times> handler) list \<Rightarrow> (dom_event \<times> handler) list" where
  "remove_event_listener t h ls = filter (\<lambda>p. p \<noteq> (t, h)) ls"

text \<open>\<open>el.style.x = v\<close> for a value that may be \<open>undefined\<close>.\<close>

definition style_assign :: "string \<Rightarrow> string option \<Rightarrow> string" where
  "style_assign old v = (case v of None \<Rightarrow> old | Some s \<Rightarrow> s)"

text \<open>\<open>v || d\<close> for a value that may be undefined or the empty string.\<close>

definition js_or :: "string option \<Rightarrow> string \<Rightarrow> string" where
  "js_or v d = (case v of Some s \<Rightarrow> if s = [] then d else s | None \<Rightarrow> d)"

text \<open>\<open>InFileFloatingWindow.loadContainerElStates\<close> and \<open>saveContainerElStates\<close>.\<close>

definition load_container_el_states :: "ui_setting \<Rightarrow> container \<Rightarrow> container" where
  "load_container_el_states u c =
     c\<lparr>c_top := style_assign (c_top c) (in_file_top u), c_left := style_assign (c_left c) (in_file_left u),
       c_width := js_or (in_file_width u) ''300px'', c_height := js_or (in_file_height u) ''200px''\<rparr>"

definition save_container_el_states :: "container \<Rightarrow> ui_setting \<Rightarrow> ui_setting" where
  "save_container_el_states c u =
     u\<lparr>in_file_left := Some (c_left c), in_file_top := Some (c_top c),
       in_file_width := Some (c_width c), in_file_height := Some (c_height c)\<rparr>"

text \<open>The opening branch of \<open>toggle()\<close>: a new container in the document, the
  document listeners, the stored position, the mounted component.\<close>

definition fw_open :: "fw_state \<Rightarrow> fw_state" where
  "fw_open s =
     (let c = \<lparr>c_left = [], c_top = [], c_width = [], c_height = [], c_opacity = [], c_attached = True\<rparr>;
          ls = add_event_listener MouseUp HMouseUp (add_event_listener MouseMove HMouseMove (doc_listeners s));
          ls' = add_event_listener MouseUp HResizeEnd (add_event_listener MouseMove HResize ls)
      in s\<lparr>container_el := Some (load_container_el_states (ui_of s) c), doc_listeners := ls', mounted := True\<rparr>)"

text \<open>\<open>onClose\<close>: the four listeners removed, the component destroyed, the container
  removed from the document (the field keeps the detached element).\<close>

definition on_close :: "fw_state \<Rightarrow> fw_state" where
  "on_close s =
     s\<lparr>doc_listeners := remove_event_listener MouseUp HResizeEnd (remove_event_listener MouseMove HResize
          (remove_event_listener MouseUp HMouseUp (remove_event_listener MouseMove HMouseMove (doc_listeners s)))),
       mounted := False, container_el := map_option (\<lambda>c. c\<lparr>c_attached := False\<rparr>) (container_el s)\<rparr>"

definition toggle :: "fw_state \<Rightarrow> fw_state" where
  "toggle s = (if mounted s then on_close s else fw_open s)"

definition update_container :: "(container \<Rightarrow> container) \<Rightarrow> fw_state \<Rightarrow> fw_state" where
  "update_container f s = s\<lparr>container_el := map_option f (container_el s)\<rparr>"

definition handle_mouse_down :: "(string \<Rightarrow> int) \<Rightarrow> int \<Rightarrow> int \<Rightarrow> fw_state \<Rightarrow> fw_state" where
  "handle_mouse_down lay x y s =
     (case container_el s of
        None \<Rightarrow> s
      | Some c \<Rightarrow> s\<lparr>is_dragging := True, container_el := Some (c\<lparr>c_opacity := ''0.75''\<rparr>),
                     drag_start_x := x - lay (c_left c), drag_start_y := y - lay (c_top c)\<rparr>)"

definition px :: "int \<Rightarrow> string" where
  "px n = show_int n @ ''px''"

definition handle_mouse_move :: "int \<Rightarrow> int \<Rightarrow> fw_state \<Rightarrow> fw_state" where
  "handle_mouse_move x y s =
     (if is_dragging s
      then update_container (\<lambda>c. c\<lparr>c_left := px (x - drag_start_x s), c_top := px (y - drag_start_y s)\<rparr>) s
      else s)"

text \<open>\<open>handleMouseUp\<close>: no guard, it runs on every mouse-up in the document.\<close>

definition handle_mouse_up :: "fw_state \<Rightarrow> fw_state" where
  "handle_mouse_up s =
     (let s1 = update_container (\<lambda>c. c\<lparr>c_opacity := ''1''\<rparr>) (s\<lparr>is_dragging := False\<rparr>) in
      case container_el s1 of
        None \<Rightarrow> s1
      | Some c \<Rightarrow> s1\<lparr>ui_of := save_container_el_states c (ui_of s1), posted := Suc (posted s1)\<rparr>)"

definition handle_resize_start :: "(string \<Rightarrow> int) \<Rightarrow> int \<Rightarrow> int \<Rightarrow> fw_state \<Rightarrow> fw_state" where
  "handle_resize_start lay x y s =
     (case container_el s of
        None \<Rightarrow> s
      | Some c \<Rightarrow> s\<lparr>is_resizing := True, resize_start_x := x, resize_start_y := y,
                     resize_start_width := lay (c_width c), resize_start_height := lay (c_height c)\<rparr>)"

definition handle_resize :: "int \<Rightarrow> int \<Rightarrow> fw_state \<Rightarrow> fw_state" where
  "handle_resize x y s =
     (if \<not> is_resizing s then s
      else
        (let new_width = resize_start_width s + (x - resize_start_x s);
             new_height = resize_start_height s + (y - resize_start_y s)
         in update_container (\<lambda>c. c\<lparr>c_width := px (max 200 new_width), c_height := px (max 100 new_height)\<rparr>) s))"

definition handle_resize_end :: "fw_state \<Rightarrow> fw_state" where
  "handle_resize_end s =
     (if \<not> is_resizing s then s
      else
        (let s1 = s\<lparr>is_resizing := False\<rparr> in
         case container_el s1 of
           None \<Rightarrow> s1
         | Some c \<Rightarrow> s1\<lparr>ui_of := save_container_el_states c (ui_of s1), posted := Suc (posted s1)\<rparr>))"

text \<open>A pointer event on \<open>document\<close>, with its page coordinates.\<close>

fun run_handler :: "int \<Rightarrow> int \<Rightarrow> handler \<Rightarrow> fw_state \<Rightarrow> fw_state" where
  "run_handler x y HMouseMove s = handle_mouse_move x y s"
| "run_handler x y HMouseUp s = handle_mouse_up s"
| "run_handler x y HResize s = handle_resize x y s"
| "run_handler x y HResizeEnd s = handle_resize_end s"

definition dispatch :: "dom_event \<Rightarrow> int \<Rightarrow> int \<Rightarrow> fw_state \<Rightarrow> fw_state" where
  "dispatch t x y s = fold (\<lambda>(t', h) s'. if t' = t then run_handler x y h s' else s') (doc_listeners s) s"

text \<open>\<open>FloatingWindowManager\<close>: \<open>toggle(windowType)\<close> throws for \<open>inVault\<close>.\<close>

datatype window_type = InFile | InVault

definition fwm_toggle :: "window_type \<Rightarrow> fw_state \<Rightarrow> string + fw_state" where
  "fwm_toggle wt s = (if wt = InFile then Inr (toggle s) else Inl TO_BE_IMPL)"

definition reset_all_positions :: "fw_state \<Rightarrow> string + fw_state" where
  "reset_all_positions s =
     (let s1 = s\<lparr>ui_of := (ui_of s)\<lparr>in_file_left := Some ''2.7em'', in_file_top := Some ''2.5em''\<rparr>\<rparr> in
      case fwm_toggle InFile s1 of
        Inl e \<Rightarrow> Inl e
      | Inr s2 \<Rightarrow> fwm_toggle InFile s2)"

text \<open>The events the window can receive.\<close>

datatype fw_event =
    EvToggle
  | EvResetPositions
  | EvUnload
  | EvCloseClick
  | EvFrameDown int int
  | EvResizeDown int int
  | EvMove int int
  | EvUp int int

definition attached :: "fw_state \<Rightarrow> bool" where
  "attached s = (case container_el s of Some c \<Rightarrow> c_attached c | None \<Rightarrow> False)"

fun fw_step :: "(string \<Rightarrow> int) \<Rightarrow> fw_state \<Rightarrow> fw_event \<Rightarrow> fw_state" where
  "fw_step lay s EvToggle = (case fwm_toggle InFile s of Inl _ \<Rightarrow> s | Inr s' \<Rightarrow> s')"
| "fw_step lay s EvResetPositions = (case reset_all_positions s of Inl _ \<Rightarrow> s | Inr s' \<Rightarrow> s')"
| "fw_step lay s EvUnload = on_close s"
| "fw_step lay s EvCloseClick = (if attached s then on_close s else s)"
| "fw_step lay s (EvFrameDown x y) = (if attached s then handle_mouse_down lay x y s else s)"
| "fw_step lay s (EvResizeDown x y) = (if attached s then handle_resize_start lay x y s else s)"
| "fw_step lay s (EvMove x y) = dispatch MouseMove x y s"
| "fw_step lay s (EvUp x y) = dispatch MouseUp x y s"

definition fw_run :: "(string \<Rightarrow> int) \<Rightarrow> fw_state \<Rightarrow> fw_event list \<Rightarrow> fw_state" where
  "fw_run lay s evs = fold (\<lambda>e s'. fw_step lay s' e) evs s"

text \<open>The window as the plugin constructs it: closed, never opened, with the given
  settings.\<close>

definition fw_init :: "ui_setting \<Rightarrow> fw_state" where
  "fw_init u = \<lparr>is_dragging = False, drag_start_x = 0, drag_start_y = 0, is_resizing = False,
     resize_start_x = 0, resize_start_y = 0, resize_start_width = 0, resize_start_height = 0,
     container_el = None, mounted = False, doc_listeners = [], ui_of = u, posted = 0\<rparr>"

inductive fw_reach :: "(string \<Rightarrow> int) \<Rightarrow> fw_state \<Rightarrow> bool" for lay where
  init: "fw_reach lay (fw_init u)"
| step: "fw_reach lay s \<Longrightarrow> fw_reach lay (fw_step lay s e)"

text \<open>The listeners of an open window, in registration order.\<close>

definition open_listeners :: "(dom_event \<times> handler) list" where
  "open_listeners = [(MouseMove, HMouseMove), (MouseUp, HMouseUp), (MouseMove, HResize), (MouseUp, HResizeEnd)]"

definition fw_inv :: "fw_state \<Rightarrow> bool" where
  "fw_inv s \<longleftrightarrow>
     (if mounted s then doc_listeners s = open_listeners \<and> attached s
      else doc_listeners s = [] \<and> \<not> attached s)"

text \<open>Concrete windows for the runs below: the default settings, the window opened
  with them, and settings holding a saved position.\<close>

definition demo_ui :: ui_setting where
  "demo_ui = ui (DEFAULT_OUTER_SETTING False False)"

definition demo_open :: fw_state where
  "demo_open = fw_open (fw_init demo_ui)"

definition demo_saved_ui :: ui_setting where
  "demo_saved_ui = demo_ui\<lparr>in_file_left := Some ''40px'', in_file_top := Some ''30px'',
     in_file_width := Some ''500px'', in_file_height := Some ''400px''\<rparr>"

section \<open>Lemmas\<close>

lemma run_handler_frame [simp]:
  "mounted (run_handler x y h s) = mounted s"
  "doc_listeners (run_handler x y h s) = doc_listeners s"
  "attached (run_handler x y h s) = attached s"
  by (cases h; simp add: handle_mouse_move_def handle_mouse_up_def handle_resize_def handle_resize_end_def
      update_container_def attached_def Let_def split: option.splits)+

lemma fold_handlers_frame:
  "mounted (fold (\<lambda>(t', h) s'. if t' = t then run_handler x y h s' else s') ls s) = mounted s \<and>
   doc_listeners (fold (\<lambda>(t', h) s'. if t' = t then run_handler x y h s' else s') ls s) = doc_listeners s \<and>
   attached (fold (\<lambda>(t', h) s'. if t' = t then run_handler x y h s' else s') ls s) = attached s"
proof (induction ls arbitrary: s)
  case Nil
  then show ?case by simp
next
  case (Cons p ls)
  obtain t' h where p: "p = (t', h)" by (cases p)
  show ?case using Cons.IH [of "if t' = t then run_handler x y h s else s"] by (simp add: p)
qed

lemma dispatch_frame [simp]:
  "mounted (dispatch t x y s) = mounted s"
  "doc_listeners (dispatch t x y s) = doc_listeners s"
  "attached (dispatch t x y s) = attached s"
  using fold_handlers_frame [of t x y "doc_listeners s" s] by (simp_all add: dispatch_def)

lemma fw_open_inv: "fw_inv s \<Longrightarrow> \<not> mounted s \<Longrightarrow> fw_inv (fw_open s)"
  by (simp add: fw_inv_def fw_open_def add_event_listener_def open_listeners_def attached_def
      load_container_el_states_def Let_def)

lemma on_close_inv: "fw_inv s \<Longrightarrow> fw_inv (on_close s)"
  by (auto simp: fw_inv_def on_close_def remove_event_listener_def open_listeners_def attached_def
      split: if_splits option.splits)

lemma toggle_inv: "fw_inv s \<Longrightarrow> fw_inv (toggle s)"
  by (simp add: toggle_def fw_open_inv on_close_inv)

lemma fw_inv_ui [simp]: "fw_inv (s\<lparr>ui_of := u\<rparr>) = fw_inv s"
  by (simp add: fw_inv_def attached_def)

lemma reset_all_positions_Inr:
  "reset_all_positions s = Inr (toggle (toggle (s\<lparr>ui_of := (ui_of s)\<lparr>in_file_left := Some ''2.7em'', in_file_top := Some ''2.5em''\<rparr>\<rparr>)))"
  by (simp add: reset_all_positions_def fwm_toggle_def)

lemma handle_mouse_down_frame [simp]:
  "mounted (handle_mouse_down lay x y s) = mounted s"
  "doc_listeners (handle_mouse_down lay x y s) = doc_listeners s"
  "attached (handle_mouse_down lay x y s) = attached s"
  by (simp_all add: handle_mouse_down_def attached_def split: option.splits)

lemma handle_resize_start_frame [simp]:
  "mounted (handle_resize_start lay x y s) = mounted s"
  "doc_listeners (handle_resize_start lay x y s) = doc_listeners s"
  "attached (handle_resize_start lay x y s) = attached s"
  by (simp_all add: handle_resize_start_def attached_def split: option.splits)

lemma fw_inv_frame: "mounted s' = mounted s \<Longrightarrow> doc_listeners s' = doc_listeners s \<Longrightarrow> attached s' = attached s \<Longrightarrow> fw_inv s' = fw_inv s"
  by (simp add: fw_inv_def)

lemma fw_inv_handlers [simp]:
  "fw_inv (dispatch t x y s) = fw_inv s"
  "fw_inv (handle_mouse_down lay x y s) = fw_inv s"
  "fw_inv (handle_resize_start lay x y s) = fw_inv s"
  by (rule fw_inv_frame; simp)+

lemma fw_step_inv: "fw_inv s \<Longrightarrow> fw_inv (fw_step lay s e)"
  by (cases e) (simp_all add: fwm_toggle_def reset_all_positions_Inr toggle_inv on_close_inv)

lemma fw_init_inv: "fw_inv (fw_init u)"
  by (simp add: fw_inv_def fw_init_def attached_def)

lemma fw_reach_inv: "fw_reach lay s \<Longrightarrow> fw_inv s"
  by (induction rule: fw_reach.induct) (simp_all add: fw_init_inv fw_step_inv)


lemma open_listeners_distinct: "distinct open_listeners"
  by (simp add: open_listeners_def)

lemma fw_inv_open:
  "fw_inv s \<Longrightarrow> mounted s \<Longrightarrow> doc_listeners s = open_listeners \<and> (\<exists>c. container_el s = Some c \<and> c_attached c)"
  by (auto simp: fw_inv_def attached_def split: option.splits)

lemma dispatch_open:
  "doc_listeners s = open_listeners \<Longrightarrow> dispatch MouseMove x y s = handle_resize x y (handle_mouse_move x y s)"
  "doc_listeners s = open_listeners \<Longrightarrow> dispatch MouseUp x y s = handle_resize_end (handle_mouse_up s)"
  by (simp_all add: dispatch_def open_listeners_def)

lemma drag_delta [simp]: "(x1::int) - (x0 - l) = l + (x1 - x0)"
  by simp

lemma save_opacity [simp]: "save_container_el_states (c\<lparr>c_opacity := o'\<rparr>) u = save_container_el_states c u"
  by (simp add: save_container_el_states_def)

lemma demo_open_simps [simp]:
  "mounted demo_open" "fw_inv demo_open" "posted demo_open = 0" "is_resizing demo_open = False"
  "container_el demo_open = Some \<lparr>c_left = [], c_top = [], c_width = ''300px'', c_height = ''200px'', c_opacity = [], c_attached = True\<rparr>"
  by (simp_all add: demo_open_def fw_open_def fw_init_def fw_inv_def demo_ui_def DEFAULT_OUTER_SETTING_def
      add_event_listener_def open_listeners_def attached_def load_container_el_states_def style_assign_def js_or_def Let_def)

section \<open>Properties of the floating window\<close>

text \<open>C21: in every reachable state of the window, the four document listeners are
  registered, each once, exactly while the window is open, and the container is in
  the document exactly then: opening and closing in any order never leaks or loses a
  listener.\<close>

theorem fw_reach_listeners:
  assumes "fw_reach lay s"
  shows "(if mounted s then doc_listeners s = open_listeners \<and> attached s else doc_listeners s = [] \<and> \<not> attached s) \<and>
         distinct (doc_listeners s)"
  using fw_reach_inv [OF assms] open_listeners_distinct by (auto simp: fw_inv_def split: if_splits)

theorem fw_reach_listeners_witness:
  "mounted (fw_step (\<lambda>_. 0) (fw_init demo_ui) EvToggle) \<and> doc_listeners (fw_step (\<lambda>_. 0) (fw_init demo_ui) EvToggle) = open_listeners"
proof -
  have r: "fw_reach (\<lambda>_. 0) (fw_step (\<lambda>_. 0) (fw_init demo_ui) EvToggle)" by (rule fw_reach.step, rule fw_reach.init)
  have m: "mounted (fw_step (\<lambda>_. 0) (fw_init demo_ui) EvToggle)"
    by (simp add: fwm_toggle_def toggle_def fw_init_def fw_open_def)
  from fw_reach_listeners [OF r] m show ?thesis by simp
qed

text \<open>C22: pressing on the frame and moving the pointer moves an open window by the
  pointer's displacement, from the position the layout gives its current style.\<close>

theorem fw_drag_moves:
  assumes "fw_inv s" "mounted s" "container_el s = Some c"
  shows "map_option (\<lambda>c'. (c_left c', c_top c')) (container_el (fw_run lay s [EvFrameDown x0 y0, EvMove x1 y1])) =
         Some (px (lay (c_left c) + (x1 - x0)), px (lay (c_top c) + (y1 - y0)))"
proof -
  from fw_inv_open [OF assms(1,2)] assms(3) have ls: "doc_listeners s = open_listeners" and a: "attached s"
    by (auto simp: attached_def)
  let ?s1 = "handle_mouse_down lay x0 y0 s"
  have s1: "fw_step lay s (EvFrameDown x0 y0) = ?s1" using a by simp
  have ls1: "doc_listeners ?s1 = open_listeners" using ls by simp
  show ?thesis
    using assms(3) a ls by (simp add: fw_run_def dispatch_open(1) handle_mouse_down_def handle_mouse_move_def
        handle_resize_def update_container_def Let_def)
qed

theorem fw_drag_moves_witness:
  "map_option (\<lambda>c'. (c_left c', c_top c')) (container_el (fw_run (\<lambda>_. 0) demo_open [EvFrameDown 5 5, EvMove 15 25])) =
   Some (px 10, px 20)"
  using fw_drag_moves [of demo_open _ "\<lambda>_. 0" 5 5 15 25] by simp

text \<open>C23: a pointer move while resizing sets the width and height to the start size
  plus the displacement, never below 200 by 100 pixels.\<close>

theorem fw_resize_min:
  assumes "fw_inv s" "mounted s" "is_resizing s"
  shows "\<exists>c w h. container_el (fw_step lay s (EvMove x y)) = Some c \<and> c_width c = px w \<and> c_height c = px h \<and>
           w = max 200 (resize_start_width s + (x - resize_start_x s)) \<and> h = max 100 (resize_start_height s + (y - resize_start_y s)) \<and>
           200 \<le> w \<and> 100 \<le> h"
proof -
  from fw_inv_open [OF assms(1,2)] obtain c where ls: "doc_listeners s = open_listeners" and c: "container_el s = Some c"
    by blast
  show ?thesis
    using c assms(3) by (simp add: dispatch_open(1) [OF ls] handle_mouse_move_def handle_resize_def update_container_def Let_def)
qed

theorem fw_resize_min_witness:
  "\<exists>c. container_el (fw_step (\<lambda>_. 0) (fw_step (\<lambda>_. 0) demo_open (EvResizeDown 0 0)) (EvMove 50 50)) = Some c \<and>
       c_width c = px 200 \<and> c_height c = px 100"
proof -
  let ?s = "fw_step (\<lambda>_. 0) demo_open (EvResizeDown 0 0)"
  have i: "fw_inv ?s" "mounted ?s" by (simp_all add: attached_def)
  have "is_resizing ?s" "resize_start_width ?s = 0" "resize_start_x ?s = 0"
    "resize_start_height ?s = 0" "resize_start_y ?s = 0"
    by (simp_all add: attached_def handle_resize_start_def)
  note i this
  with fw_resize_min [of ?s "\<lambda>_. 0" 50 50] show ?thesis by auto
qed

text \<open>C27: closing the window does not reset \<open>isDragging\<close>: a window closed by the
  hotkey during a drag and opened again follows the pointer on the next move,
  although no button was pressed on it since it was reopened.\<close>

theorem fw_stale_drag:
  "mounted (fw_run lay (fw_init u) [EvToggle, EvFrameDown x0 y0, EvToggle, EvToggle]) \<and>
   is_dragging (fw_run lay (fw_init u) [EvToggle, EvFrameDown x0 y0, EvToggle, EvToggle]) \<and>
   map_option c_left (container_el (fw_run lay (fw_init u) [EvToggle, EvFrameDown x0 y0, EvToggle, EvToggle, EvMove x1 y1])) =
     Some (px (lay (style_assign [] (in_file_left u)) + (x1 - x0)))"
  by (simp add: fw_run_def fw_init_def fwm_toggle_def toggle_def fw_open_def on_close_def attached_def
      add_event_listener_def remove_event_listener_def load_container_el_states_def handle_mouse_down_def
      dispatch_def handle_mouse_move_def handle_resize_def update_container_def Let_def)

text \<open>C24: \<open>resetAllPositions\<close> stores the default position \<open>2.7em\<close>, \<open>2.5em\<close>,
  leaves an open window open at that position and a closed window closed, and keeps
  the listener invariant.\<close>

theorem reset_all_positions_correct:
  assumes "fw_inv s"
  shows "\<exists>s'. reset_all_positions s = Inr s' \<and> fw_inv s' \<and> mounted s' = mounted s \<and>
     in_file_left (ui_of s') = Some ''2.7em'' \<and> in_file_top (ui_of s') = Some ''2.5em'' \<and>
     (if mounted s then map_option (\<lambda>c. (c_left c, c_top c)) (container_el s') = Some (''2.7em'', ''2.5em'') else \<not> attached s')"
proof -
  let ?s1 = "s\<lparr>ui_of := (ui_of s)\<lparr>in_file_left := Some ''2.7em'', in_file_top := Some ''2.5em''\<rparr>\<rparr>"
  have i1: "fw_inv ?s1" using assms by simp
  have "fw_inv (toggle (toggle ?s1))" using i1 by (intro toggle_inv)
  moreover have "mounted (toggle (toggle ?s1)) = mounted s"
    by (simp add: toggle_def on_close_def fw_open_def)
  moreover have "in_file_left (ui_of (toggle (toggle ?s1))) = Some ''2.7em'' \<and> in_file_top (ui_of (toggle (toggle ?s1))) = Some ''2.5em''"
    by (simp add: toggle_def on_close_def fw_open_def Let_def)
  moreover have "if mounted s then map_option (\<lambda>c. (c_left c, c_top c)) (container_el (toggle (toggle ?s1))) = Some (''2.7em'', ''2.5em'')
      else \<not> attached (toggle (toggle ?s1))"
    by (simp add: toggle_def on_close_def fw_open_def load_container_el_states_def style_assign_def attached_def Let_def)
  ultimately show ?thesis by (simp add: reset_all_positions_Inr)
qed

theorem reset_all_positions_correct_witness:
  "\<exists>s'. reset_all_positions demo_open = Inr s' \<and> mounted s' \<and>
      map_option (\<lambda>c. (c_left c, c_top c)) (container_el s') = Some (''2.7em'', ''2.5em'')"
  using reset_all_positions_correct [of demo_open] by auto

text \<open>C26: \<open>handleMouseUp\<close> has no \<open>isDragging\<close> guard: while the window is open,
  every mouse-up anywhere in the document stores the window's geometry in the
  settings and posts a settings update, even when nothing was dragged.\<close>

theorem fw_mouse_up_saves:
  assumes "fw_inv s" "mounted s" "\<not> is_resizing s" "container_el s = Some c"
  shows "posted (fw_step lay s (EvUp x y)) = Suc (posted s) \<and> ui_of (fw_step lay s (EvUp x y)) = save_container_el_states c (ui_of s)"
proof -
  from fw_inv_open [OF assms(1,2)] have ls: "doc_listeners s = open_listeners" by blast
  show ?thesis
    using assms(3,4) by (simp add: dispatch_open(2) [OF ls] handle_mouse_up_def handle_resize_end_def update_container_def Let_def)
qed

theorem fw_mouse_up_saves_witness:
  "posted (fw_step (\<lambda>_. 0) demo_open (EvUp 0 0)) = 1 \<and> in_file_width (ui_of (fw_step (\<lambda>_. 0) demo_open (EvUp 0 0))) = Some ''300px''"
  using fw_mouse_up_saves [of demo_open _ "\<lambda>_. 0" 0 0] by (simp add: save_container_el_states_def)

text \<open>C25: the stored geometry survives a reopening: opening a window whose settings
  hold a position and a non-empty size, and releasing the mouse, stores back exactly
  the settings it was opened with.\<close>

theorem fw_position_roundtrip:
  assumes "fw_inv s" "\<not> mounted s" "in_file_left (ui_of s) = Some l" "in_file_top (ui_of s) = Some t"
    "in_file_width (ui_of s) = Some w" "in_file_height (ui_of s) = Some h" "w \<noteq> []" "h \<noteq> []"
  shows "ui_of (fw_run lay s [EvToggle, EvUp x y]) = ui_of s"
proof -
  have o: "fw_step lay s EvToggle = fw_open s" using assms(2) by (simp add: fwm_toggle_def toggle_def)
  have i: "fw_inv (fw_open s)" using fw_open_inv [OF assms(1,2)] .
  have ls: "doc_listeners (fw_open s) = open_listeners" using fw_inv_open [OF i] by (simp add: fw_open_def Let_def)
  have r: "fw_run lay s [EvToggle, EvUp x y] = handle_resize_end (handle_mouse_up (fw_open s))"
    using o by (simp add: fw_run_def dispatch_open(2) [OF ls])
  show ?thesis
    using assms(3-8)
    by (simp add: r handle_mouse_up_def handle_resize_end_def update_container_def
        fw_open_def load_container_el_states_def save_container_el_states_def style_assign_def js_or_def Let_def)
qed

theorem fw_position_roundtrip_witness:
  "ui_of (fw_run (\<lambda>_. 0) (fw_init demo_saved_ui) [EvToggle, EvUp 0 0]) = demo_saved_ui"
proof -
  let ?s = "fw_init demo_saved_ui"
  have "fw_inv ?s" by (rule fw_init_inv)
  moreover have "\<not> mounted ?s" by (simp add: fw_init_def)
  moreover have "in_file_left (ui_of ?s) = Some ''40px''" "in_file_top (ui_of ?s) = Some ''30px''"
    "in_file_width (ui_of ?s) = Some ''500px''" "in_file_height (ui_of ?s) = Some ''400px''"
    by (simp_all add: fw_init_def demo_saved_ui_def)
  ultimately show ?thesis
    using fw_position_roundtrip [of ?s "''40px''" "''30px''" "''500px''" "''400px''" "\<lambda>_. 0" 0 0] by (simp add: fw_init_def)
qed

end
