(* ===== verification/CommandRegistry.thy ===== *)
theory CommandRegistry
  imports FloatingWindow
begin

text \<open>
  \<open>src/src/services/obsidian/command-registry.ts\<close>: the commands the plugin adds
  to Obsidian and the navigation hotkeys it registers on a keymap scope. A scope
  (Obsidian's \<open>Scope\<close>, not among the sources) is the list of its key handlers in
  registration order; \<open>register\<close> returns a handler with a fresh identity and
  \<open>unregister\<close> removes that handler. \<open>AbstractNavigationHotkeys\<close> remembers the
  handlers it registered so that \<open>unregisterAll\<close> can remove them. A command's
  callback is modelled by the effects it has: the calls it makes on the floating
  window manager, the modals it opens, the events it emits.
\<close>

datatype modifier = Ctrl | Alt | Shift | Mod | Meta

text \<open>The members of \<open>EventEnum\<close> the registry emits.\<close>

datatype event_enum =
    NEXT_ITEM_FLOATING_WINDOW | PREV_ITEM_FLOATING_WINDOW
  | NEXT_ITEM | PREV_ITEM | CONFIRM_ITEM | CONFIRM_ITEM_IN_BACKGROUND
  | NEXT_SUB_ITEM | PREV_SUB_ITEM | SWITCH_LEXICAL_SEMANTIC_MODE | INSERT_FILE_LINK
  | IN_VAULT_SEARCH

text \<open>A \<open>KeymapEventHandler\<close>: its identity, and the key combination and event of the
  \<open>emitEvent\<close> callback it was registered with.\<close>

record keymap_handler =
  kh_id :: nat
  kh_modifiers :: "modifier list"
  kh_key :: string
  kh_event :: event_enum

record scope =
  scope_keys :: "keymap_handler list"
  scope_next :: nat

definition scope_register :: "modifier list \<Rightarrow> string \<Rightarrow> event_enum \<Rightarrow> scope \<Rightarrow> keymap_handler \<times> scope" where
  "scope_register mods key ev sc =
     (let h = \<lparr>kh_id = scope_next sc, kh_modifiers = mods, kh_key = key, kh_event = ev\<rparr>
      in (h, sc\<lparr>scope_keys := scope_keys sc @ [h], scope_next := Suc (scope_next sc)\<rparr>))"

definition scope_unregister :: "keymap_handler \<Rightarrow> scope \<Rightarrow> scope" where
  "scope_unregister h sc = sc\<lparr>scope_keys := filter (\<lambda>k. k \<noteq> h) (scope_keys sc)\<rparr>"

text \<open>\<open>AbstractNavigationHotkeys\<close>: its \<open>handlers\<close> and its \<open>scope\<close>.\<close>

record nav_hotkeys =
  handlers :: "keymap_handler list"
  nh_scope :: scope

text \<open>The constructor of \<open>AbstractNavigationHotkeys\<close>: no handlers and the given scope.
  \<open>GlobalNavigationHotkeys\<close> passes the application's scope, each
  \<open>ModalNavigationHotkeys\<close> its modal's.\<close>

definition new_nav_hotkeys :: "scope \<Rightarrow> nav_hotkeys" where
  "new_nav_hotkeys sc = \<lparr>handlers = [], nh_scope = sc\<rparr>"

definition unregister_all :: "nav_hotkeys \<Rightarrow> nav_hotkeys" where
  "unregister_all nh = nh\<lparr>nh_scope := fold scope_unregister (handlers nh) (nh_scope nh), handlers := []\<rparr>"

definition register :: "modifier list \<Rightarrow> string \<Rightarrow> event_enum \<Rightarrow> nav_hotkeys \<Rightarrow> nav_hotkeys" where
  "register mods key ev nh =
     (case scope_register mods key ev (nh_scope nh) of
        (h, sc) \<Rightarrow> nh\<lparr>handlers := handlers nh @ [h], nh_scope := sc\<rparr>)"

definition register_bindings :: "(modifier list \<times> string \<times> event_enum) list \<Rightarrow> nav_hotkeys \<Rightarrow> nav_hotkeys" where
  "register_bindings bs nh = fold (\<lambda>(m, k, e). register m k e) bs nh"

text \<open>\<open>GlobalNavigationHotkeys.registerAll\<close>: it forgets its handlers first, without
  unregistering them.\<close>

definition global_bindings :: "(modifier list \<times> string \<times> event_enum) list" where
  "global_bindings = [([Ctrl], ''J'', NEXT_ITEM_FLOATING_WINDOW), ([Ctrl], ''K'', PREV_ITEM_FLOATING_WINDOW)]"

definition global_register_all :: "nav_hotkeys \<Rightarrow> nav_hotkeys" where
  "global_register_all nh = register_bindings global_bindings (nh\<lparr>handlers := []\<rparr>)"

text \<open>\<open>ModalNavigationHotkeys.registerAll\<close>.\<close>

definition modal_bindings :: "(modifier list \<times> string \<times> event_enum) list" where
  "modal_bindings =
     [([Ctrl], ''J'', NEXT_ITEM), ([Ctrl], ''K'', PREV_ITEM),
      ([], ''ArrowDown'', NEXT_ITEM), ([], ''ArrowUp'', PREV_ITEM),
      ([], ''Enter'', CONFIRM_ITEM), ([Ctrl], ''Enter'', CONFIRM_ITEM_IN_BACKGROUND),
      ([Ctrl], ''N'', NEXT_SUB_ITEM), ([Ctrl], ''P'', PREV_SUB_ITEM),
      ([Ctrl], ''S'', SWITCH_LEXICAL_SEMANTIC_MODE), ([Alt], ''I'', INSERT_FILE_LINK)]"

definition modal_register_all :: "nav_hotkeys \<Rightarrow> nav_hotkeys" where
  "modal_register_all nh = register_bindings modal_bindings nh"

text \<open>The constructor of \<open>CommandRegistry\<close> registers the global hotkeys on the
  application's scope; its \<open>onunload\<close> unregisters them.\<close>

definition command_registry_init :: "scope \<Rightarrow> nav_hotkeys" where
  "command_registry_init app_scope = global_register_all (new_nav_hotkeys app_scope)"

definition command_registry_onunload :: "nav_hotkeys \<Rightarrow> nav_hotkeys" where
  "command_registry_onunload nh = unregister_all nh"

section \<open>Commands\<close>

text \<open>What a command callback does, and what it reads: \<open>setting.ui.floatingWindowForInFile\<close>
  (a field \<open>UISetting\<close> does not declare) and the last Omnisearch query.\<close>

datatype cmd_effect =
    ToggleWindow window_type
  | OpenSearchModal search_type bool "string option"
  | TogglePrivacyMode
  | RunDevTest
  | EmitEvent event_enum

record command_env =
  floating_window_for_in_file :: bool
  last_omnisearch_query :: string

record command =
  cmd_id :: string
  cmd_name :: string
  cmd_callback :: "command_env \<Rightarrow> cmd_effect list"

definition add_dev_commands :: "bool \<Rightarrow> command list \<Rightarrow> command list" where
  "add_dev_commands is_dev cs =
     (if is_dev
      then cs @ [\<lparr>cmd_id = ''cs-in-file-search-floating-window'', cmd_name = ''In file search - floating window'',
                  cmd_callback = (\<lambda>_. [ToggleWindow InFile])\<rparr>,
                 \<lparr>cmd_id = ''clever-search-triggerTest'', cmd_name = ''clever-search-triggerTest'',
                  cmd_callback = (\<lambda>_. [RunDevTest])\<rparr>]
      else cs)"

definition add_commands_without_dependency :: "command list \<Rightarrow> command list" where
  "add_commands_without_dependency cs =
     cs @ [\<lparr>cmd_id = ''clever-search-in-file'', cmd_name = ''Search in file'',
             cmd_callback = (\<lambda>env. if floating_window_for_in_file env then [ToggleWindow InFile]
                                    else [OpenSearchModal IN_FILE False None])\<rparr>,
           \<lparr>cmd_id = ''cs-toggle-privacy-mode'', cmd_name = ''Toggle privacy mode'',
             cmd_callback = (\<lambda>_. [TogglePrivacyMode])\<rparr>]"

definition add_in_vault_commands :: "command list \<Rightarrow> command list" where
  "add_in_vault_commands cs =
     cs @ [\<lparr>cmd_id = ''clever-search-in-vault'', cmd_name = ''Search in Vault'',
             cmd_callback = (\<lambda>_. [EmitEvent IN_VAULT_SEARCH, OpenSearchModal IN_VAULT False None])\<rparr>,
           \<lparr>cmd_id = ''cs-in-file-search-with-omnisearch-query'', cmd_name = ''Search in file with last Omnisearch query'',
             cmd_callback = (\<lambda>env. [OpenSearchModal IN_FILE False (Some (last_omnisearch_query env))])\<rparr>,
           \<lparr>cmd_id = ''clever-search-in-vault-semantic'', cmd_name = ''Search in vault semantically'',
             cmd_callback = (\<lambda>_. [OpenSearchModal IN_VAULT True None])\<rparr>]"

text \<open>The effect of a \<open>ToggleWindow\<close> on the floating window.\<close>

definition apply_effect :: "cmd_effect \<Rightarrow> fw_state \<Rightarrow> string + fw_state" where
  "apply_effect e s = (case e of ToggleWindow wt \<Rightarrow> fwm_toggle wt s | _ \<Rightarrow> Inr s)"

section \<open>Well-formed scopes\<close>

text \<open>Handler identities are distinct and below the next fresh one.\<close>

definition scope_wf :: "scope \<Rightarrow> bool" where
  "scope_wf sc \<longleftrightarrow> distinct (map kh_id (scope_keys sc)) \<and> list_all (\<lambda>k. kh_id k < scope_next sc) (scope_keys sc)"

text \<open>The handlers a sequence of \<open>register\<close> calls creates, from a first fresh identity.\<close>

fun bind_handlers :: "nat \<Rightarrow> (modifier list \<times> string \<times> event_enum) list \<Rightarrow> keymap_handler list" where
  "bind_handlers n [] = []"
| "bind_handlers n ((m, k, e) # bs) = \<lparr>kh_id = n, kh_modifiers = m, kh_key = k, kh_event = e\<rparr> # bind_handlers (Suc n) bs"

text \<open>A scope holding one key of another component, for the concrete runs.\<close>

definition demo_scope :: scope where
  "demo_scope = \<lparr>scope_keys = [\<lparr>kh_id = 0, kh_modifiers = [Mod], kh_key = ''P'', kh_event = NEXT_ITEM\<rparr>], scope_next = 1\<rparr>"

section \<open>Lemmas\<close>

lemma ids_bind_handlers [simp]: "map kh_id (bind_handlers n bs) = [n..<n + length bs]"
proof (induction bs arbitrary: n)
  case Nil
  then show ?case by simp
next
  case (Cons b bs)
  obtain m k e where "b = (m, k, e)" by (cases b) auto
  with Cons show ?case by (simp add: upt_rec)
qed

lemma fold_scope_unregister:
  "fold scope_unregister hs sc = sc\<lparr>scope_keys := filter (\<lambda>k. k \<notin> set hs) (scope_keys sc)\<rparr>"
  by (induction hs arbitrary: sc) (auto simp: scope_unregister_def intro: filter_cong)

lemma register_bindings_effect:
  "handlers (register_bindings bs nh) = handlers nh @ bind_handlers (scope_next (nh_scope nh)) bs \<and>
   scope_keys (nh_scope (register_bindings bs nh)) = scope_keys (nh_scope nh) @ bind_handlers (scope_next (nh_scope nh)) bs \<and>
   scope_next (nh_scope (register_bindings bs nh)) = scope_next (nh_scope nh) + length bs"
proof (induction bs arbitrary: nh)
  case Nil
  then show ?case by (simp add: register_bindings_def)
next
  case (Cons b bs)
  obtain m k e where b: "b = (m, k, e)" by (cases b) auto
  have "register_bindings (b # bs) nh = register_bindings bs (register m k e nh)"
    by (simp add: register_bindings_def b)
  with Cons.IH [of "register m k e nh"] show ?case
    by (simp add: b register_def scope_register_def Let_def)
qed

lemma disjoint_fresh:
  assumes "list_all (\<lambda>k. kh_id k < n) old"
  shows "filter (\<lambda>k. k \<notin> set (bind_handlers n bs)) (old @ bind_handlers n bs) = old"
proof -
  have "\<forall>k \<in> set old. k \<notin> set (bind_handlers n bs)"
  proof
    fix k assume "k \<in> set old"
    with assms have "kh_id k < n" by (simp add: list_all_iff)
    moreover have "\<forall>h \<in> set (bind_handlers n bs). n \<le> kh_id h"
      using ids_bind_handlers [of n bs] by (metis atLeastLessThan_iff imageI list.set_map set_upt)
    ultimately show "k \<notin> set (bind_handlers n bs)" by fastforce
  qed
  moreover have "filter (\<lambda>k. k \<notin> set (bind_handlers n bs)) (bind_handlers n bs) = []" by simp
  ultimately show ?thesis by simp
qed

lemma register_unregister_all:
  assumes "scope_wf (nh_scope nh)" "handlers nh = []"
  shows "scope_keys (nh_scope (unregister_all (register_bindings bs nh))) = scope_keys (nh_scope nh)"
  using register_bindings_effect [of bs nh] disjoint_fresh [of "scope_next (nh_scope nh)" "scope_keys (nh_scope nh)" bs] assms
  by (simp add: unregister_all_def fold_scope_unregister scope_wf_def)

lemma scope_wf_append:
  "scope_wf sc \<Longrightarrow> scope_wf \<lparr>scope_keys = scope_keys sc @ bind_handlers (scope_next sc) bs, scope_next = scope_next sc + length bs\<rparr>"
proof -
  assume wf: "scope_wf sc"
  let ?n = "scope_next sc"
  have d: "distinct (map kh_id (scope_keys sc) @ [?n..<?n + length bs])"
    using wf by (auto simp: scope_wf_def list_all_iff)
  have b: "list_all (\<lambda>k. kh_id k < ?n + length bs) (scope_keys sc @ bind_handlers ?n bs)"
  proof -
    have "\<forall>h \<in> set (bind_handlers ?n bs). kh_id h < ?n + length bs"
      using ids_bind_handlers [of ?n bs] by (metis atLeastLessThan_iff imageI list.set_map set_upt)
    with wf show ?thesis by (auto simp: scope_wf_def list_all_iff)
  qed
  from d b show ?thesis by (simp add: scope_wf_def)
qed

lemma scope_wf_cong: "scope_keys a = scope_keys b \<Longrightarrow> scope_next a = scope_next b \<Longrightarrow> scope_wf a = scope_wf b"
  by (simp add: scope_wf_def)

lemma scope_wf_register_bindings:
  "scope_wf (nh_scope nh) \<Longrightarrow> scope_wf (nh_scope (register_bindings bs nh))"
proof -
  assume "scope_wf (nh_scope nh)"
  from scope_wf_append [OF this, of bs] register_bindings_effect [of bs nh] show ?thesis
    by (subst scope_wf_cong [of _ "\<lparr>scope_keys = scope_keys (nh_scope nh) @ bind_handlers (scope_next (nh_scope nh)) bs,
        scope_next = scope_next (nh_scope nh) + length bs\<rparr>"]) simp_all
qed

section \<open>Properties of the hotkey registry\<close>

text \<open>C28: on a well-formed scope, constructing the command registry and unloading it
  leaves the application's scope with exactly the keys it had, in order; so does
  registering and unregistering a modal's navigation hotkeys.\<close>

theorem hotkeys_roundtrip:
  assumes "scope_wf sc"
  shows "scope_keys (nh_scope (command_registry_onunload (command_registry_init sc))) = scope_keys sc \<and>
         scope_keys (nh_scope (unregister_all (modal_register_all (new_nav_hotkeys sc)))) = scope_keys sc"
  using register_unregister_all [of "\<lparr>handlers = [], nh_scope = sc\<rparr>"] assms
  by (simp add: command_registry_onunload_def command_registry_init_def global_register_all_def modal_register_all_def
      new_nav_hotkeys_def)

theorem hotkeys_roundtrip_witness:
  "scope_keys (nh_scope (command_registry_onunload (command_registry_init demo_scope))) = scope_keys demo_scope"
proof -
  have "scope_wf demo_scope" by (simp add: scope_wf_def demo_scope_def)
  from hotkeys_roundtrip [OF this] show ?thesis by simp
qed

text \<open>C29: \<open>GlobalNavigationHotkeys.registerAll\<close> clears its list of handlers without
  unregistering them: after a second \<open>registerAll\<close>, \<open>unregisterAll\<close> removes only the
  second pair, and the first Ctrl+J and Ctrl+K handlers stay in the application's
  scope.\<close>

theorem global_register_twice_leaks:
  assumes "scope_wf sc"
  shows "scope_keys (nh_scope (command_registry_onunload (global_register_all (command_registry_init sc)))) =
         scope_keys sc @ bind_handlers (scope_next sc) global_bindings"
proof -
  let ?nh1 = "command_registry_init sc"
  let ?B1 = "bind_handlers (scope_next sc) global_bindings"
  have e1: "handlers ?nh1 = ?B1" "scope_keys (nh_scope ?nh1) = scope_keys sc @ ?B1"
    "scope_next (nh_scope ?nh1) = scope_next sc + 2"
    using register_bindings_effect [of global_bindings "\<lparr>handlers = [], nh_scope = sc\<rparr>"]
    by (simp_all add: command_registry_init_def global_register_all_def global_bindings_def new_nav_hotkeys_def)
  have wf1: "scope_wf (nh_scope ?nh1)"
    using scope_wf_register_bindings [of "\<lparr>handlers = [], nh_scope = sc\<rparr>" global_bindings] assms
    by (simp add: command_registry_init_def global_register_all_def new_nav_hotkeys_def)
  have "scope_keys (nh_scope (unregister_all (register_bindings global_bindings (?nh1\<lparr>handlers := []\<rparr>)))) = scope_keys (nh_scope ?nh1)"
    using register_unregister_all [of "?nh1\<lparr>handlers := []\<rparr>"] wf1 by simp
  with e1 show ?thesis by (simp add: command_registry_onunload_def global_register_all_def)
qed

theorem global_register_twice_leaks_witness:
  "scope_keys (nh_scope (command_registry_onunload (global_register_all (command_registry_init demo_scope)))) =
   scope_keys demo_scope @ [\<lparr>kh_id = 1, kh_modifiers = [Ctrl], kh_key = ''J'', kh_event = NEXT_ITEM_FLOATING_WINDOW\<rparr>,
                            \<lparr>kh_id = 2, kh_modifiers = [Ctrl], kh_key = ''K'', kh_event = PREV_ITEM_FLOATING_WINDOW\<rparr>]"
proof -
  have "scope_wf demo_scope" by (simp add: scope_wf_def demo_scope_def)
  from global_register_twice_leaks [OF this] show ?thesis by (simp add: demo_scope_def global_bindings_def)
qed

end
