(* ===== verification/LegacyIndexer.thy ===== *)
theory LegacyIndexer
  imports Prelude
begin

text \<open>
  The earlier Elasticsearch-based \<open>SearchService\<close> of \<open>src/src/search-service.ts\<close>.
  Its constructor watches the configured paths and sends every \<open>add\<close> and
  \<open>change\<close> event of every watcher to one function \<open>indexFileDebounced\<close>, built by
  \<open>debounce(3000, indexFile)\<close> of \<open>throttle-debounce\<close>: each call cancels the pending
  timer and starts a new one for its own argument, and when a timer runs out
  \<open>indexFile(path)\<close> reads the file and stores a document under the path's id.

  The model is a state machine over timed watcher events (\<open>legacy_step\<close>): the
  pending timer (its deadline and argument), the calls of \<open>indexFile\<close> so far, and
  the index as a map from document ids to documents. Time is an integer number of
  milliseconds; a timer whose deadline is not after an event's time runs before
  that event. File contents at a time are a parameter (\<open>None\<close>: \<open>readFileSync\<close>
  throws, and nothing is indexed). \<open>debounce_fire\<close> is the functional description
  of which calls fire, and \<open>per_path_fire\<close> the per-path coalescing that the
  specification (section 5) asks for.
\<close>

definition debounce_delay :: int where
  "debounce_delay = 3000"

text \<open>The document \<open>indexFile\<close> sends: \<open>{path, title: basename(path), content}\<close>.\<close>

record es_doc =
  es_path :: string
  es_title :: string
  es_content :: string

definition es_basename :: "string \<Rightarrow> string" where
  "es_basename p = last (js_split CHR ''/'' p)"

record legacy_state =
  es_index :: "string \<Rightarrow> es_doc option"
  timer :: "(int \<times> string) option"
  fired :: "(int \<times> string) list"
  watched_paths :: "string list"

type_synonym contents = "int \<Rightarrow> string \<Rightarrow> string option"

text \<open>\<open>indexFile(path)\<close> at time \<open>d\<close>.\<close>

definition index_file :: "contents \<Rightarrow> int \<Rightarrow> string \<Rightarrow> legacy_state \<Rightarrow> legacy_state" where
  "index_file content d p st =
     (let st1 = st\<lparr>fired := fired st @ [(d, p)]\<rparr> in
      case content d p of
        None \<Rightarrow> st1
      | Some c \<Rightarrow> st1\<lparr>es_index := (es_index st1)(p \<mapsto> \<lparr>es_path = p, es_title = es_basename p, es_content = c\<rparr>)\<rparr>)"

text \<open>Time passing up to \<open>t\<close>: a pending timer whose deadline has come runs.\<close>

definition advance :: "contents \<Rightarrow> int \<Rightarrow> legacy_state \<Rightarrow> legacy_state" where
  "advance content t st =
     (case timer st of
        Some (d, p) \<Rightarrow> if d \<le> t then index_file content d p (st\<lparr>timer := None\<rparr>) else st
      | None \<Rightarrow> st)"

text \<open>A call of \<open>indexFileDebounced(path)\<close> at time \<open>t\<close>.\<close>

definition debounced_call :: "int \<Rightarrow> string \<Rightarrow> legacy_state \<Rightarrow> legacy_state" where
  "debounced_call t p st = st\<lparr>timer := Some (t + debounce_delay, p)\<rparr>"

text \<open>The pending timer runs, whenever no further call comes.\<close>

definition flush :: "contents \<Rightarrow> legacy_state \<Rightarrow> legacy_state" where
  "flush content st =
     (case timer st of Some (d, p) \<Rightarrow> index_file content d p (st\<lparr>timer := None\<rparr>) | None \<Rightarrow> st)"

text \<open>\<open>reIndexAll()\<close>: it deletes the index and rebuilds nothing.\<close>

definition re_index_all :: "legacy_state \<Rightarrow> legacy_state" where
  "re_index_all st = st\<lparr>es_index := Map.empty\<rparr>"

datatype watch_event = FileAdded int string | FileChanged int string | Tick int | ReIndexAll

fun legacy_step :: "contents \<Rightarrow> legacy_state \<Rightarrow> watch_event \<Rightarrow> legacy_state" where
  "legacy_step content st (FileAdded t p) = debounced_call t p (advance content t st)"
| "legacy_step content st (FileChanged t p) = debounced_call t p (advance content t st)"
| "legacy_step content st (Tick t) = advance content t st"
| "legacy_step content st ReIndexAll = re_index_all st"

definition legacy_run :: "contents \<Rightarrow> legacy_state \<Rightarrow> watch_event list \<Rightarrow> legacy_state" where
  "legacy_run content st evs = fold (\<lambda>e s. legacy_step content s e) evs st"

text \<open>The constructor: the watched paths, no index, no pending call.\<close>

definition legacy_init :: "string list \<Rightarrow> legacy_state" where
  "legacy_init ws = \<lparr>es_index = Map.empty, timer = None, fired = [], watched_paths = ws\<rparr>"

definition changes :: "(int \<times> string) list \<Rightarrow> watch_event list" where
  "changes evs = map (\<lambda>(t, p). FileChanged t p) evs"

text \<open>\<open>client.search\<close>: the ids of the hits, or a rejection when the server
  cannot be reached; and the value \<open>search(query)\<close> resolves to, the raw result or
  the empty array of its \<open>catch\<close>.\<close>

datatype es_reply = EsReply "string list" | EsUnreachable

datatype search_value = EsResult "string list" | EmptyArray

definition legacy_search :: "(string \<Rightarrow> string \<Rightarrow> es_reply) \<Rightarrow> string \<Rightarrow> string \<Rightarrow> search_value" where
  "legacy_search client target_index query =
     (case client target_index query of EsReply hs \<Rightarrow> EsResult hs | EsUnreachable \<Rightarrow> EmptyArray)"

text \<open>\<open>result.hits.hits\<close> in the constructor's \<open>then\<close> handler: the empty array
  has no \<open>hits\<close>, and reading \<open>hits\<close> of \<open>undefined\<close> throws a \<open>TypeError\<close>.\<close>

definition result_hits :: "search_value \<Rightarrow> string + string list" where
  "result_hits v = (case v of EsResult hs \<Rightarrow> Inr hs | EmptyArray \<Rightarrow> Inl ''TypeError'')"

text \<open>The example search of the constructor: \<open>this.search("hello").then(...)\<close>, with
  no \<open>catch\<close>.\<close>

definition legacy_example_search :: "(string \<Rightarrow> string \<Rightarrow> es_reply) \<Rightarrow> string \<Rightarrow> string + string list" where
  "legacy_example_search client target_index = result_hits (legacy_search client target_index ''hello'')"

section \<open>Specifications\<close>

text \<open>Which calls of a debounced function fire, for calls in time order: a call
  fires at its time plus the delay when the next call comes no earlier.\<close>

fun debounce_fire :: "int \<Rightarrow> (int \<times> string) list \<Rightarrow> (int \<times> string) list" where
  "debounce_fire d [] = []"
| "debounce_fire d [(t, p)] = [(t + d, p)]"
| "debounce_fire d ((t, p) # (t', p') # es) =
     (if t + d \<le> t' then [(t + d, p)] else []) @ debounce_fire d ((t', p') # es)"

text \<open>Coalescing per path: a call fires unless a later call for the same path
  comes within the delay.\<close>

fun per_path_fire :: "int \<Rightarrow> (int \<times> string) list \<Rightarrow> (int \<times> string) list" where
  "per_path_fire d [] = []"
| "per_path_fire d ((t, p) # es) =
     (if filter (\<lambda>(t', p'). p' = p \<and> t' < t + d) es = [] then [(t + d, p)] else []) @ per_path_fire d es"

text \<open>The index that a list of \<open>indexFile\<close> calls builds.\<close>

definition index_fold :: "contents \<Rightarrow> (string \<Rightarrow> es_doc option) \<Rightarrow> (int \<times> string) list \<Rightarrow> (string \<Rightarrow> es_doc option)" where
  "index_fold content m fs =
     fold (\<lambda>(d, p) m'. case content d p of None \<Rightarrow> m'
                         | Some c \<Rightarrow> m'(p \<mapsto> \<lparr>es_path = p, es_title = es_basename p, es_content = c\<rparr>)) fs m"

text \<open>A run for the witnesses: \<open>a.md\<close> changes at 0 and 5000 ms, \<open>b.md\<close> at 1000 ms;
  a file read at time \<open>t\<close> holds the text of \<open>t\<close>.\<close>

definition demo_contents :: contents where
  "demo_contents t p = Some (show_int t)"

definition demo_events :: "(int \<times> string) list" where
  "demo_events = [(0, ''a.md''), (1000, ''b.md''), (5000, ''a.md'')]"

section \<open>Lemmas\<close>

lemma index_fold_append: "index_fold c m (xs @ ys) = index_fold c (index_fold c m xs) ys"
  by (simp add: index_fold_def)

lemma index_fold_Nil [simp]: "index_fold c m [] = m"
  by (simp add: index_fold_def)

lemma index_file_effect [simp]:
  "fired (index_file c d p st) = fired st @ [(d, p)]"
  "es_index (index_file c d p st) = index_fold c (es_index st) [(d, p)]"
  "timer (index_file c d p st) = timer st"
  by (simp_all add: index_file_def index_fold_def Let_def split: option.splits)

lemma legacy_run_Cons: "legacy_run c st (e # es) = legacy_run c (legacy_step c st e) es"
  by (simp add: legacy_run_def)

lemma run_pending:
  assumes "timer st = Some (t0 + debounce_delay, p0)" "sorted (t0 # map fst evs)"
  shows "fired (flush c (legacy_run c st (changes evs))) = fired st @ debounce_fire debounce_delay ((t0, p0) # evs) \<and>
         es_index (flush c (legacy_run c st (changes evs))) = index_fold c (es_index st) (debounce_fire debounce_delay ((t0, p0) # evs))"
  using assms
proof (induction evs arbitrary: st t0 p0)
  case Nil
  then show ?case by (simp add: changes_def legacy_run_def flush_def)
next
  case (Cons e rest)
  obtain t p where e: "e = (t, p)" by (cases e)
  let ?f = "if t0 + debounce_delay \<le> t then [(t0 + debounce_delay, p0)] else []"
  let ?st1 = "debounced_call t p (advance c t st)"
  have st1: "timer ?st1 = Some (t + debounce_delay, p)" "fired ?st1 = fired st @ ?f"
    "es_index ?st1 = index_fold c (es_index st) ?f"
    using Cons.prems(1) by (simp_all add: debounced_call_def advance_def index_fold_def)
  have s: "sorted (t # map fst rest)" using Cons.prems(2) e by simp
  have run: "legacy_run c st (changes ((t, p) # rest)) = legacy_run c ?st1 (changes rest)"
    by (simp add: changes_def legacy_run_def)
  show ?case
    using Cons.IH [OF st1(1) s] st1(2,3) unfolding e run by (simp add: index_fold_append)
qed

lemma legacy_run_fired:
  assumes "sorted (map fst evs)"
  shows "fired (flush c (legacy_run c (legacy_init w) (changes evs))) = debounce_fire debounce_delay evs \<and>
         es_index (flush c (legacy_run c (legacy_init w) (changes evs))) = index_fold c Map.empty (debounce_fire debounce_delay evs)"
proof (cases evs)
  case Nil
  then show ?thesis by (simp add: changes_def legacy_run_def flush_def legacy_init_def)
next
  case (Cons e rest)
  obtain t p where e: "e = (t, p)" by (cases e)
  let ?st1 = "debounced_call t p (advance c t (legacy_init w))"
  have "timer ?st1 = Some (t + debounce_delay, p)" by (simp add: debounced_call_def)
  moreover have "sorted (t # map fst rest)" using assms Cons e by simp
  moreover have "fired ?st1 = []" "es_index ?st1 = Map.empty"
    by (simp_all add: debounced_call_def advance_def legacy_init_def)
  moreover have "legacy_run c (legacy_init w) (changes evs) = legacy_run c ?st1 (changes rest)"
    by (simp add: changes_def legacy_run_def Cons e)
  ultimately show ?thesis using run_pending [of ?st1 t p rest c] by (simp add: Cons e)
qed

lemma last_debounce_fire:
  "evs \<noteq> [] \<Longrightarrow> debounce_fire d evs \<noteq> [] \<and> last (debounce_fire d evs) = (fst (last evs) + d, snd (last evs))"
  by (induction d evs rule: debounce_fire.induct) auto

lemma index_fold_snoc:
  "index_fold c m (xs @ [(d, p)]) p = (case c d p of None \<Rightarrow> index_fold c m xs p
     | Some v \<Rightarrow> Some \<lparr>es_path = p, es_title = es_basename p, es_content = v\<rparr>)"
  by (simp add: index_fold_def split: option.splits)

lemma index_fold_absent:
  "p \<notin> snd ` set xs \<Longrightarrow> index_fold c m xs p = m p"
proof (induction xs arbitrary: m)
  case Nil
  then show ?case by (simp add: index_fold_def)
next
  case (Cons x xs)
  obtain d q where x: "x = (d, q)" by (cases x)
  from Cons show ?case
    by (cases "c d q") (simp_all add: index_fold_def x)
qed

section \<open>Properties of the debounced indexer\<close>

text \<open>C30: refinement: for watcher events in time order, the timer machine of the
  code makes exactly the \<open>indexFile\<close> calls that \<open>debounce_fire\<close> describes, and the
  index it builds is the one those calls build.\<close>

theorem legacy_refines_debounce:
  assumes "sorted (map fst evs)"
  shows "fired (flush c (legacy_run c (legacy_init w) (changes evs))) = debounce_fire debounce_delay evs \<and>
         es_index (flush c (legacy_run c (legacy_init w) (changes evs))) = index_fold c Map.empty (debounce_fire debounce_delay evs)"
  using legacy_run_fired [OF assms] .

theorem legacy_refines_debounce_witness:
  "fired (flush demo_contents (legacy_run demo_contents (legacy_init []) (changes demo_events))) =
   [(4000, ''b.md''), (8000, ''a.md'')]"
proof -
  have "sorted (map fst demo_events)" by (simp add: demo_events_def)
  from legacy_refines_debounce [OF this, of demo_contents "[]"]
  show ?thesis by (simp add: demo_events_def debounce_delay_def)
qed

text \<open>C31: the last event of a burst wins: after the last change of a file the
  index holds that file with the content read when the timer ran out.\<close>

theorem legacy_last_wins:
  assumes "sorted (map fst evs)" "evs \<noteq> []" "last evs = (t, p)" "c (t + debounce_delay) p = Some v"
  shows "es_index (flush c (legacy_run c (legacy_init w) (changes evs))) p =
         Some \<lparr>es_path = p, es_title = es_basename p, es_content = v\<rparr>"
proof -
  obtain xs where xs: "debounce_fire debounce_delay evs = xs @ [(t + debounce_delay, p)]"
    using last_debounce_fire [OF assms(2), of debounce_delay] assms(3)
    by (metis append_butlast_last_id fst_conv snd_conv)
  show ?thesis using legacy_run_fired [OF assms(1), of c w] xs index_fold_snoc assms(4) by simp
qed

theorem legacy_last_wins_witness:
  "es_index (flush demo_contents (legacy_run demo_contents (legacy_init []) (changes demo_events))) ''a.md'' =
   Some \<lparr>es_path = ''a.md'', es_title = ''a.md'', es_content = show_int 8000\<rparr>"
proof -
  have "sorted (map fst demo_events)" "demo_events \<noteq> []" "last demo_events = (5000, ''a.md'')"
    "demo_contents (5000 + debounce_delay) ''a.md'' = Some (show_int 8000)"
    by (simp_all add: demo_events_def demo_contents_def debounce_delay_def)
  from legacy_last_wins [where w = "[]" and c = demo_contents and evs = demo_events and t = 5000 and p = "''a.md''", OF this]
  show ?thesis by (simp add: es_basename_def)
qed

text \<open>C32: one debounced function serves every path: when another file changes
  within three seconds, the first file's change is never indexed, although coalescing
  per path, as the specification asks, would index it.\<close>

theorem legacy_drops_other_path:
  assumes "p \<noteq> q" "t1 \<le> t2" "t2 < t1 + debounce_delay"
  shows "es_index (flush c (legacy_run c (legacy_init w) (changes [(t1, p), (t2, q)]))) p = None \<and>
         (t1 + debounce_delay, p) \<in> set (per_path_fire debounce_delay [(t1, p), (t2, q)])"
proof
  have "debounce_fire debounce_delay [(t1, p), (t2, q)] = [(t2 + debounce_delay, q)]" using assms(3) by simp
  moreover have "p \<notin> snd ` set [(t2 + debounce_delay, q)]" using assms(1) by simp
  ultimately show "es_index (flush c (legacy_run c (legacy_init w) (changes [(t1, p), (t2, q)]))) p = None"
    using legacy_run_fired [of "[(t1, p), (t2, q)]" c w] index_fold_absent assms(2) by simp
  show "(t1 + debounce_delay, p) \<in> set (per_path_fire debounce_delay [(t1, p), (t2, q)])" using assms(1) by simp
qed

theorem legacy_drops_other_path_witness:
  "es_index (flush demo_contents (legacy_run demo_contents (legacy_init []) (changes [(0, ''a.md''), (1000, ''b.md'')]))) ''a.md'' = None"
proof -
  have "''a.md'' \<noteq> ''b.md''" "(0::int) \<le> 1000" "(1000::int) < 0 + debounce_delay" by (simp_all add: debounce_delay_def)
  from legacy_drops_other_path [OF this] show ?thesis by simp
qed


text \<open>the example search of the constructor fails when Elasticsearch cannot
  be reached: \<open>search\<close> catches the rejection and resolves to \<open>[]\<close>, and the
  \<open>then\<close> handler's \<open>result.hits.hits\<close> throws a \<open>TypeError\<close> that nothing
  catches; with a reachable server it gets the hits.\<close>

theorem legacy_example_search_unreachable:
  assumes "client target_index ''hello'' = EsUnreachable"
  shows "legacy_search client target_index ''hello'' = EmptyArray \<and> legacy_example_search client target_index = Inl ''TypeError''"
  using assms by (simp add: legacy_example_search_def legacy_search_def result_hits_def)

theorem legacy_example_search_unreachable_witness:
  "legacy_search (\<lambda>_ _. EsUnreachable) ''obsidian'' ''hello'' = EmptyArray \<and>
   legacy_example_search (\<lambda>_ _. EsUnreachable) ''obsidian'' = Inl ''TypeError''"
  using legacy_example_search_unreachable [of "\<lambda>_ _. EsUnreachable" "''obsidian''"] by simp

end
