(* ===== verification/AssetsProvider.thy ===== *)
theory AssetsProvider
  imports Prelude
begin

text \<open>
  \<open>AssetsProvider\<close> of \<open>src/src/utils/web/assets-provider.ts\<close>: on start-up it makes
  sure that the stop-word lists (and, with the Chinese patch, the jieba dictionary)
  are present in the assets directory, downloading a file only when it is missing,
  and reads the stop words into sets.

  Effects are threaded through an explicit state-and-error monad \<open>'a io\<close>: an action
  takes the world (the files of the assets directory, the directories, and the
  provider's \<open>_assets\<close> object) and returns either a result or a rejection, with
  the world as the action left it. A rejected promise is \<open>Inl\<close>; \<open>await\<close> is
  \<open>io_bind\<close>. The network and the failures of the file system are the parameters
  of \<open>asset_env\<close>: what \<open>fetch\<close> returns for a URL (\<open>None\<close>: the request itself
  fails), which paths \<open>access\<close> rejects with a code other than \<open>ENOENT\<close>, and after
  how many characters \<open>writeFile\<close> fails for a path, if it does.
\<close>

datatype asset_error = AccessError string | FetchError string | HttpError string | WriteError string | ReadError string

text \<open>\<open>jiebaBinary\<close>: the promise of \<open>EMPTY_ASSETS\<close> never settles; \<open>initAsync\<close>
  replaces it by the unawaited \<open>readFile\<close> of a path.\<close>

datatype binary_promise = NeverSettles | ReadingFile string

record assets =
  stop_words_zh :: "string list option"
  stop_words_en :: "string list option"
  jieba_binary :: binary_promise

definition EMPTY_ASSETS :: assets where
  "EMPTY_ASSETS = \<lparr>stop_words_zh = None, stop_words_en = None, jieba_binary = NeverSettles\<rparr>"

record asset_world =
  files :: "string \<Rightarrow> string option"
  dirs :: "string list"
  assets_of :: assets

record http_response =
  resp_ok :: bool
  status_text :: string
  body :: string

record asset_env =
  fetch_url :: "string \<Rightarrow> http_response option"
  access_fault :: "string \<Rightarrow> bool"
  write_cut :: "string \<Rightarrow> nat option"

type_synonym 'a io = "asset_world \<Rightarrow> (asset_error + 'a) \<times> asset_world"

definition io_return :: "'a \<Rightarrow> 'a io" where
  "io_return x w = (Inr x, w)"

definition io_raise :: "asset_error \<Rightarrow> 'a io" where
  "io_raise e w = (Inl e, w)"

definition io_bind :: "'a io \<Rightarrow> ('a \<Rightarrow> 'b io) \<Rightarrow> 'b io" where
  "io_bind m f w = (case m w of (Inl e, w') \<Rightarrow> (Inl e, w') | (Inr x, w') \<Rightarrow> f x w')"

definition io_seq :: "unit io \<Rightarrow> 'b io \<Rightarrow> 'b io" where
  "io_seq m n = io_bind m (\<lambda>_. n)"

definition io_modify :: "(asset_world \<Rightarrow> asset_world) \<Rightarrow> unit io" where
  "io_modify f w = (Inr (), f w)"

section \<open>Paths\<close>

text \<open>\<open>pathUtil.join(userDataPath, "clever-search", name)\<close> and \<open>pathUtil.dirname\<close>.\<close>

definition assets_dir :: "string \<Rightarrow> string" where
  "assets_dir user_data = user_data @ ''/clever-search''"

definition asset_path :: "string \<Rightarrow> string \<Rightarrow> string" where
  "asset_path user_data name = assets_dir user_data @ CHR ''/'' # name"

definition dirname :: "string \<Rightarrow> string" where
  "dirname p = js_join CHR ''/'' (butlast (js_split CHR ''/'' p))"

definition unpkg_url :: string where
  "unpkg_url = ''https://unpkg.com/''"

definition my_remote_dir_url1 :: string where
  "my_remote_dir_url1 = unpkg_url @ ''obsidian-clever-search@latest/assets/for-program/''"

definition jieba_source_url :: string where
  "jieba_source_url = unpkg_url @ ''jieba-wasm@0.0.2/pkg/web/jieba_rs_wasm_bg.wasm''"

definition stop_words_zh_source_url :: string where
  "stop_words_zh_source_url = my_remote_dir_url1 @ ''stop-words-zh.txt''"

definition stop_words_en_source_url :: string where
  "stop_words_en_source_url = my_remote_dir_url1 @ ''stop-words-en.txt''"

section \<open>Operations\<close>

text \<open>\<open>new Set(text.split(FileUtil.SPLIT_EOL))\<close>: lines split at \<open>\n\<close> with an optional
  \<open>\r\<close> before it, in the order of their first occurrence.\<close>

definition strip_cr :: "string \<Rightarrow> string" where
  "strip_cr l = (if l \<noteq> [] \<and> last l = CHR 0x0D then butlast l else l)"

definition js_set_of :: "string list \<Rightarrow> string list" where
  "js_set_of xs = rev (remdups (rev xs))"

definition read_lines :: "string \<Rightarrow> string list" where
  "read_lines text = js_set_of (map strip_cr (js_split CHR 0x0A text))"

definition read_lines_as_set :: "string \<Rightarrow> string list io" where
  "read_lines_as_set p w =
     (case files w p of None \<Rightarrow> (Inl (ReadError p), w) | Some text \<Rightarrow> (Inr (read_lines text), w))"

text \<open>\<open>fsUtil.promises.access(targetPath)\<close> and its handler: an existing file ends the
  download, \<open>ENOENT\<close> lets it go on, any other error is rethrown.\<close>

definition check_exists :: "asset_env \<Rightarrow> string \<Rightarrow> bool io" where
  "check_exists env p w =
     (if access_fault env p then (Inl (AccessError p), w)
      else (Inr (files w p \<noteq> None), w))"

text \<open>\<open>mkdir(targetDir, {recursive: true})\<close>.\<close>

definition mkdir_dirs :: "string \<Rightarrow> string list \<Rightarrow> string list" where
  "mkdir_dirs d ds = (if d \<in> set ds then ds else ds @ [d])"

definition mkdir_p :: "string \<Rightarrow> unit io" where
  "mkdir_p d = io_modify (\<lambda>w. w\<lparr>dirs := mkdir_dirs d (dirs w)\<rparr>)"

text \<open>\<open>writeFile(targetPath, ...)\<close>: a failing write may leave a prefix of the data.\<close>

definition write_file :: "asset_env \<Rightarrow> string \<Rightarrow> string \<Rightarrow> unit io" where
  "write_file env p data w =
     (case write_cut env p of
        None \<Rightarrow> (Inr (), w\<lparr>files := (files w)(p \<mapsto> data)\<rparr>)
      | Some k \<Rightarrow> (Inl (WriteError p), w\<lparr>files := (files w)(p \<mapsto> take k data)\<rparr>))"

definition fetch :: "asset_env \<Rightarrow> string \<Rightarrow> http_response io" where
  "fetch env url w = (case fetch_url env url of None \<Rightarrow> (Inl (FetchError url), w) | Some r \<Rightarrow> (Inr r, w))"

definition download_file :: "asset_env \<Rightarrow> string \<Rightarrow> string \<Rightarrow> unit io" where
  "download_file env target_path source_url =
     io_bind (check_exists env target_path) (\<lambda>exists.
       if exists then io_return ()
       else
         io_seq (mkdir_p (dirname target_path))
           (io_bind (fetch env source_url) (\<lambda>response.
              if \<not> resp_ok response then io_raise (HttpError (status_text response))
              else write_file env target_path (body response))))"

definition set_assets :: "(assets \<Rightarrow> assets) \<Rightarrow> unit io" where
  "set_assets f = io_modify (\<lambda>w. w\<lparr>assets_of := f (assets_of w)\<rparr>)"

text \<open>\<open>initAsync()\<close>, for the setting \<open>enableChinesePatch\<close> and the user-data path.\<close>

definition init_async :: "asset_env \<Rightarrow> string \<Rightarrow> bool \<Rightarrow> unit io" where
  "init_async env ud enable_chinese_patch =
     io_seq
       (if enable_chinese_patch then
          io_seq (download_file env (asset_path ud ''jieba_rs_wasm_bg.wasm'') jieba_source_url)
           (io_seq (download_file env (asset_path ud ''stop-words-zh.txt'') stop_words_zh_source_url)
            (io_seq (set_assets (\<lambda>a. a\<lparr>jieba_binary := ReadingFile (asset_path ud ''jieba_rs_wasm_bg.wasm'')\<rparr>))
             (io_bind (read_lines_as_set (asset_path ud ''stop-words-zh.txt''))
               (\<lambda>zh. set_assets (\<lambda>a. a\<lparr>stop_words_zh := Some zh\<rparr>)))))
        else io_return ())
       (io_seq (download_file env (asset_path ud ''stop-words-en.txt'') stop_words_en_source_url)
         (io_bind (read_lines_as_set (asset_path ud ''stop-words-en.txt''))
           (\<lambda>en. set_assets (\<lambda>a. a\<lparr>stop_words_en := Some en\<rparr>))))"

text \<open>Concrete environments: the network serves the list \<open>a, b, a\<close> for every URL; in
  the second one every write fails after one character.\<close>

definition demo_env :: asset_env where
  "demo_env = \<lparr>fetch_url = (\<lambda>u. Some \<lparr>resp_ok = True, status_text = ''OK'', body = ''a'' @ CHR 0x0A # ''b'' @ CHR 0x0A # ''a''\<rparr>),
     access_fault = (\<lambda>_. False), write_cut = (\<lambda>_. None)\<rparr>"

definition demo_cut_env :: asset_env where
  "demo_cut_env = demo_env\<lparr>write_cut := (\<lambda>_. Some 1)\<rparr>"

definition demo_world :: asset_world where
  "demo_world = \<lparr>files = Map.empty, dirs = [], assets_of = EMPTY_ASSETS\<rparr>"

section \<open>Lemmas\<close>

lemma io_bind_return [simp]: "io_bind (io_return x) f = f x"
  by (simp add: io_bind_def io_return_def fun_eq_iff)

lemma io_bind_raise [simp]: "io_bind (io_raise e) f = io_raise e"
  by (simp add: io_bind_def io_raise_def fun_eq_iff)

lemma io_bind_assoc: "io_bind (io_bind m f) g = io_bind m (\<lambda>x. io_bind (f x) g)"
  by (simp add: io_bind_def fun_eq_iff split: prod.splits sum.splits)

lemma io_bind_apply:
  "m w = (Inr x, w') \<Longrightarrow> io_bind m f w = f x w'"
  "m w = (Inl e, w') \<Longrightarrow> io_bind m f w = (Inl e, w')"
  by (simp_all add: io_bind_def)

lemma io_seq_apply:
  "m w = (Inr (), w') \<Longrightarrow> io_seq m n w = n w'"
  "m w = (Inl e, w') \<Longrightarrow> io_seq m n w = (Inl e, w')"
  by (simp_all add: io_seq_def io_bind_apply)

lemma download_file_exists:
  "\<not> access_fault env t \<Longrightarrow> files w t \<noteq> None \<Longrightarrow> download_file env t u w = (Inr (), w)"
  by (simp add: download_file_def check_exists_def io_bind_def io_return_def)

lemma download_file_ok:
  assumes "\<not> access_fault env t" "files w t = None" "fetch_url env u = Some r" "resp_ok r" "write_cut env t = None"
  shows "download_file env t u w = (Inr (), w\<lparr>dirs := mkdir_dirs (dirname t) (dirs w), files := (files w)(t \<mapsto> body r)\<rparr>)"
  using assms
  by (simp add: download_file_def check_exists_def io_bind_def io_seq_def mkdir_p_def io_modify_def fetch_def
      write_file_def mkdir_dirs_def)

lemma download_file_cut:
  assumes "\<not> access_fault env t" "files w t = None" "fetch_url env u = Some r" "resp_ok r" "write_cut env t = Some k"
  shows "download_file env t u w = (Inl (WriteError t), w\<lparr>dirs := mkdir_dirs (dirname t) (dirs w), files := (files w)(t \<mapsto> take k (body r))\<rparr>)"
  using assms
  by (simp add: download_file_def check_exists_def io_bind_def io_seq_def mkdir_p_def io_modify_def fetch_def
      write_file_def mkdir_dirs_def)

lemma init_async_no_patch:
  "init_async env ud False =
     io_seq (download_file env (asset_path ud ''stop-words-en.txt'') stop_words_en_source_url)
       (io_bind (read_lines_as_set (asset_path ud ''stop-words-en.txt''))
         (\<lambda>en. set_assets (\<lambda>a. a\<lparr>stop_words_en := Some en\<rparr>)))"
  by (simp add: init_async_def io_seq_def)

lemma read_then_set:
  "files w p = Some text \<Longrightarrow>
   io_bind (read_lines_as_set p) (\<lambda>en. set_assets (\<lambda>a. a\<lparr>stop_words_en := Some en\<rparr>)) w =
   (Inr (), w\<lparr>assets_of := (assets_of w)\<lparr>stop_words_en := Some (read_lines text)\<rparr>\<rparr>)"
  by (simp add: io_bind_def read_lines_as_set_def set_assets_def io_modify_def)

lemma distinct_read_lines: "distinct (read_lines text)"
  by (simp add: read_lines_def js_set_of_def)

section \<open>Properties of the asset download\<close>

text \<open>C33: when the English stop-word file is missing and the network serves it,
  \<open>initAsync\<close> (without the Chinese patch) returns, stores the served file, and sets
  \<open>stopWordsEn\<close> to its distinct lines; \<open>jiebaBinary\<close> keeps the promise it had, so the
  never-settling promise of \<open>EMPTY_ASSETS\<close> stays in place.\<close>

theorem init_async_en:
  assumes "\<not> access_fault env (asset_path ud ''stop-words-en.txt'')" "files w (asset_path ud ''stop-words-en.txt'') = None"
    "fetch_url env stop_words_en_source_url = Some r" "resp_ok r" "write_cut env (asset_path ud ''stop-words-en.txt'') = None"
  shows "\<exists>w'. init_async env ud False w = (Inr (), w') \<and> files w' (asset_path ud ''stop-words-en.txt'') = Some (body r) \<and>
     stop_words_en (assets_of w') = Some (read_lines (body r)) \<and> distinct (read_lines (body r)) \<and>
     jieba_binary (assets_of w') = jieba_binary (assets_of w)"
proof -
  let ?p = "asset_path ud ''stop-words-en.txt''"
  note d = download_file_ok [OF assms]
  show ?thesis
    by (simp add: init_async_no_patch io_seq_apply(1) [of "download_file env ?p stop_words_en_source_url", OF d]
        read_then_set distinct_read_lines)
qed

theorem init_async_en_witness:
  "\<exists>w'. init_async demo_env ''/u'' False demo_world = (Inr (), w') \<and>
     stop_words_en (assets_of w') = Some [''a'', ''b''] \<and> jieba_binary (assets_of w') = NeverSettles"
proof -
  have "\<not> access_fault demo_env (asset_path ''/u'' ''stop-words-en.txt'')"
    "files demo_world (asset_path ''/u'' ''stop-words-en.txt'') = None"
    "fetch_url demo_env stop_words_en_source_url = Some \<lparr>resp_ok = True, status_text = ''OK'', body = ''a'' @ CHR 0x0A # ''b'' @ CHR 0x0A # ''a''\<rparr>"
    "resp_ok \<lparr>resp_ok = True, status_text = ''OK'', body = ''a'' @ CHR 0x0A # ''b'' @ CHR 0x0A # ''a''\<rparr>"
    "write_cut demo_env (asset_path ''/u'' ''stop-words-en.txt'') = None"
    by (simp_all add: demo_env_def demo_world_def)
  from init_async_en [OF this] show ?thesis
    by (simp add: read_lines_def js_set_of_def strip_cr_def demo_world_def EMPTY_ASSETS_def) blast
qed

text \<open>C34: a download whose write fails leaves a truncated file behind, and since
  \<open>downloadFile\<close> only checks that the file exists, every later start accepts it:
  the stop words are read from the truncated text, and the file is never repaired.\<close>

theorem init_async_truncated:
  assumes "\<not> access_fault env1 (asset_path ud ''stop-words-en.txt'')" "files w (asset_path ud ''stop-words-en.txt'') = None"
    "fetch_url env1 stop_words_en_source_url = Some r" "resp_ok r" "write_cut env1 (asset_path ud ''stop-words-en.txt'') = Some k"
    "\<not> access_fault env2 (asset_path ud ''stop-words-en.txt'')"
  shows "fst (init_async env1 ud False w) = Inl (WriteError (asset_path ud ''stop-words-en.txt'')) \<and>
     (\<exists>w2. init_async env2 ud False (snd (init_async env1 ud False w)) = (Inr (), w2) \<and>
        stop_words_en (assets_of w2) = Some (read_lines (take k (body r))))"
proof -
  let ?p = "asset_path ud ''stop-words-en.txt''"
  note d = download_file_cut [OF assms(1-5)]
  let ?w1 = "w\<lparr>dirs := mkdir_dirs (dirname ?p) (dirs w), files := (files w)(?p \<mapsto> take k (body r))\<rparr>"
  have r1: "init_async env1 ud False w = (Inl (WriteError ?p), ?w1)"
    by (simp add: init_async_no_patch io_seq_apply(2) [of "download_file env1 ?p stop_words_en_source_url", OF d])
  have d2: "download_file env2 ?p stop_words_en_source_url ?w1 = (Inr (), ?w1)"
    using assms(6) by (simp add: download_file_exists)
  show ?thesis
    unfolding r1 fst_conv snd_conv by (simp add: init_async_no_patch io_seq_apply(1) [of "download_file env2 ?p stop_words_en_source_url", OF d2]
        read_then_set)
qed

theorem init_async_truncated_witness:
  "\<exists>w2. init_async demo_env ''/u'' False (snd (init_async demo_cut_env ''/u'' False demo_world)) = (Inr (), w2) \<and>
     stop_words_en (assets_of w2) = Some [''a'']"
proof -
  have "\<not> access_fault demo_cut_env (asset_path ''/u'' ''stop-words-en.txt'')"
    "files demo_world (asset_path ''/u'' ''stop-words-en.txt'') = None"
    "fetch_url demo_cut_env stop_words_en_source_url = Some \<lparr>resp_ok = True, status_text = ''OK'', body = ''a'' @ CHR 0x0A # ''b'' @ CHR 0x0A # ''a''\<rparr>"
    "resp_ok \<lparr>resp_ok = True, status_text = ''OK'', body = ''a'' @ CHR 0x0A # ''b'' @ CHR 0x0A # ''a''\<rparr>"
    "write_cut demo_cut_env (asset_path ''/u'' ''stop-words-en.txt'') = Some 1"
    "\<not> access_fault demo_env (asset_path ''/u'' ''stop-words-en.txt'')"
    by (simp_all add: demo_cut_env_def demo_env_def demo_world_def)
  from init_async_truncated [OF this] show ?thesis
    by (simp add: read_lines_def js_set_of_def strip_cr_def)
qed

end
