(* ===== verification/Tokenizer.thy ===== *)
theory Tokenizer
  imports AssetsProvider
begin

text \<open>
  The tokenizer of the specification (section 4.1); its code (\<open>CjkPatch\<close> and the
  segmenter) is not among the sources. A text is cut into maximal runs of one
  script: Latin runs (ASCII letters and digits, and the hyphen unless it is
  configured as a boundary) are lower-cased into one token each; CJK runs go to the
  dictionary segmenter, a parameter that may be absent (degraded mode: the run is one
  token); everything else separates tokens. Stop words of each script are removed
  when enabled, unless nothing would be left. HOL's \<open>char\<close> has 256 values, so the
  code units from 128 up stand for the CJK characters; the stop-word lists are
  those \<open>AssetsProvider\<close> loads (\<open>read_lines\<close>).
\<close>

datatype char_class = LatinC | CjkC | SepC

record tokenizer_cfg =
  hyphen_split :: bool
  stop_en_enabled :: bool
  stop_zh_enabled :: bool

definition char_class :: "tokenizer_cfg \<Rightarrow> char \<Rightarrow> char_class" where
  "char_class cfg c =
     (let n = (of_char c :: nat) in
      if 128 \<le> n then CjkC
      else if is_digit c \<or> (65 \<le> n \<and> n \<le> 90) \<or> (97 \<le> n \<and> n \<le> 122) then LatinC
      else if c = CHR ''-'' \<and> \<not> hyphen_split cfg then LatinC
      else SepC)"

text \<open>Maximal runs of characters of one class.\<close>

fun runs :: "(char \<Rightarrow> char_class) \<Rightarrow> string \<Rightarrow> (char_class \<times> string) list" where
  "runs cls [] = []"
| "runs cls (c # cs) =
     (case runs cls cs of
        [] \<Rightarrow> [(cls c, [c])]
      | (k, r) # rs \<Rightarrow> if k = cls c then (k, c # r) # rs else (cls c, [c]) # (k, r) # rs)"

type_synonym cjk_segmenter = "bool \<Rightarrow> string \<Rightarrow> string list"

definition run_tokens :: "cjk_segmenter option \<Rightarrow> bool \<Rightarrow> char_class \<times> string \<Rightarrow> (char_class \<times> string) list" where
  "run_tokens seg fine kr =
     (case kr of
        (LatinC, r) \<Rightarrow> [(LatinC, to_lower r)]
      | (CjkC, r) \<Rightarrow> map (\<lambda>t. (CjkC, t)) (case seg of None \<Rightarrow> [r] | Some f \<Rightarrow> f fine r)
      | (SepC, _) \<Rightarrow> [])"

definition stopped :: "tokenizer_cfg \<Rightarrow> string list \<Rightarrow> string list \<Rightarrow> char_class \<times> string \<Rightarrow> bool" where
  "stopped cfg stops_en stops_zh kt =
     (case kt of
        (LatinC, t) \<Rightarrow> stop_en_enabled cfg \<and> t \<in> set stops_en
      | (CjkC, t) \<Rightarrow> stop_zh_enabled cfg \<and> t \<in> set stops_zh
      | (SepC, _) \<Rightarrow> False)"

text \<open>\<open>segment(text, fine)\<close>.\<close>

definition segment :: "tokenizer_cfg \<Rightarrow> cjk_segmenter option \<Rightarrow> string list \<Rightarrow> string list \<Rightarrow> bool \<Rightarrow> string \<Rightarrow> string list" where
  "segment cfg seg stops_en stops_zh fine text =
     (let tagged = filter (\<lambda>(k, t). t \<noteq> []) (concat (map (run_tokens seg fine) (runs (char_class cfg) text)));
          kept = filter (\<lambda>kt. \<not> stopped cfg stops_en stops_zh kt) tagged
      in map snd (if kept = [] then tagged else kept))"

text \<open>A token lies within one script.\<close>

definition one_script :: "tokenizer_cfg \<Rightarrow> string \<Rightarrow> bool" where
  "one_script cfg t \<longleftrightarrow> t \<noteq> [] \<and> (list_all (\<lambda>c. char_class cfg c = LatinC) t \<or> list_all (\<lambda>c. char_class cfg c = CjkC) t)"

text \<open>A segmenter that keeps to the run it is given.\<close>

definition seg_within_run :: "cjk_segmenter option \<Rightarrow> bool" where
  "seg_within_run seg \<longleftrightarrow> (case seg of None \<Rightarrow> True | Some f \<Rightarrow> (\<forall>fine r. list_all (\<lambda>t. set t \<subseteq> set r) (f fine r)))"

text \<open>Concrete inputs: \<open>smart-Connection\<close> followed by six CJK code units, a segmenter
  that cuts a CJK run into pairs of units, and a stop-word file listing \<open>smart\<close>.\<close>

fun pairs_seg :: "string \<Rightarrow> string list" where
  "pairs_seg (a # b # cs) = [a, b] # pairs_seg cs"
| "pairs_seg cs = (if cs = [] then [] else [cs])"

definition demo_tok_cfg :: tokenizer_cfg where
  "demo_tok_cfg = \<lparr>hyphen_split = True, stop_en_enabled = True, stop_zh_enabled = False\<rparr>"

definition demo_mixed :: string where
  "demo_mixed = ''smart-Connection'' @ [CHR 0xE7, CHR 0x94, CHR 0xA8, CHR 0xE8, CHR 0xB5, CHR 0xB7]"

section \<open>Lemmas\<close>

lemma runs_class: "list_all (\<lambda>(k, r). r \<noteq> [] \<and> list_all (\<lambda>c. cls c = k) r) (runs cls s)"
  by (induction s) (auto split: list.splits if_splits)

lemma char_class_lower [simp]: "char_class cfg (lower_char c) = char_class cfg c"
proof (cases "65 \<le> (of_char c :: nat) \<and> (of_char c :: nat) \<le> 90")
  case True
  then have "(of_char (lower_char c) :: nat) = of_char c + 32" by (simp add: lower_char_def)
  with True show ?thesis by (simp add: char_class_def Let_def is_digit_def)
next
  case False
  then show ?thesis by (auto simp: lower_char_def Let_def)
qed

lemma run_tokens_class:
  assumes "seg_within_run seg" "r \<noteq> []" "list_all (\<lambda>c. char_class cfg c = k) r" "(k', t) \<in> set (run_tokens seg fine (k, r))"
  shows "k' = k \<and> k \<noteq> SepC \<and> list_all (\<lambda>c. char_class cfg c = k) t"
proof (cases k)
  case LatinC
  with assms(3,4) show ?thesis by (auto simp: run_tokens_def to_lower_def list_all_iff)
next
  case CjkC
  with assms(1,3,4) show ?thesis
    by (cases seg; fastforce simp: run_tokens_def seg_within_run_def list_all_iff)
next
  case SepC
  with assms(4) show ?thesis by (simp add: run_tokens_def)
qed

lemma tagged_one_script:
  assumes "seg_within_run seg" "(k, r) \<in> set (runs (char_class cfg) text)"
    "(k', t) \<in> set (run_tokens seg fine (k, r))" "t \<noteq> []"
  shows "one_script cfg t"
proof -
  from runs_class [of "char_class cfg" "text"] assms(2) have "r \<noteq> []" "list_all (\<lambda>c. char_class cfg c = k) r"
    by (auto simp: list_all_iff)
  from run_tokens_class [OF assms(1) this assms(3)] assms(4) show ?thesis
    by (cases k) (auto simp: one_script_def)
qed

lemma segment_subset:
  "set (segment cfg seg se sz fine text) \<subseteq>
   snd ` set (filter (\<lambda>(k, t). t \<noteq> []) (concat (map (run_tokens seg fine) (runs (char_class cfg) text))))"
  unfolding segment_def Let_def by (simp split: if_split) blast

lemma pairs_seg_within: "list_all (\<lambda>t. set t \<subseteq> set r) (pairs_seg r)"
  by (induction r rule: pairs_seg.induct) (auto simp: list_all_iff)

section \<open>Properties of the tokenizer\<close>

text \<open>C16: with stop words loaded by the asset provider and any segmenter that keeps to
  its run, every token is non-empty and lies within one script: no token mixes a
  Latin run with an adjacent CJK run (specification 4.1 and the mixed-script
  scenario of section 8).\<close>

theorem segment_one_script:
  assumes "seg_within_run seg"
  shows "list_all (one_script cfg) (segment cfg seg (read_lines en) (read_lines zh) fine text)"
  unfolding list_all_iff
proof
  fix t assume "t \<in> set (segment cfg seg (read_lines en) (read_lines zh) fine text)"
  with segment_subset obtain k' where "(k', t) \<in> set (filter (\<lambda>(k, t). t \<noteq> []) (concat (map (run_tokens seg fine) (runs (char_class cfg) text))))"
    by fastforce
  then obtain k r where "(k, r) \<in> set (runs (char_class cfg) text)" "(k', t) \<in> set (run_tokens seg fine (k, r))" "t \<noteq> []"
    by auto
  from tagged_one_script [OF assms this] show "one_script cfg t" .
qed

theorem segment_one_script_witness:
  "segment demo_tok_cfg (Some (\<lambda>_ r. pairs_seg r)) (read_lines ''smart'') (read_lines []) False demo_mixed =
     [''connection'', [CHR 0xE7, CHR 0x94], [CHR 0xA8, CHR 0xE8], [CHR 0xB5, CHR 0xB7]] \<and>
   list_all (one_script demo_tok_cfg) (segment demo_tok_cfg (Some (\<lambda>_ r. pairs_seg r)) (read_lines ''smart'') (read_lines []) False demo_mixed)"
proof
  have "seg_within_run (Some (\<lambda>_ r. pairs_seg r))" by (simp add: seg_within_run_def pairs_seg_within)
  from segment_one_script [OF this] show "list_all (one_script demo_tok_cfg) (segment demo_tok_cfg (Some (\<lambda>_ r. pairs_seg r)) (read_lines ''smart'') (read_lines []) False demo_mixed)" .
  show "segment demo_tok_cfg (Some (\<lambda>_ r. pairs_seg r)) (read_lines ''smart'') (read_lines []) False demo_mixed =
     [''connection'', [CHR 0xE7, CHR 0x94], [CHR 0xA8, CHR 0xE8], [CHR 0xB5, CHR 0xB7]]"
    by code_simp
qed

end
