(* ===== verification/DocumentIndex.thy ===== *)
theory DocumentIndex
  imports Tokenizer PluginSetting SearchService LineMatcher "HOL-Library.AList" "HOL-Library.List_Lexorder"
    "HOL-Library.Char_ord" "HOL-Library.Multiset"
begin

text \<open>
  The document index of the specification (section 4.2) and the query processor
  (section 4.3); the engine file is not among the sources. The index maps each
  document path to the tokens of its fields (basename, folder, aliases, content), in
  an association list: \<open>index_upsert\<close> replaces a document's tokens,
  \<open>index_remove\<close> drops them, \<open>index_reindex_all\<close> rebuilds from a document set.
  A query term matches an indexed token exactly, by prefix (terms of at least
  \<open>minTermLengthForPrefixSearch\<close> characters) or within an edit-distance budget
  (terms of at least \<open>minTermLengthForPrefix\<close> characters, budget
  \<open>fuzzyProportion\<close> times the length, at least 1). A document's score sums, over
  the query terms and the matching token occurrences, the field weight of
  \<open>innerSetting\<close> times a factor for the kind of match (exact 1, prefix 1/2,
  fuzzy 1/4) times the term's saturating inverse document frequency \<open>N / (N + df)\<close>
  (the specification leaves the formula open). \<open>and\<close> mode keeps the documents
  matching every term, \<open>or\<close> mode those matching some; the ranking is by score,
  then by the number of matching terms, then by path. \<open>index_engine\<close> plugs the
  index, the tokenizer and the line matcher into the engine interface that
  \<open>SearchService\<close> calls.
\<close>

datatype field = FBasename | FFolder | FAliases | FContent

datatype match_kind = Exact | PrefixM | Fuzzy

text \<open>\<open>DocumentWeight\<close>, a partial map from the fields of \<open>IndexedDocument\<close> to a
  multiplier, as the index fills it from \<open>innerSetting\<close>; a field absent from it
  weighs 1.\<close>

definition document_weight :: "field \<Rightarrow> rat option" where
  "document_weight f =
     (case f of FBasename \<Rightarrow> Some (weight_filename inner_setting) | FFolder \<Rightarrow> Some (weight_folder inner_setting)
      | FAliases \<Rightarrow> Some (weight_tag_text inner_setting) | FContent \<Rightarrow> None)"

definition field_weight :: "field \<Rightarrow> rat" where
  "field_weight f = (case document_weight f of None \<Rightarrow> 1 | Some w \<Rightarrow> w)"

definition kind_factor :: "match_kind \<Rightarrow> rat" where
  "kind_factor k = (case k of Exact \<Rightarrow> 1 | PrefixM \<Rightarrow> 1 / 2 | Fuzzy \<Rightarrow> 1 / 4)"

text \<open>Edit distance, row by row.\<close>

fun ed_row :: "char \<Rightarrow> string \<Rightarrow> nat list \<Rightarrow> nat \<Rightarrow> nat list" where
  "ed_row x (y # ys) (d # u # ps) l =
     (let v = min (min (u + 1) (l + 1)) (d + (if x = y then 0 else 1)) in v # ed_row x ys (u # ps) v)"
| "ed_row x _ _ _ = []"

definition edit_distance :: "string \<Rightarrow> string \<Rightarrow> nat" where
  "edit_distance xs ys =
     last (foldl (\<lambda>row (i, x). i # ed_row x ys row i) [0..<Suc (length ys)] (zip [1..<Suc (length xs)] xs))"

definition fuzzy_budget :: "string \<Rightarrow> nat" where
  "fuzzy_budget t = max 1 (nat (floor (fuzzy_proportion inner_setting * of_nat (length t))))"

definition match_kind :: "string \<Rightarrow> string \<Rightarrow> match_kind option" where
  "match_kind t w =
     (if w = t then Some Exact
      else if min_term_length_for_prefix_search inner_setting \<le> length t \<and> prefix t w then Some PrefixM
      else if min_term_length_for_prefix inner_setting \<le> length t \<and> edit_distance t w \<le> fuzzy_budget t then Some Fuzzy
      else None)"

type_synonym doc_tokens = "(field \<times> string list) list"
type_synonym doc_index = "(string \<times> doc_tokens) list"

definition tokenize_doc :: "(string \<Rightarrow> string list) \<Rightarrow> indexed_document \<Rightarrow> doc_tokens" where
  "tokenize_doc tok d =
     [(FBasename, tok (doc_basename d)), (FFolder, tok (doc_folder d)),
      (FAliases, tok (case doc_aliases d of None \<Rightarrow> [] | Some a \<Rightarrow> a)),
      (FContent, tok (case doc_content d of None \<Rightarrow> [] | Some c \<Rightarrow> c))]"

definition index_upsert :: "(string \<Rightarrow> string list) \<Rightarrow> indexed_document \<Rightarrow> doc_index \<Rightarrow> doc_index" where
  "index_upsert tok d idx = AList.update (doc_path d) (tokenize_doc tok d) idx"

definition index_remove :: "string \<Rightarrow> doc_index \<Rightarrow> doc_index" where
  "index_remove p idx = AList.delete p idx"

definition index_reindex_all :: "(string \<Rightarrow> string list) \<Rightarrow> indexed_document list \<Rightarrow> doc_index" where
  "index_reindex_all tok docs = fold (index_upsert tok) docs []"

text \<open>The matching token occurrences of a term in a document, with their field and
  kind of match.\<close>

definition term_hits :: "string \<Rightarrow> doc_tokens \<Rightarrow> (field \<times> match_kind) list" where
  "term_hits t dt = concat (map (\<lambda>(f, ws). List.map_filter (\<lambda>w. map_option (\<lambda>k. (f, k)) (match_kind t w)) ws) dt)"

definition term_matches :: "string \<Rightarrow> doc_tokens \<Rightarrow> bool" where
  "term_matches t dt \<longleftrightarrow> term_hits t dt \<noteq> []"

definition idf :: "doc_index \<Rightarrow> string \<Rightarrow> rat" where
  "idf idx t =
     (let n = of_nat (length idx); df = of_nat (length (filter (\<lambda>(p, dt). term_matches t dt) idx)) in n / (n + df))"

definition doc_score :: "doc_index \<Rightarrow> string list \<Rightarrow> doc_tokens \<Rightarrow> rat" where
  "doc_score idx ts dt =
     sum_list (map (\<lambda>t. idf idx t * sum_list (map (\<lambda>(f, k). field_weight f * kind_factor k) (term_hits t dt))) ts)"

definition qualifies :: "query_mode \<Rightarrow> string list \<Rightarrow> doc_tokens \<Rightarrow> bool" where
  "qualifies mode ts dt =
     (case mode of ModeAnd \<Rightarrow> ts \<noteq> [] \<and> list_all (\<lambda>t. term_matches t dt) ts
      | ModeOr \<Rightarrow> list_ex (\<lambda>t. term_matches t dt) ts)"

definition and_count :: "string list \<Rightarrow> doc_tokens \<Rightarrow> nat" where
  "and_count ts dt = length (filter (\<lambda>t. term_matches t dt) ts)"

definition index_rank :: "doc_index \<Rightarrow> string list \<Rightarrow> query_mode \<Rightarrow> (string \<times> string list) list" where
  "index_rank idx ts mode =
     map (\<lambda>(p, dt). (p, filter (\<lambda>t. term_matches t dt) ts))
       (sort_key (\<lambda>(p, dt). (- doc_score idx ts dt, - int (and_count ts dt), p))
         (filter (\<lambda>(p, dt). qualifies mode ts dt) idx))"

definition index_query :: "doc_index \<Rightarrow> string list \<Rightarrow> query_mode \<Rightarrow> nat \<Rightarrow> (string \<times> string list) list" where
  "index_query idx ts mode limit = take limit (index_rank idx ts mode)"

text \<open>The engine: documents tokenized in coarse mode, queries in fine mode
  (section 4.3), at most \<open>limit\<close> files; a persisted snapshot already holds the
  tokens.\<close>

definition index_engine ::
  "(string \<Rightarrow> string list) \<Rightarrow> (string \<Rightarrow> string list) \<Rightarrow> nat \<Rightarrow> (doc_index, doc_index) lexical_engine" where
  "index_engine coarse fine limit =
     \<lparr>search_files = (\<lambda>idx q mode. map (\<lambda>(p, ts). \<lparr>mf_path = p, matched_terms = ts\<rparr>) (index_query idx (fine q) mode limit)),
      eng_search_lines = search_lines, eng_fzf_match = fzf_match,
      reindex_documents = index_reindex_all coarse, reindex_snapshot = id\<rparr>"

text \<open>An index of the specification's scenario (section 8): \<open>a.md\<close> holds
  \<open>alpha beta\<close>, \<open>b.md\<close> holds \<open>beta\<close>.\<close>

definition demo_index :: doc_index where
  "demo_index =
     [(''a.md'', [(FBasename, [''a'']), (FFolder, []), (FAliases, []), (FContent, [''alpha'', ''beta''])]),
      (''b.md'', [(FBasename, [''b'']), (FFolder, []), (FAliases, []), (FContent, [''beta''])])]"

text \<open>The documents of the same scenario as the host reads them, and a tokenizer
  configuration with stop words and hyphen splitting off.\<close>

definition spec_docs :: "indexed_document list" where
  "spec_docs =
     [\<lparr>doc_path = ''a.md'', doc_basename = ''Projects'', doc_folder = [], doc_aliases = None, doc_content = Some ''alpha beta''\<rparr>,
      \<lparr>doc_path = ''b.md'', doc_basename = ''Notes'', doc_folder = [], doc_aliases = None, doc_content = Some ''beta gamma''\<rparr>]"

definition plain_tok_cfg :: tokenizer_cfg where
  "plain_tok_cfg = \<lparr>hyphen_split = False, stop_en_enabled = False, stop_zh_enabled = False\<rparr>"

text \<open>A well-formed index: one entry per path, each with the four fields in order.\<close>

definition index_wf :: "doc_index \<Rightarrow> bool" where
  "index_wf idx \<longleftrightarrow> distinct (map fst idx) \<and> list_all (\<lambda>(p, dt). map fst dt = [FBasename, FFolder, FAliases, FContent]) idx"

section \<open>Lemmas\<close>

lemma index_rank_sound:
  "(p, ts') \<in> set (index_rank idx ts mode) \<Longrightarrow>
   \<exists>dt. (p, dt) \<in> set idx \<and> qualifies mode ts dt \<and> ts' = filter (\<lambda>t. term_matches t dt) ts"
  by (auto simp: index_rank_def)

lemma index_rank_complete:
  "(p, dt) \<in> set idx \<Longrightarrow> qualifies mode ts dt \<Longrightarrow> (p, filter (\<lambda>t. term_matches t dt) ts) \<in> set (index_rank idx ts mode)"
  by (force simp: index_rank_def)

lemma index_rank_keys:
  "mset (map fst (index_rank idx ts mode)) = mset (map fst (filter (\<lambda>(p, dt). qualifies mode ts dt) idx))"
  by (simp add: index_rank_def comp_def case_prod_beta)

lemma index_query_keys:
  assumes "length (filter (\<lambda>(p, dt). qualifies mode ts dt) idx) \<le> n"
  shows "mset (map fst (index_query idx ts mode n)) = mset (map fst (filter (\<lambda>(p, dt). qualifies mode ts dt) idx))"
proof -
  have "length (index_rank idx ts mode) \<le> n"
    using assms by (simp add: index_rank_def)
  then have "index_query idx ts mode n = index_rank idx ts mode" by (simp add: index_query_def)
  then show ?thesis by (simp only: index_rank_keys)
qed

lemma qualifies_and_or: "qualifies ModeAnd ts dt \<Longrightarrow> qualifies ModeOr ts dt"
  by (cases ts) (auto simp: qualifies_def)

lemma search_in_vault_index:
  "items (search_in_vault (index_engine coarse fine cap) idx q) =
     (if q = [] then [] else map (\<lambda>(p, ts). lexical_file_item \<lparr>mf_path = p, matched_terms = ts\<rparr>) (index_query idx (fine q) ModeAnd cap))"
  by (auto simp: search_in_vault_def index_engine_def Let_def)

lemma search_in_vault_index_sound:
  assumes "FileItem f \<in> set (items (search_in_vault (index_engine coarse fine cap) idx q))"
  shows "\<exists>dt. (fi_path f, dt) \<in> set idx \<and> qualifies ModeAnd (fine q) dt"
proof -
  from assms obtain p ts where "(p, ts) \<in> set (index_rank idx (fine q) ModeAnd)"
      "FileItem f = lexical_file_item \<lparr>mf_path = p, matched_terms = ts\<rparr>"
    by (auto simp: search_in_vault_index index_query_def split: if_splits dest: in_set_takeD)
  then show ?thesis by (auto simp: lexical_file_item_def dest: index_rank_sound)
qed

lemma set_update_subset: "set (AList.update k v al) \<subseteq> insert (k, v) (set al)"
  by (induction al) auto

lemma index_wf_upsert: "index_wf idx \<Longrightarrow> index_wf (index_upsert tok d idx)"
  unfolding index_wf_def index_upsert_def list_all_iff
  using set_update_subset [of "doc_path d" "tokenize_doc tok d" idx]
  by (auto simp: tokenize_doc_def distinct_update)

lemma index_wf_remove: "index_wf idx \<Longrightarrow> index_wf (index_remove p idx)"
  using distinct_delete [of idx p] by (auto simp: index_wf_def index_remove_def list_all_iff AList.delete_eq)

lemma index_wf_fold: "index_wf idx \<Longrightarrow> index_wf (fold (index_upsert tok) docs idx)"
  by (induction docs arbitrary: idx) (simp_all add: index_wf_upsert)

lemma set_fold_upsert:
  "(p, dt) \<in> set (fold (index_upsert tok) docs idx) \<Longrightarrow>
   (p, dt) \<in> set idx \<or> (\<exists>d \<in> set docs. doc_path d = p \<and> dt = tokenize_doc tok d)"
proof (induction docs arbitrary: idx)
  case Nil then show ?case by simp
next
  case (Cons d docs)
  from Cons.IH [OF Cons.prems [simplified]] set_update_subset [of "doc_path d" "tokenize_doc tok d" idx]
  show ?case by (auto simp: index_upsert_def)
qed

lemma set_index_reindex_all:
  "(p, dt) \<in> set (index_reindex_all tok docs) \<Longrightarrow> \<exists>d \<in> set docs. doc_path d = p \<and> dt = tokenize_doc tok d"
  using set_fold_upsert [of p dt tok docs "[]"] by (simp add: index_reindex_all_def)

lemma filter_update_key:
  "distinct (map fst al) \<Longrightarrow>
   filter (\<lambda>e. fst e = p) (AList.update k v al) = (if k = p then [(k, v)] else filter (\<lambda>e. fst e = p) al)"
  by (induction al) (auto simp: filter_empty_conv image_iff)

lemma filter_fold_upsert:
  "distinct (map fst idx) \<Longrightarrow>
   filter (\<lambda>e. fst e = p) (fold (index_upsert tok) docs idx) =
     (case find (\<lambda>d. doc_path d = p) (rev docs) of
        None \<Rightarrow> filter (\<lambda>e. fst e = p) idx | Some d \<Rightarrow> [(p, tokenize_doc tok d)])"
proof (induction docs arbitrary: idx)
  case Nil
  then show ?case by simp
next
  case (Cons d docs)
  have "distinct (map fst (index_upsert tok d idx))"
    using Cons.prems by (simp add: index_upsert_def distinct_update)
  from Cons.IH [OF this] Cons.prems show ?case
    by (auto simp: index_upsert_def filter_update_key find_append_split split: option.split)
qed

section \<open>Properties of the index\<close>

text \<open>C10: every file that searchInVault returns over the index is an indexed
  document that matches every term of the query, as the tokenizer cuts it in fine
  mode (exactly, by prefix or within the fuzzy budget): \<open>and\<close> mode is sound.\<close>

theorem search_in_vault_index_and:
  assumes "FileItem f \<in> set (items (search_in_vault (index_engine coarse fine cap) idx q))"
  shows "\<exists>dt. (fi_path f, dt) \<in> set idx \<and> fine q \<noteq> [] \<and> (\<forall>t \<in> set (fine q). term_matches t dt)"
  using search_in_vault_index_sound [OF assms] by (auto simp: qualifies_def list_all_iff)

theorem search_in_vault_index_and_witness:
  "FileItem (file_item.make LEXICAL ''b.md'' [] (SubItemText ''nothing'') JsUndefined)
     \<in> set (items (search_in_vault (index_engine (\<lambda>s. [s]) (\<lambda>s. [s]) 30) demo_index ''beta'')) \<and>
   (\<exists>dt. (''b.md'', dt) \<in> set demo_index \<and> [''beta''] \<noteq> [] \<and> (\<forall>t \<in> set [''beta'']. term_matches t dt))"
proof
  show *: "FileItem (file_item.make LEXICAL ''b.md'' [] (SubItemText ''nothing'') JsUndefined)
     \<in> set (items (search_in_vault (index_engine (\<lambda>s. [s]) (\<lambda>s. [s]) 30) demo_index ''beta''))"
    by code_simp
  from search_in_vault_index_and [OF *] show "\<exists>dt. (''b.md'', dt) \<in> set demo_index \<and> [''beta''] \<noteq> [] \<and> (\<forall>t \<in> set [''beta'']. term_matches t dt)"
    by (simp add: file_item.make_def)
qed

text \<open>C11: after \<open>remove(path)\<close> no query returns that path: searchInVault over the
  index never yields a file item for a removed document.\<close>

theorem index_remove_search_in_vault:
  assumes "FileItem f \<in> set (items (search_in_vault (index_engine coarse fine cap) (index_remove p idx) q))"
  shows "fi_path f \<noteq> p"
proof -
  from search_in_vault_index_sound [OF assms] obtain dt where "(fi_path f, dt) \<in> set (index_remove p idx)"
    by blast
  then show ?thesis by (auto simp: index_remove_def AList.delete_eq)
qed

theorem index_remove_search_in_vault_witness:
  "FileItem (file_item.make LEXICAL ''b.md'' [] (SubItemText ''nothing'') JsUndefined)
     \<in> set (items (search_in_vault (index_engine (\<lambda>s. [s]) (\<lambda>s. [s]) 30) (index_remove ''a.md'' demo_index) ''beta'')) \<and>
   ''b.md'' \<noteq> ''a.md''"
proof
  show *: "FileItem (file_item.make LEXICAL ''b.md'' [] (SubItemText ''nothing'') JsUndefined)
     \<in> set (items (search_in_vault (index_engine (\<lambda>s. [s]) (\<lambda>s. [s]) 30) (index_remove ''a.md'' demo_index) ''beta''))"
    by code_simp
  from index_remove_search_in_vault [OF *] show "''b.md'' \<noteq> ''a.md''" by (simp add: file_item.make_def)
qed

text \<open>C12: every document the \<open>and\<close> mode ranks is ranked by the \<open>or\<close> mode, with
  the same matched terms.\<close>

theorem index_and_subset_or: "set (index_rank idx ts ModeAnd) \<subseteq> set (index_rank idx ts ModeOr)"
  by (auto dest!: index_rank_sound intro!: index_rank_complete qualifies_and_or)

text \<open>C18: after \<open>reIndexAll(docs)\<close> the index holds exactly one entry for the path of
  a document, with the tokens of the last document with that path, and none for a
  path of no document: a re-indexed path never leaves a stale entry behind.\<close>

theorem index_reindex_lookup:
  "filter (\<lambda>e. fst e = p) (index_reindex_all tok docs) =
     (case find (\<lambda>d. doc_path d = p) (rev docs) of None \<Rightarrow> [] | Some d \<Rightarrow> [(p, tokenize_doc tok d)])"
  using filter_fold_upsert [of "[]" p tok docs] by (simp add: index_reindex_all_def split: option.split)

text \<open>C17: the index is well formed (one entry per path, each with the four fields
  basename, folder, aliases and content) after \<open>reIndexAll\<close>, and \<open>upsert\<close> and
  \<open>remove\<close> keep it so.\<close>

theorem index_ops_wf:
  assumes "index_wf idx"
  shows "index_wf (index_upsert tok d idx) \<and> index_wf (index_remove p idx) \<and> index_wf (index_reindex_all tok docs)"
proof -
  have "index_wf []" by (simp add: index_wf_def)
  from index_wf_fold [OF this] assms show ?thesis
    by (simp add: index_wf_upsert index_wf_remove index_reindex_all_def)
qed

theorem index_ops_wf_witness:
  "index_wf demo_index \<and> index_wf (index_upsert (\<lambda>s. [s]) \<lparr>doc_path = ''c.md'', doc_basename = ''c'', doc_folder = [],
      doc_aliases = None, doc_content = Some ''gamma''\<rparr> demo_index) \<and> index_wf (index_remove ''a.md'' demo_index) \<and>
   index_wf (index_reindex_all (\<lambda>s. [s]) [])"
proof -
  have "index_wf demo_index" by (simp add: index_wf_def demo_index_def)
  with index_ops_wf [of demo_index] show ?thesis by blast
qed


text \<open>C13: the scenario of the specification (section 8): after \<open>reIndexAll\<close> of
  \<open>a.md\<close> (\<open>alpha beta\<close>) and \<open>b.md\<close> (\<open>beta gamma\<close>), the query \<open>beta\<close> in
  \<open>or\<close> mode returns both paths and \<open>alpha beta\<close> in \<open>and\<close> mode only \<open>a.md\<close>.\<close>

theorem index_scenario:
  "set (map fst (index_query (index_reindex_all (segment plain_tok_cfg None [] [] False) spec_docs)
          (segment plain_tok_cfg None [] [] True ''beta'') ModeOr 30)) = {''a.md'', ''b.md''} \<and>
   map fst (index_query (index_reindex_all (segment plain_tok_cfg None [] [] False) spec_docs)
          (segment plain_tok_cfg None [] [] True ''alpha beta'') ModeAnd 30) = [''a.md'']"
proof -
  define idx where "idx = [(''a.md'', [(FBasename, [''projects'']), (FFolder, []), (FAliases, []), (FContent, [''alpha'', ''beta''])]),
     (''b.md'', [(FBasename, [''notes'']), (FFolder, []), (FAliases, []), (FContent, [''beta'', ''gamma''])])]"
  have i: "index_reindex_all (segment plain_tok_cfg None [] [] False) spec_docs = idx"
    unfolding idx_def by code_simp
  have q1: "segment plain_tok_cfg None [] [] True ''beta'' = [''beta'']" by code_simp
  have q2: "segment plain_tok_cfg None [] [] True ''alpha beta'' = [''alpha'', ''beta'']" by code_simp
  have f1: "filter (\<lambda>(p, dt). qualifies ModeOr [''beta''] dt) idx = idx"
    unfolding idx_def by code_simp
  have f2: "filter (\<lambda>(p, dt). qualifies ModeAnd [''alpha'', ''beta''] dt) idx = [hd idx]"
    unfolding idx_def by code_simp
  have "length (filter (\<lambda>(p, dt). qualifies ModeOr [''beta''] dt) idx) \<le> 30"
    unfolding f1 by (simp add: idx_def)
  from index_query_keys [OF this] have "mset (map fst (index_query idx [''beta''] ModeOr 30)) = mset (map fst idx)"
    unfolding f1 .
  then have "set (map fst (index_query idx [''beta''] ModeOr 30)) = set (map fst idx)"
    by (metis set_mset_mset)
  then have s1: "set (map fst (index_query idx [''beta''] ModeOr 30)) = {''a.md'', ''b.md''}"
    by (simp add: idx_def)
  have "length (filter (\<lambda>(p, dt). qualifies ModeAnd [''alpha'', ''beta''] dt) idx) \<le> 30"
    unfolding f2 by simp
  from index_query_keys [OF this] have "mset (map fst (index_query idx [''alpha'', ''beta''] ModeAnd 30)) = mset (map fst [hd idx])"
    unfolding f2 .
  then have "mset (map fst (index_query idx [''alpha'', ''beta''] ModeAnd 30)) = {#''a.md''#}"
    by (simp add: idx_def)
  then have s2: "map fst (index_query idx [''alpha'', ''beta''] ModeAnd 30) = [''a.md'']"
    by (simp only: mset_single_iff)
  show ?thesis unfolding i q1 q2 using s1 s2 by (rule conjI)
qed

end
