(* ===== verification/IndexRanking.thy ===== *)
theory IndexRanking
  imports DocumentIndex
begin

text \<open>
  The ordering guarantees of the document index (specification section 4.2): an
  exact match of a term outranks a prefix match, which outranks a fuzzy match; and
  in \<open>or\<close> mode a document matching every term ranks no lower than a document
  matching only some of them with no higher score (the tie-break by the number of
  matched terms in \<open>index_rank\<close>).
\<close>

text \<open>An index of three notes in which \<open>z.md\<close> holds both query terms and
  \<open>b.md\<close> holds the first one twice, so that both score the same.\<close>

definition tie_index :: doc_index where
  "tie_index =
     [(''z.md'', [(FContent, [''alpha'', ''beta''])]), (''b.md'', [(FContent, [''alpha'', ''alpha''])]),
      (''c.md'', [(FContent, [''beta''])])]"

section \<open>Lemmas\<close>

lemma field_weight_pos: "0 < field_weight f"
  by (cases f) (simp_all add: field_weight_def document_weight_def inner_setting_def)

lemma idf_pos: "idx \<noteq> [] \<Longrightarrow> 0 < idf idx t"
  by (simp add: idf_def Let_def add_pos_nonneg)

lemma doc_score_single:
  "doc_score idx [t] [(f, [w])] = (case match_kind t w of None \<Rightarrow> 0 | Some k \<Rightarrow> idf idx t * (field_weight f * kind_factor k))"
  by (simp add: doc_score_def term_hits_def List.map_filter_def split: option.split)

lemma and_count_all: "list_all (\<lambda>t. term_matches t dt) ts \<Longrightarrow> and_count ts dt = length ts"
  by (simp add: and_count_def list_all_iff)

lemma and_count_less: "\<not> list_all (\<lambda>t. term_matches t dt) ts \<Longrightarrow> and_count ts dt < length ts"
  by (auto simp: and_count_def list_all_iff intro: length_filter_less)

section \<open>Properties of the ranking\<close>

text \<open>C15: for the same term in the same field, a document whose token equals the
  term scores above one whose token only starts with it, which scores above one
  whose token is only within the fuzzy budget.\<close>

theorem exact_prefix_fuzzy_order:
  assumes "idx \<noteq> []" "match_kind t w = Some PrefixM" "match_kind t v = Some Fuzzy"
  shows "doc_score idx [t] [(f, [v])] < doc_score idx [t] [(f, [w])] \<and>
         doc_score idx [t] [(f, [w])] < doc_score idx [t] [(f, [t])]"
proof -
  have c: "0 < field_weight f * idf idx t" using idf_pos [OF assms(1)] field_weight_pos by simp
  have e: "match_kind t t = Some Exact" by (simp add: match_kind_def)
  from c show ?thesis using assms(2,3)
    by (simp add: doc_score_single e kind_factor_def mult.assoc [symmetric])
qed

theorem exact_prefix_fuzzy_order_witness:
  "demo_index \<noteq> [] \<and> match_kind ''beta'' ''betas'' = Some PrefixM \<and> match_kind ''beta'' ''bets'' = Some Fuzzy \<and>
   doc_score demo_index [''beta''] [(FContent, [''bets''])] < doc_score demo_index [''beta''] [(FContent, [''betas''])] \<and>
   doc_score demo_index [''beta''] [(FContent, [''betas''])] < doc_score demo_index [''beta''] [(FContent, [''beta''])]"
proof -
  have h: "demo_index \<noteq> []" by (simp add: demo_index_def)
  have p: "match_kind ''beta'' ''betas'' = Some PrefixM" by code_simp
  have f: "match_kind ''beta'' ''bets'' = Some Fuzzy" by code_simp
  from exact_prefix_fuzzy_order [OF h p f, of FContent] h p f show ?thesis by blast
qed

text \<open>C14: in \<open>or\<close> mode a document matching every query term is ranked before a
  document that matches only some of them and scores no higher.\<close>

theorem index_rank_and_first:
  assumes "(pa, da) \<in> set idx" "(pb, db) \<in> set idx"
    and "qualifies ModeAnd ts da" "\<not> qualifies ModeAnd ts db" "qualifies ModeOr ts db"
    and "doc_score idx ts db \<le> doc_score idx ts da"
  shows "\<exists>i j. i < j \<and> j < length (index_rank idx ts ModeOr) \<and>
           fst (index_rank idx ts ModeOr ! i) = pa \<and> fst (index_rank idx ts ModeOr ! j) = pb"
proof -
  let ?key = "\<lambda>(p, dt). (- doc_score idx ts dt, - int (and_count ts dt), p)"
  let ?xs = "sort_key ?key (filter (\<lambda>(p, dt). qualifies ModeOr ts dt) idx)"
  have ts: "ts \<noteq> []" using assms(5) by (auto simp: qualifies_def)
  have ca: "and_count ts da = length ts" using assms(3) by (simp add: qualifies_def and_count_all)
  have cb: "and_count ts db < length ts" using assms(4) ts by (simp add: qualifies_def and_count_less)
  have lt: "?key (pa, da) < ?key (pb, db)"
    using assms(6) ca cb by (auto simp: less_prod_def)
  have "(pa, da) \<in> set ?xs" "(pb, db) \<in> set ?xs"
    using assms(1,2,3,5) qualifies_and_or [OF assms(3)] by auto
  from sorted_key_before [OF sorted_sort_key this lt] obtain i j where
    "i < j" "j < length ?xs" "?xs ! i = (pa, da)" "?xs ! j = (pb, db)" by blast
  then show ?thesis
    by (intro exI [of _ i] exI [of _ j]) (simp add: index_rank_def case_prod_beta)
qed

theorem index_rank_and_first_witness:
  "(\<exists>i j. i < j \<and> j < length (index_rank tie_index [''alpha'', ''beta''] ModeOr) \<and>
      fst (index_rank tie_index [''alpha'', ''beta''] ModeOr ! i) = ''z.md'' \<and>
      fst (index_rank tie_index [''alpha'', ''beta''] ModeOr ! j) = ''b.md'') \<and> ''b.md'' < ''z.md''"
proof -
  let ?da = "[(FContent, [''alpha'', ''beta''])]" and ?db = "[(FContent, [''alpha'', ''alpha''])]"
  have m: "(''z.md'', ?da) \<in> set tie_index" "(''b.md'', ?db) \<in> set tie_index" by (simp_all add: tie_index_def)
  have q: "qualifies ModeAnd [''alpha'', ''beta''] ?da" "\<not> qualifies ModeAnd [''alpha'', ''beta''] ?db"
    "qualifies ModeOr [''alpha'', ''beta''] ?db" by code_simp+
  have s: "doc_score tie_index [''alpha'', ''beta''] ?db \<le> doc_score tie_index [''alpha'', ''beta''] ?da"
    unfolding tie_index_def by code_simp
  have "''b.md'' < ''z.md''" by code_simp
  with index_rank_and_first [OF m q s] show ?thesis by blast
qed

end
