(* ===== verification/PluginManager.thy ===== *)
theory PluginManager
  imports DocumentIndex CommandRegistry
begin

text \<open>
  The plugin's start-up and its wrappers of undeclared application APIs:
  \<open>PluginManager.initAsync\<close> (\<open>src/src/services/obsidian/plugin-manager.ts\<close>), which
  initialises the settings and then the search service, \<open>SearchService.initAsync\<close>,
  and \<open>PrivateApi\<close> (\<open>src/src/services/obsidian/private-api.ts\<close>). The application
  object is a record of what the wrappers read: the \<open>appId\<close> property, the command
  table that \<open>Plugin.addCommand\<close> fills (the host prefixes every id with the plugin's
  manifest id and a colon) and the backlink lookup of the metadata cache. The
  setting manager's code is not among the sources; its \<open>initAsync\<close> is the loaded
  \<open>OuterSetting\<close>, a parameter.
\<close>

record obsidian_app =
  app_id_value :: js_any
  app_commands :: "(string \<times> command) list"
  backlinks_for_file :: "string \<Rightarrow> string list"

text \<open>\<open>Plugin.addCommand\<close> of the host: the command is registered under
  \<open>manifestId:id\<close>, a later registration of the same full id replacing it.\<close>

definition plugin_add_command :: "string \<Rightarrow> command \<Rightarrow> obsidian_app \<Rightarrow> obsidian_app" where
  "plugin_add_command plugin_id c app =
     app\<lparr>app_commands := AList.update (plugin_id @ '':'' @ cmd_id c) c (app_commands app)\<rparr>"

text \<open>\<open>CommandRegistry.addCommand\<close>, once per command the registry adds.\<close>

definition register_commands :: "string \<Rightarrow> command list \<Rightarrow> obsidian_app \<Rightarrow> obsidian_app" where
  "register_commands plugin_id cs app = fold (plugin_add_command plugin_id) cs app"

text \<open>\<open>PrivateApi.getFileBacklinks(file)\<close>: the backlinks are looked up and dropped;
  the method has no \<open>return\<close>.\<close>

definition get_file_backlinks :: "obsidian_app \<Rightarrow> string \<Rightarrow> js_any" where
  "get_file_backlinks app file = (let _ = backlinks_for_file app file in JsUndefined)"

text \<open>\<open>PrivateApi.getAppId()\<close>.\<close>

definition get_app_id :: "obsidian_app \<Rightarrow> js_any" where
  "get_app_id app = app_id_value app"

text \<open>\<open>PrivateApi.executeCommandById(commandId)\<close>: the effects of the command's
  callback; an unknown id does nothing, and the host's boolean answer is dropped.\<close>

definition execute_command_by_id :: "obsidian_app \<Rightarrow> command_env \<Rightarrow> string \<Rightarrow> cmd_effect list" where
  "execute_command_by_id app env command_id =
     (case map_of (app_commands app) command_id of None \<Rightarrow> [] | Some c \<Rightarrow> cmd_callback c env)"

text \<open>The state \<open>PluginManager.initAsync\<close> builds: the loaded settings and the
  lexical engine's index, each absent until initialised.\<close>

record 'idx plugin_state =
  ps_setting :: "outer_setting option"
  ps_index :: "'idx option"

text \<open>\<open>SearchService.initAsync()\<close>: \<open>await this.initSearchEngines()\<close>.\<close>

definition search_service_init_async :: "'snap host \<Rightarrow> ('idx, 'snap) lexical_engine \<Rightarrow> 'idx" where
  "search_service_init_async h E = fst (init_search_engines h E)"

text \<open>\<open>PluginManager.initAsync()\<close>: the settings, then the search service.\<close>

definition plugin_init_async ::
  "outer_setting \<Rightarrow> 'snap host \<Rightarrow> ('idx, 'snap) lexical_engine \<Rightarrow> 'idx plugin_state \<Rightarrow> 'idx plugin_state" where
  "plugin_init_async loaded h E st =
     (let st1 = st\<lparr>ps_setting := Some loaded\<rparr> in st1\<lparr>ps_index := Some (search_service_init_async h E)\<rparr>)"

section \<open>Lemmas\<close>

lemma plugin_init_index:
  "mini_search_data h = None \<Longrightarrow>
   ps_index (plugin_init_async loaded h (index_engine coarse fine cap) st) = Some (index_reindex_all coarse (all_documents h))"
  by (simp add: plugin_init_async_def search_service_init_async_def init_search_engines_def index_engine_def)

lemma get_file_backlinks_undefined: "get_file_backlinks app file = JsUndefined"
  by (simp add: get_file_backlinks_def)

end
