(* ===== verification/DevTest.thy ===== *)
theory DevTest
  imports PluginManager
begin

text \<open>
  The developer harness \<open>src/src/dev-test.ts\<close>: \<open>devTest\<close> runs
  \<open>testTokenizer\<close>, which cuts a mixed-script sentence with the tokenizer in coarse
  and in fine mode and logs both token lists; \<open>testLexicalSearch\<close> queries the
  lexical engine in both modes and logs what the vault holds at the first path
  found. The other helpers log host facts only (\<open>testTsyringe\<close>,
  \<open>testUnsupportedExtensions\<close>) or do nothing (\<open>testStemmer\<close>). A function's result
  here is the list of what it logs. The sentence \<open>smart-Connection\<close> followed by
  six Chinese characters has its Chinese characters as six code units from 128 up,
  the convention of \<open>Tokenizer\<close>.
\<close>

definition dev_test_text :: string where
  "dev_test_text = ''smart-Connection'' @ [CHR 0x80, CHR 0x81, CHR 0x82, CHR 0x83, CHR 0x84, CHR 0x85]"

text \<open>\<open>testTokenizer()\<close>: the asset download and \<open>CjkPatch.initAsync\<close> give the
  segmenter and the stop-word lists (parameters here); then
  \<open>cutForSearch(text, false)\<close> and \<open>cutForSearch(text, true)\<close> are logged.\<close>

definition test_tokenizer ::
  "tokenizer_cfg \<Rightarrow> cjk_segmenter option \<Rightarrow> string list \<Rightarrow> string list \<Rightarrow> string list list" where
  "test_tokenizer cfg seg stops_en stops_zh =
     (let text = dev_test_text in
      [segment cfg seg stops_en stops_zh False text, segment cfg seg stops_en stops_zh True text])"

text \<open>\<open>devTest()\<close>: only \<open>testTokenizer\<close> is enabled.\<close>

definition dev_test ::
  "tokenizer_cfg \<Rightarrow> cjk_segmenter option \<Rightarrow> string list \<Rightarrow> string list \<Rightarrow> string list list" where
  "dev_test cfg seg stops_en stops_zh = test_tokenizer cfg seg stops_en stops_zh"

text \<open>\<open>vault.getAbstractFileByPath\<close>: a file, a folder, or \<open>null\<close>.\<close>

datatype abstract_file = TFile string | TFolder string

text \<open>\<open>testLexicalSearch()\<close>: both searches, the log of the \<open>or\<close> results, and the
  message about the first path. \<open>resultsOr[0]?.path\<close> is \<open>undefined\<close> when there is
  no result, and the lookup of \<open>undefined\<close> gives \<open>null\<close>; a folder is printed by its
  default \<open>toString\<close>.\<close>

definition test_lexical_search ::
  "('idx, 'snap) lexical_engine \<Rightarrow> 'idx \<Rightarrow> (string \<Rightarrow> abstract_file option) \<Rightarrow> matched_file list \<times> string" where
  "test_lexical_search E idx get_abstract_file_by_path =
     (let query = ''whoknowthisfolder/whereisit'';
          results_or = search_files E idx query ModeOr;
          results_and = search_files E idx query ModeAnd;
          t_file = (case results_or of [] \<Rightarrow> None | r # _ \<Rightarrow> get_abstract_file_by_path (mf_path r))
      in (results_or,
          case t_file of
            None \<Rightarrow> ''no document is found''
          | Some (TFile p) \<Rightarrow> ''find first one: '' @ p
          | Some (TFolder p) \<Rightarrow> ''it's a folder: [object Object]''))"

text \<open>\<open>getInstance\<close> over the \<open>tsyringe\<close> container: a class registered with
  \<open>@singleton()\<close> is instantiated on its first resolution, and every later
  resolution returns the same instance. Instances are numbered in creation order.\<close>

record di_container =
  instances :: "(string \<times> nat) list"
  next_instance :: nat

definition get_instance :: "string \<Rightarrow> di_container \<Rightarrow> nat \<times> di_container" where
  "get_instance cls c =
     (case map_of (instances c) cls of
        Some i \<Rightarrow> (i, c)
      | None \<Rightarrow> (next_instance c, c\<lparr>instances := (cls, next_instance c) # instances c, next_instance := Suc (next_instance c)\<rparr>))"

text \<open>\<open>testTsyringe()\<close>: two resolutions of \<open>SearchService\<close> and the logged comparison.\<close>

definition test_tsyringe :: "di_container \<Rightarrow> di_container \<times> string" where
  "test_tsyringe c =
     (let (obj1, c1) = get_instance ''SearchService'' c;
          (obj2, c2) = get_instance ''SearchService'' c1
      in (c2, ''test equal: '' @ (if obj1 = obj2 then ''true'' else ''false'')))"

text \<open>\<open>testUnsupportedExtensions()\<close>: the logged value of the vault's
  \<open>showUnsupportedFiles\<close> option.\<close>

definition test_unsupported_extensions :: "(string \<Rightarrow> string) \<Rightarrow> string" where
  "test_unsupported_extensions get_config = get_config ''showUnsupportedFiles''"

text \<open>\<open>testStemmer()\<close>: it builds a list of words and logs nothing.\<close>

definition test_stemmer :: "string list" where
  "test_stemmer = (let words = [''gifs;d'', ''gifs'', [CHR 0x80, CHR 0x81], [CHR 0x82, CHR 0x83, CHR 0x84, CHR 0x85], ''analyzers''] in [])"

section \<open>Properties of the harness\<close>

text \<open>As its comment says, \<open>testTsyringe\<close> logs \<open>test equal: true\<close> from any state of
  the container, and the container then holds \<open>SearchService\<close>.\<close>

lemma test_tsyringe_true:
  "snd (test_tsyringe c) = ''test equal: true'' \<and> ''SearchService'' \<in> fst ` set (instances (fst (test_tsyringe c)))"
  by (auto simp: test_tsyringe_def get_instance_def split: option.splits dest: map_of_SomeD intro: rev_image_eqI)

text \<open>Without the segmenter (degraded mode) and with the hyphen kept inside Latin
  tokens, the harness logs the Latin run as one lower-cased token and the Chinese run
  as another, in both modes.\<close>

lemma dev_test_degraded:
  "dev_test \<lparr>hyphen_split = False, stop_en_enabled = True, stop_zh_enabled = True\<rparr> None [] [] =
     [[''smart-connection'', [CHR 0x80, CHR 0x81, CHR 0x82, CHR 0x83, CHR 0x84, CHR 0x85]],
      [''smart-connection'', [CHR 0x80, CHR 0x81, CHR 0x82, CHR 0x83, CHR 0x84, CHR 0x85]]]"
  unfolding dev_test_def test_tokenizer_def dev_test_text_def by code_simp

text \<open>a query issued before the index is built (the specification's
  \<open>IndexNotReady\<close>, section 7) gives no result, not an error: searchInVault returns
  the empty result with the path \<open>no result\<close> (an \<open>and\<close> query), and the harness's
  \<open>or\<close> query finds nothing and reports that no document is found.\<close>

theorem index_not_ready:
  "search_in_vault (index_engine coarse fine cap) [] q = \<lparr>curr_path = ''no result'', items = []\<rparr> \<and>
   test_lexical_search (index_engine coarse fine cap) [] lookup = ([], ''no document is found'')"
  by (simp add: search_in_vault_def test_lexical_search_def index_engine_def index_query_def index_rank_def Let_def)

end
