(* ===== verification/Spec2Isabelle.thy ===== *)
theory Spec2Isabelle
  imports LineMatcher Highlighter SearchService MyLib FileWalk FloatingWindow CommandRegistry LegacyIndexer AssetsProvider
    Tokenizer DocumentIndex IndexRanking PluginManager DevTest
begin

text \<open>
  \<^bold>\<open>A verification library for obsidian-clever-search.\<close>

  The repository is an Obsidian plugin that searches a vault of notes: a
  vault-wide lexical search over an index of documents, and an in-file search
  that matches the lines of the open file approximately and highlights the
  matched columns. The files under \<open>src/\<close> hold the orchestration of the search
  (\<open>services/obsidian/search-service.ts\<close>), the result data model
  (\<open>globals/search-types.ts\<close>), the settings (\<open>globals/plugin-setting.ts\<close>),
  string and file-system utilities (\<open>utils/my-lib.ts\<close>), the in-file floating
  window (\<open>ui/floating-window.ts\<close>), the command and hotkey registry
  (\<open>services/obsidian/command-registry.ts\<close>), the download of tokenizer
  assets (\<open>utils/web/assets-provider.ts\<close>) and an earlier Elasticsearch-based
  indexer (\<open>search-service.ts\<close>). The lexical engine itself (index, line
  matcher), the highlighter and the tokenizer are called from these files but
  their code is not among the sources; they are modelled from the
  specification and marked as such.

  \<^bold>\<open>How the parts interact.\<close> \<open>PluginManager.initAsync\<close> initialises the
  settings and then \<open>SearchService\<close>, which builds the lexical index from the host's
  documents (or a persisted snapshot). \<open>SearchService\<close> reads the host (active file,
  file contents, snapshot) and calls the engine and the highlighter. Here those
  collaborators are records of functions (\<open>lexical_engine\<close>, \<open>line_highlighter\<close> in
  \<open>SearchService\<close>), so the service is defined for every engine; this theory
  instantiates them with the models of the specification: \<open>model_engine\<close> and
  \<open>model_highlighter\<close> for the in-file search, and \<open>index_engine\<close> of
  \<open>DocumentIndex\<close>, the document index with the tokenizer, for the vault-wide
  search (\<open>spec_engine\<close>). The end-to-end properties are proved over these
  compositions.

  \<^bold>\<open>Theories.\<close>
  \<^item> \<open>Prelude\<close>: JavaScript string operations (\<open>split\<close>/\<open>join\<close> on one
    character, \<open>startsWith\<close>, \<open>includes\<close>, ASCII \<open>toLowerCase\<close>, the
    \<open>\s\<close> class, decimal rendering of integers) with their algebra:
    \<open>js_join_split\<close> (join undoes split), \<open>read_show_int\<close> (decimal rendering
    is parsed back), and the shared \<open>model_simps\<close> collection.
  \<^item> \<open>SearchTypes\<close>: the records and datatypes of \<open>search-types.ts\<close>
    (\<open>line\<close>, \<open>matched_line\<close>, \<open>highlighted_context\<close>, the \<open>item\<close>
    datatype for the \<open>Item\<close> class hierarchy, \<open>file_item\<close> with the untyped
    \<open>subItems\<close> and \<open>previewContent\<close> slots, \<open>search_result\<close>), and
    \<open>number_lines\<close>, the \<open>new Line(text, index)\<close> numbering every caller does.
  \<^item> \<open>LineMatcher\<close> (from the specification, section 4.4): \<open>greedy_match\<close>
    computes the earliest alignment of the query's characters in a line;
    \<open>fzf_match\<close> scores, ranks (descending score, ascending row) and
    \<open>search_lines\<close> cuts at a limit. Proved: the alignment found is the
    canonical earliest one among all alignments, reported columns are valid
    offsets holding the query characters.
  \<^item> \<open>Highlighter\<close> (specification 4.5): \<open>hl_parse\<close> in the line, paragraph
    and sub-item modes; paragraphs are maximal runs of non-blank lines
    (\<open>para_start\<close>, \<open>para_end\<close>). Proved: the column is a valid offset, and
    the paragraph context is exactly the maximal non-blank run around the row.
  \<^item> \<open>SearchService\<close> (\<open>search-service.ts\<close>): \<open>search_in_vault\<close>,
    \<open>get_file_sub_items\<close>, \<open>search_in_file\<close>, \<open>deprecated_search_in_file\<close>,
    \<open>init_search_engines\<close>, each a definition of one method with its guards.
    Proved here, over the models: soundness and completeness of the in-file
    search, its guards and the bounds of sub-items.
  \<^item> \<open>MyLib\<close> (\<open>my-lib.ts\<close>): \<open>format_millis\<close> with its decomposition and round
    trip through \<open>parse_millis\<close>; \<open>get_basename\<close> and \<open>get_extension\<close>;
    \<open>extract_domain_from_https_url\<close> against a model of the regular expression
    it uses (\<open>url_regex_match\<close>), proved equal to the leftmost-match semantics.
  \<^item> \<open>FileWalk\<close> (\<open>getAllFiles\<close> of \<open>my-lib.ts\<close>): a traversal of a
    file-system map with fuel; a path that resolves through more symbolic links
    than the kernel follows (40 on Linux) is rejected with \<open>ELOOP\<close>. Proved: every returned path is an accepted
    regular file outside the ignored directories; on a finite tree of height
    \<open>h\<close> any fuel above \<open>h\<close> makes the walk return (\<open>fs_tree\<close>, by rule
    induction), while below a directory linking to itself the walk descends
    until the kernel's link limit and then rejects with \<open>ELOOP\<close>; a missing root rejects with \<open>ENOENT\<close>; \<open>ALL\<close> selects only
    extension-less files; names starting with \<open>.git\<close> are ignored.

  \<^item> \<open>PluginSetting\<close> (\<open>plugin-setting.ts\<close>): \<open>OuterSetting\<close>, its defaults for
    the two environment facts it reads, and the search constants; the floating
    window's position fields, used but not declared by \<open>UISetting\<close>, are
    \<open>string option\<close> and undefined by default.
  \<^item> \<open>FloatingWindow\<close> (\<open>floating-window.ts\<close>): the window as a state machine
    (\<open>fw_state\<close>, one definition per handler, \<open>fw_step\<close> dispatching DOM events
    to the registered listeners, \<open>fw_reach\<close> the reachable states). Proved, by
    rule induction, that the document listeners are registered exactly while the
    window is open, each once; dragging moves the window by the pointer's
    displacement; resizing keeps the 200 by 100 minimum; \<open>resetAllPositions\<close>
    keeps the window open or closed and moves it to the default position; a saved
    geometry is restored on reopening; and two behaviours of the code: every
    mouse-up saves the geometry, and the drag state survives closing.

  \<^item> \<open>CommandRegistry\<close> (\<open>command-registry.ts\<close>): the navigation hotkeys on an
    Obsidian scope (\<open>Scope.register\<close>/\<open>unregister\<close> from the API) and the command
    table with the effects of its callbacks. Proved: constructing and unloading the
    registry restores the application's scope; a second \<open>registerAll\<close> leaks the first pair of handlers.
  \<^item> \<open>LegacyIndexer\<close> (\<open>search-service.ts\<close>, the Elasticsearch version): the
    watcher events and the one debounced \<open>indexFile\<close> as a timer state machine.
    Proved: the machine refines \<open>debounce_fire\<close>, the functional description of
    which calls fire; the last event of a burst is indexed with the content read
    when its timer runs out; a change to another path within three seconds drops
    the first path's change, which per-path coalescing (\<open>per_path_fire\<close>) keeps.
  \<^item> \<open>AssetsProvider\<close> (\<open>assets-provider.ts\<close>): \<open>downloadFile\<close> and
    \<open>initAsync\<close> in an explicit state-and-error monad over the files of the assets
    directory and the provider's \<open>_assets\<close>. Proved: with the file missing and the
    network serving it, \<open>initAsync\<close> returns and loads the distinct lines, and the
    never-settling \<open>jiebaBinary\<close> promise stays when the patch is off; a failed
    write leaves a truncated file that every later start accepts.

  \<^item> \<open>Tokenizer\<close> (specification 4.1): \<open>segment\<close> cuts a text into maximal runs
    of one script, lower-cases Latin runs, hands CJK runs to a segmenter that may be
    absent, and drops stop words unless nothing is left. Proved: with the stop
    words \<open>AssetsProvider\<close> loads, every token lies within one script.
  \<^item> \<open>DocumentIndex\<close> (specification 4.2 and 4.3): the index as an association
    list from paths to field tokens (\<open>index_upsert\<close>, \<open>index_remove\<close>,
    \<open>index_reindex_all\<close>), exact, prefix and fuzzy matching (edit distance within
    \<open>fuzzyProportion\<close>), weighted scores, \<open>and\<close>/\<open>or\<close> modes and the ranking,
    and \<open>index_engine\<close>. Proved: every file a vault search returns matches every
    query term; a removed path is never returned; \<open>and\<close> results lie within
    \<open>or\<close> results; the specification's two-document scenario (through a multiset
    argument, so that the ranking's scores need not be evaluated); lookup after
    \<open>reIndexAll\<close> (exactly one entry per path, the last document's tokens); the index
    stays well formed under every operation.
  \<^item> \<open>IndexRanking\<close>: the ordering guarantees of specification 4.2 over the
    index's scores and ranking. Proved: for one term, an exact token match scores
    above a prefix match, which scores above a fuzzy match; in \<open>or\<close> mode a document
    matching every term is ranked before one matching only some terms with no
    higher score (through a lemma on lists sorted by a key).
  \<^item> \<open>PluginManager\<close> (\<open>plugin-manager.ts\<close>, \<open>private-api.ts\<close>): start-up and the
    wrappers of undeclared host APIs over a record of the application. Proved:
    \<open>getFileBacklinks\<close> always returns \<open>undefined\<close>; start-up builds the index from the
    host's documents (used by this theory's end-to-end property).
  \<^item> \<open>DevTest\<close> (\<open>dev-test.ts\<close>): every helper of the developer harness, as
    what it logs, with the \<open>tsyringe\<close> singleton container behind \<open>getInstance\<close>
    modelled from the library's contract. Proved: a query before the index is built
    yields no result, not an error; \<open>testTsyringe\<close> logs \<open>test equal: true\<close>.
  \<^item> This theory: the end-to-end properties of the in-file search and of
    start-up followed by a vault search (\<open>plugin_init_search_in_vault\<close>: every
    file returned is a document the host supplied that matches the query).

  \<^bold>\<open>Fuel.\<close> \<open>traverse\<close> spends one unit per directory level, so the fuel
  needed is the height of the directory tree plus one
  (\<open>get_all_files_returns\<close>); a \<open>None\<close> result is a walk that has not returned yet.
  On a directory linking to itself the walk needs one unit per link the kernel
  follows, 41 in all, before it rejects with \<open>ELOOP\<close> (\<open>get_all_files_self_link\<close>). All other definitions are total.

  \<^bold>\<open>Not modelled.\<close> The Obsidian API and the DOM beyond what the service
  and the wrappers read (rendering, the view classes, the settings tab, the
  setting manager, whose code is not among the sources); the query
  semantics of Elasticsearch behind the legacy \<open>search\<close> (the client is a
  parameter); the Svelte components the floating window mounts
  (\<open>InFileFloatingWindow.mountComponent\<close>); the Jest tests of \<open>nlp.test.ts\<close>, whose
  module \<open>utils/nlp\<close> is not among the sources and whose expected proportions
  depend on its counting rule. The index snapshot is the
  index itself: the specification's schema versions and \<open>DocumentRef\<close> ids are
  not modelled.

  \<^bold>\<open>Plan.\<close> The Chinese-patch branch of \<open>AssetsProvider.initAsync\<close>; the
  index snapshot's schema versions, should the engine's code become available.
\<close>

definition model_engine ::
  "('idx \<Rightarrow> string \<Rightarrow> query_mode \<Rightarrow> matched_file list) \<Rightarrow> (indexed_document list \<Rightarrow> 'idx) \<Rightarrow> ('snap \<Rightarrow> 'idx) \<Rightarrow> ('idx, 'snap) lexical_engine" where
  "model_engine sf rd rs = \<lparr>search_files = sf, eng_search_lines = search_lines, eng_fzf_match = fzf_match,
     reindex_documents = rd, reindex_snapshot = rs\<rparr>"

definition model_highlighter :: "(line list \<Rightarrow> string \<Rightarrow> line_item list) \<Rightarrow> line_highlighter" where
  "model_highlighter pli = \<lparr>hl_parse_fn = hl_parse, hl_parse_all_fn = hl_parse_all, parse_line_items = pli\<rparr>"

text \<open>A host whose active file \<open>notes.md\<close> is the one line \<open>hello world\<close>, for the
  concrete runs below.\<close>

definition demo_host :: "'snap host" where
  "demo_host = \<lparr>active_file = Some ''notes.md'', is_plain_text = (\<lambda>p. True), read_plain_text = (\<lambda>p. ''hello world''),
      read_plain_text_lines = (\<lambda>p. [''hello world'']), split_eol = (\<lambda>s. [s]), mini_search_data = None, all_documents = []\<rparr>"

text \<open>The engine and highlighter models with an empty vault index, for the same runs.\<close>

definition demo_engine :: "(unit, unit) lexical_engine" where
  "demo_engine = model_engine (\<lambda>_ _ _. []) (\<lambda>_. ()) (\<lambda>_. ())"

definition demo_highlighter :: line_highlighter where
  "demo_highlighter = model_highlighter (\<lambda>_ _. [])"

text \<open>A vault of one note \<open>a.md\<close> holding \<open>alpha\<close>, with no persisted index, and
  the engine of the specification over it: the document index with the tokenizer,
  coarse for documents and fine for queries, stop words and hyphen splitting off.\<close>

definition vault_host :: "doc_index host" where
  "vault_host = \<lparr>active_file = None, is_plain_text = (\<lambda>p. True), read_plain_text = (\<lambda>p. []),
      read_plain_text_lines = (\<lambda>p. []), split_eol = (\<lambda>s. [s]), mini_search_data = None,
      all_documents = [\<lparr>doc_path = ''a.md'', doc_basename = ''a'', doc_folder = [], doc_aliases = None, doc_content = Some ''alpha''\<rparr>]\<rparr>"

definition spec_engine :: "(doc_index, doc_index) lexical_engine" where
  "spec_engine = index_engine (segment plain_tok_cfg None [] [] False) (segment plain_tok_cfg None [] [] True) 30"

lemma demo_host_simps [simp]:
  "active_file demo_host = Some ''notes.md''" "is_plain_text demo_host p" "read_plain_text demo_host p = ''hello world''"
  "read_plain_text_lines demo_host p = [''hello world'']" "split_eol demo_host s = [s]"
  by (simp_all add: demo_host_def)

lemmas model_run_simps = model_engine_def model_highlighter_def to_line_item_def strip_spaces_def is_js_space_def
  number_lines_def fzf_match_def match_line_def char_eq_def lower_char_def hl_parse_def first_col_def
  para_start.simps para_end.simps Let_def hl_parse_all_def to_sub_item_def search_lines_def
  sub_item_before_def sub_item_width_def

lemma fzf_match_first_col:
  assumes "m \<in> set (fzf_match q ls)"
  shows "first_col m < length (line_text m) \<and> (\<exists>l \<in> set ls. line_text m = line_text l \<and> row m = row l)"
proof -
  from fzf_match_sound [OF assms] obtain l :: line where l: "l \<in> set ls" and t: "line_text m = line_text l"
    and r: "row m = row l" and al: "alignment q (line_text l) (positions m)" by blast
  from assms have "q \<noteq> []" by (auto simp: fzf_match_def)
  with al t have "valid_match m" "positions m \<noteq> []"
    by (auto simp: alignment_def valid_match_def strict_sorted_iff)
  then have "first_col m < length (line_text m)" by (rule first_col_valid)
  with l t r show ?thesis by blast
qed

section \<open>Vault-wide and in-file search, end to end\<close>

text \<open>C1: every item of an in-file search is a \<open>LineItem\<close> for a row of the active
  file: its text is that row's text, its column is a valid offset into it, and the
  character there is the first character of the query without spaces (compared
  without case). The result's path is the active file.\<close>

theorem search_in_file_sound:
  assumes "it \<in> set (items (search_in_file h (model_engine sf rd rs) (model_highlighter pli) q))"
  shows "\<exists>li path. it = LineItem li \<and> active_file h = Some path \<and> curr_path (search_in_file h (model_engine sf rd rs) (model_highlighter pli) q) = path \<and>
     row (li_line li) < length (read_plain_text_lines h path) \<and>
     line_text (li_line li) = read_plain_text_lines h path ! row (li_line li) \<and>
     col (li_line li) < length (line_text (li_line li)) \<and>
     char_eq (hd (strip_spaces q)) (line_text (li_line li) ! col (li_line li))"
proof -
  from assms obtain path ml where p: "active_file h = Some path" and q: "q \<noteq> []" and pt: "is_plain_text h path"
    and ml: "ml \<in> set (fzf_match (strip_spaces q) (number_lines (read_plain_text_lines h path)))"
    and it: "it = to_line_item (model_highlighter pli) (number_lines (read_plain_text_lines h path)) ml"
    by (auto simp: search_in_file_items model_engine_def)
  let ?ts = "read_plain_text_lines h path"
  from fzf_match_sound [OF ml] obtain l :: line where l: "l \<in> set (number_lines ?ts)"
    and t: "line_text ml = line_text l" and r: "row ml = row l" and al: "alignment (strip_spaces q) (line_text l) (positions ml)"
    by blast
  from ml have sq: "strip_spaces q \<noteq> []" by (auto simp: fzf_match_def)
  from al sq have pos: "positions ml \<noteq> []" and c0: "positions ml ! 0 < length (line_text l)"
    and eq0: "char_eq (strip_spaces q ! 0) (line_text l ! (positions ml ! 0))"
    by (auto simp: alignment_def)
  have fc: "first_col ml = positions ml ! 0" using pos by (cases "positions ml") (auto simp: first_col_def)
  from l have rl: "row l < length ?ts" "line_text l = ?ts ! row l" using row_number_lines by blast+
  let ?li = "\<lparr>li_line = \<lparr>line_text = line_text ml, row = row ml, col = first_col ml\<rparr>,
              li_context = line_text (hl_parse (number_lines ?ts) ml ParagraphMode True)\<rparr>"
  have "it = LineItem ?li" using it by (simp add: to_line_item_def model_highlighter_def Let_def)
  moreover have "curr_path (search_in_file h (model_engine sf rd rs) (model_highlighter pli) q) = path"
    using p q pt by (simp add: search_in_file_def Let_def)
  moreover have "hd (strip_spaces q) = strip_spaces q ! 0" using sq by (simp add: hd_conv_nth)
  ultimately show ?thesis using p rl t r c0 eq0 fc by auto
qed

theorem search_in_file_sound_witness:
  "LineItem \<lparr>li_line = \<lparr>line_text = ''hello world'', row = 0, col = 6\<rparr>, li_context = ''hello world''\<rparr>
     \<in> set (items (search_in_file (demo_host :: unit host) demo_engine demo_highlighter ''w r d'')) \<and>
   char_eq (hd (strip_spaces ''w r d'')) (''hello world'' ! 6)"
proof -
  have it: "LineItem \<lparr>li_line = \<lparr>line_text = ''hello world'', row = 0, col = 6\<rparr>, li_context = ''hello world''\<rparr>
     \<in> set (items (search_in_file (demo_host :: unit host) (model_engine (\<lambda>_ _ _. []) (\<lambda>_. ()) (\<lambda>_. ())) (model_highlighter (\<lambda>_ _. [])) ''w r d''))"
    by (simp add: search_in_file_def model_run_simps)
  from search_in_file_sound [OF it] it show ?thesis by (auto simp: demo_engine_def demo_highlighter_def)
qed

text \<open>C2: in-file search finds a row exactly when the query, with its whitespace
  removed and compared without case, is a subsequence of the row's text.\<close>

theorem search_in_file_complete:
  assumes "active_file h = Some path" and "is_plain_text h path" and "strip_spaces q \<noteq> []"
    and "r < length (read_plain_text_lines h path)"
  shows "(\<exists>li. LineItem li \<in> set (items (search_in_file h (model_engine sf rd rs) (model_highlighter pli) q)) \<and> row (li_line li) = r) \<longleftrightarrow>
         subseq (map lower_char (strip_spaces q)) (map lower_char (read_plain_text_lines h path ! r))"
proof -
  let ?ts = "read_plain_text_lines h path" and ?lines = "number_lines (read_plain_text_lines h path)"
  have q: "q \<noteq> []" using assms(3) by (auto simp: strip_spaces_def)
  have lr: "\<lparr>line_text = ?ts ! r, row = r\<rparr> \<in> set ?lines"
    using assms(4) by (auto simp: in_set_conv_nth intro!: exI [of _ r])
  have li_iff: "(\<exists>li. LineItem li \<in> set (items (search_in_file h (model_engine sf rd rs) (model_highlighter pli) q)) \<and> row (li_line li) = r) \<longleftrightarrow>
      (\<exists>m \<in> set (fzf_match (strip_spaces q) ?lines). row m = r)"
    using assms(1,2) q
    by (auto simp: search_in_file_items model_engine_def to_line_item_def model_highlighter_def Let_def)
  have row_text: "\<forall>m \<in> set (fzf_match (strip_spaces q) ?lines). row m = r \<longrightarrow> line_text m = ?ts ! r"
  proof (intro ballI impI)
    fix m assume m: "m \<in> set (fzf_match (strip_spaces q) ?lines)" and "row m = r"
    from fzf_match_sound [OF m] obtain l :: line where "l \<in> set ?lines" "line_text m = line_text l" "row m = row l"
      by blast
    with \<open>row m = r\<close> show "line_text m = ?ts ! r" using row_number_lines by metis
  qed
  have "(\<exists>m \<in> set (fzf_match (strip_spaces q) ?lines). row m = r) \<longleftrightarrow>
        (\<exists>m \<in> set (fzf_match (strip_spaces q) ?lines). line_text m = line_text \<lparr>line_text = ?ts ! r, row = r\<rparr> \<and> row m = row \<lparr>line_text = ?ts ! r, row = r\<rparr>)"
    using row_text by auto
  also have "\<dots> \<longleftrightarrow> subseq (map lower_char (strip_spaces q)) (map lower_char (?ts ! r))"
    using fzf_match_member_iff [OF assms(3) lr] by simp
  finally show ?thesis using li_iff by simp
qed

theorem search_in_file_complete_witness:
  "(\<exists>li. LineItem li \<in> set (items (search_in_file (demo_host :: unit host) demo_engine demo_highlighter ''w r d'')) \<and>
        row (li_line li) = 0) \<longleftrightarrow> subseq (map lower_char ''wrd'') (map lower_char ''hello world'')"
proof -
  have s: "strip_spaces ''w r d'' = ''wrd''" by (simp add: strip_spaces_def is_js_space_def)
  have "active_file (demo_host :: unit host) = Some ''notes.md''" "is_plain_text (demo_host :: unit host) ''notes.md''"
    "strip_spaces ''w r d'' \<noteq> []" "0 < length (read_plain_text_lines (demo_host :: unit host) ''notes.md'')"
    by (simp_all add: s)
  from search_in_file_complete [OF this, of "\<lambda>_ _ _. []" "\<lambda>_. ()" "\<lambda>_. ()" "\<lambda>_ _. []"]
  show ?thesis by (simp add: s demo_engine_def demo_highlighter_def)
qed

text \<open>C3: an in-file search with no active file, an empty query, or an active file
  that is not plain text returns the empty result with the empty path.\<close>

theorem search_in_file_guard:
  assumes "active_file h = None \<or> q = [] \<or> (\<exists>p. active_file h = Some p \<and> \<not> is_plain_text h p)"
  shows "search_in_file h E H q = \<lparr>curr_path = [], items = []\<rparr>"
  using assms by (auto simp: search_in_file_def Let_def split: option.splits)

theorem search_in_file_guard_witness:
  "search_in_file (demo_host :: unit host) demo_engine demo_highlighter [] = \<lparr>curr_path = [], items = []\<rparr>"
proof -
  have "active_file (demo_host :: unit host) = None \<or> [] = [] \<or>
        (\<exists>p. active_file (demo_host :: unit host) = Some p \<and> \<not> is_plain_text demo_host p)" by simp
  from search_in_file_guard [OF this] show ?thesis .
qed

text \<open>C4: the sub-items of a file are at most 30; each lies on a row of the file, is a
  window of at most 80 characters of that row, and its column is a valid offset into
  the window.\<close>

theorem get_file_sub_items_bounds:
  "length (get_file_sub_items h (model_engine sf rd rs) (model_highlighter pli) path q) \<le> 30 \<and>
   (\<forall>s \<in> set (get_file_sub_items h (model_engine sf rd rs) (model_highlighter pli) path q).
      sub_row s < length (split_eol h (read_plain_text h path)) \<and> sub_col s < length (sub_text s) \<and>
      (\<exists>k. sub_text s = take 80 (drop k (split_eol h (read_plain_text h path) ! sub_row s))))"
proof -
  let ?ts = "split_eol h (read_plain_text h path)"
  let ?ms = "search_lines (number_lines ?ts) q 30"
  have len: "length (get_file_sub_items h (model_engine sf rd rs) (model_highlighter pli) path q) \<le> 30"
    by (simp add: get_file_sub_items_def model_engine_def model_highlighter_def hl_parse_all_def Let_def search_lines_def)
  have "\<forall>s \<in> set (get_file_sub_items h (model_engine sf rd rs) (model_highlighter pli) path q).
      sub_row s < length ?ts \<and> sub_col s < length (sub_text s) \<and> (\<exists>k. sub_text s = take 80 (drop k (?ts ! sub_row s)))"
  proof
    fix s assume s: "s \<in> set (get_file_sub_items h (model_engine sf rd rs) (model_highlighter pli) path q)"
    then obtain m where m: "m \<in> set ?ms" and sm: "s = to_sub_item (hl_parse (number_lines ?ts) m SubItemMode False)"
      by (auto simp: get_file_sub_items_def model_engine_def model_highlighter_def hl_parse_all_def Let_def split: if_splits)
    from m have "m \<in> set (fzf_match q (number_lines ?ts))" by (auto simp: search_lines_def dest: in_set_takeD)
    from fzf_match_first_col [OF this] obtain l :: line where c: "first_col m < length (line_text m)"
      and l: "l \<in> set (number_lines ?ts)" and t: "line_text m = line_text l" and r: "row m = row l" by blast
    from l have rl: "row l < length ?ts" "line_text l = ?ts ! row l" using row_number_lines by blast+
    have "sub_col s < length (sub_text s)"
      using c by (simp add: sm to_sub_item_def hl_parse_SubItemMode sub_item_before_def sub_item_width_def min_def) linarith
    moreover have "sub_row s < length ?ts" using rl r by (simp add: sm to_sub_item_def hl_parse_SubItemMode)
    moreover have "\<exists>k. sub_text s = take 80 (drop k (?ts ! sub_row s))"
      using rl r t by (simp add: sm to_sub_item_def hl_parse_SubItemMode sub_item_width_def) blast
    ultimately show "sub_row s < length ?ts \<and> sub_col s < length (sub_text s) \<and> (\<exists>k. sub_text s = take 80 (drop k (?ts ! sub_row s)))"
      by blast
  qed
  with len show ?thesis by blast
qed

theorem get_file_sub_items_bounds_witness:
  "get_file_sub_items (demo_host :: unit host) demo_engine demo_highlighter ''notes.md'' ''wrd'' =
     [\<lparr>sub_text = ''hello world'', sub_row = 0, sub_col = 6\<rparr>] \<and>
   sub_col \<lparr>sub_text = ''hello world'', sub_row = 0, sub_col = 6\<rparr> < length ''hello world''"
proof -
  have run: "get_file_sub_items (demo_host :: unit host) demo_engine demo_highlighter ''notes.md'' ''wrd'' =
     [\<lparr>sub_text = ''hello world'', sub_row = 0, sub_col = 6\<rparr>]"
    by (simp add: get_file_sub_items_def demo_engine_def demo_highlighter_def model_run_simps)
  from get_file_sub_items_bounds [of "demo_host :: unit host" "\<lambda>_ _ _. []" "\<lambda>_. ()" "\<lambda>_. ()" "\<lambda>_ _. []" "''notes.md''" "''wrd''"]
  have "\<forall>s \<in> set (get_file_sub_items (demo_host :: unit host) demo_engine demo_highlighter ''notes.md'' ''wrd'').
      sub_col s < length (sub_text s)"
    by (simp add: demo_engine_def demo_highlighter_def)
  with run show ?thesis by simp
qed

section \<open>Start-up, index and vault search, end to end\<close>

text \<open>C9: after \<open>PluginManager.initAsync\<close> with no persisted snapshot, every file
  that a vault-wide search returns over the index it built is a document the host
  supplied, and that document, tokenized as the index stores it, matches every term
  of the query.\<close>

theorem plugin_init_search_in_vault:
  assumes "mini_search_data h = None"
    and "ps_index (plugin_init_async loaded h (index_engine coarse fine cap) st) = Some idx"
    and "FileItem f \<in> set (items (search_in_vault (index_engine coarse fine cap) idx q))"
  shows "\<exists>d \<in> set (all_documents h). doc_path d = fi_path f \<and> fine q \<noteq> [] \<and>
           (\<forall>t \<in> set (fine q). term_matches t (tokenize_doc coarse d))"
proof -
  from assms(1,2) plugin_init_index have idx: "idx = index_reindex_all coarse (all_documents h)" by fastforce
  from search_in_vault_index_sound [OF assms(3)] obtain dt where
    dt: "(fi_path f, dt) \<in> set idx" and qd: "qualifies ModeAnd (fine q) dt" by blast
  from set_index_reindex_all [OF dt [unfolded idx]] obtain d where
    "d \<in> set (all_documents h)" "doc_path d = fi_path f" "dt = tokenize_doc coarse d" by blast
  with qd show ?thesis by (auto simp: qualifies_def list_all_iff)
qed

theorem plugin_init_search_in_vault_witness:
  "FileItem (file_item.make LEXICAL ''a.md'' [] (SubItemText ''nothing'') JsUndefined)
     \<in> set (items (search_in_vault spec_engine (index_reindex_all (segment plain_tok_cfg None [] [] False) (all_documents vault_host)) ''alpha'')) \<and>
   (\<exists>d \<in> set (all_documents vault_host). doc_path d = ''a.md'' \<and> segment plain_tok_cfg None [] [] True ''alpha'' \<noteq> [] \<and>
      (\<forall>t \<in> set (segment plain_tok_cfg None [] [] True ''alpha''). term_matches t (tokenize_doc (segment plain_tok_cfg None [] [] False) d)))"
proof
  let ?st = "\<lparr>ps_setting = None, ps_index = None\<rparr> :: doc_index plugin_state"
  have m: "mini_search_data vault_host = None" by (simp add: vault_host_def)
  have i: "ps_index (plugin_init_async (DEFAULT_OUTER_SETTING False False) vault_host spec_engine ?st) =
      Some (index_reindex_all (segment plain_tok_cfg None [] [] False) (all_documents vault_host))"
    using plugin_init_index [OF m] by (simp add: spec_engine_def)
  show f: "FileItem (file_item.make LEXICAL ''a.md'' [] (SubItemText ''nothing'') JsUndefined)
     \<in> set (items (search_in_vault spec_engine (index_reindex_all (segment plain_tok_cfg None [] [] False) (all_documents vault_host)) ''alpha''))"
    unfolding spec_engine_def vault_host_def by code_simp
  from plugin_init_search_in_vault [OF m i [unfolded spec_engine_def] f [unfolded spec_engine_def]]
  show "\<exists>d \<in> set (all_documents vault_host). doc_path d = ''a.md'' \<and> segment plain_tok_cfg None [] [] True ''alpha'' \<noteq> [] \<and>
      (\<forall>t \<in> set (segment plain_tok_cfg None [] [] True ''alpha''). term_matches t (tokenize_doc (segment plain_tok_cfg None [] [] False) d))"
    by (simp add: file_item.make_def)
qed

end
